theory Spec2Isabelle
  imports Complex_Main "HOL-Library.Word"
begin

unbundle bit_operations_syntax

section \<open>JavaScript values used by the bot\<close>

text \<open>
  A JavaScript number is a finite value, \<open>NaN\<close> or one of the infinities. The
  finite values that occur in the modelled code are integers and short decimal
  fractions, so they are kept as exact rationals: on integers in the range of
  prices and night counts the double arithmetic of the source (a product with
  0.9, 1.1 or 1.2 followed by \<open>Math.round\<close>) has no tie that rounding to a
  double could move, and the exact value is the one the program computes. An
  optional field of an object (\<open>x?: number\<close>) is an \<open>option\<close>: \<open>None\<close> is
  \<open>undefined\<close>.
\<close>

datatype jsnum = Fin rat | NaN | PosInf | NegInf

text \<open>\<open>Number(x)\<close> for a field of type \<open>number | undefined\<close>.\<close>

fun Number_of :: "jsnum option \<Rightarrow> jsnum" where
  "Number_of None = NaN"
| "Number_of (Some n) = n"

fun isFinite :: "jsnum \<Rightarrow> bool" where
  "isFinite (Fin _) = True"
| "isFinite _ = False"

text \<open>\<open>x > 0\<close> on numbers: every comparison with \<open>NaN\<close> is false.\<close>

fun js_pos :: "jsnum \<Rightarrow> bool" where
  "js_pos (Fin q) = (0 < q)"
| "js_pos PosInf = True"
| "js_pos _ = False"

text \<open>\<open>Math.round\<close> rounds half up; \<open>Math.floor\<close> is the floor.\<close>

definition Math_round :: "rat \<Rightarrow> rat" where
  "Math_round x = of_int \<lfloor>x + 1 / 2\<rfloor>"

definition Math_floor :: "rat \<Rightarrow> rat" where
  "Math_floor x = of_int \<lfloor>x\<rfloor>"

section \<open>Strings and regular expressions\<close>

text \<open>
  Strings are lists of UTF-16 code units (all text handled here is in the Basic
  Multilingual Plane, where a code unit is a code point). \<open>asc\<close> embeds an
  ASCII literal. Russian words are written in a one-letter-per-letter Latin
  transliteration and mapped to Cyrillic code units by \<open>ru\<close>: a b v g d e z i j
  k l m n o p r s t u f h c y stand for the Cyrillic letters of the same sound
  (j is short i, h is kha, c is tse, y is yery), and Z = zhe, C = che, S = sha,
  W = shcha, Q = hard sign, X = soft sign, E = e reversed, U = yu, A = ya,
  O = yo. Every other character stands for itself.
\<close>

type_synonym ustring = "int list"

definition asc :: "string \<Rightarrow> ustring" where
  "asc s = map of_char s"

fun ru_char :: "char \<Rightarrow> int" where
  "ru_char c =
    (if c = CHR ''a'' then 1072 else if c = CHR ''b'' then 1073 else if c = CHR ''v'' then 1074
     else if c = CHR ''g'' then 1075 else if c = CHR ''d'' then 1076 else if c = CHR ''e'' then 1077
     else if c = CHR ''Z'' then 1078 else if c = CHR ''z'' then 1079 else if c = CHR ''i'' then 1080
     else if c = CHR ''j'' then 1081 else if c = CHR ''k'' then 1082 else if c = CHR ''l'' then 1083
     else if c = CHR ''m'' then 1084 else if c = CHR ''n'' then 1085 else if c = CHR ''o'' then 1086
     else if c = CHR ''p'' then 1087 else if c = CHR ''r'' then 1088 else if c = CHR ''s'' then 1089
     else if c = CHR ''t'' then 1090 else if c = CHR ''u'' then 1091 else if c = CHR ''f'' then 1092
     else if c = CHR ''h'' then 1093 else if c = CHR ''c'' then 1094 else if c = CHR ''C'' then 1095
     else if c = CHR ''S'' then 1096 else if c = CHR ''W'' then 1097 else if c = CHR ''Q'' then 1098
     else if c = CHR ''y'' then 1099 else if c = CHR ''X'' then 1100 else if c = CHR ''E'' then 1101
     else if c = CHR ''U'' then 1102 else if c = CHR ''A'' then 1103 else if c = CHR ''O'' then 1105
     else of_char c)"

definition ru :: "string \<Rightarrow> ustring" where
  "ru s = map ru_char s"

text \<open>A Russian word with its first letter in upper case (the labels of the tables).\<close>

fun cap :: "ustring \<Rightarrow> ustring" where
  "cap [] = []"
| "cap (c # cs) = (c - 32) # cs"

text \<open>The white space of \<open>String.prototype.trim\<close> and of the class \<open>\s\<close>.\<close>

definition isSpace :: "int \<Rightarrow> bool" where
  "isSpace c \<longleftrightarrow>
     c = 9 \<or> c = 10 \<or> c = 11 \<or> c = 12 \<or> c = 13 \<or> c = 32 \<or> c = 160 \<or> c = 5760 \<or>
     (8192 \<le> c \<and> c \<le> 8202) \<or> c = 8232 \<or> c = 8233 \<or> c = 8239 \<or> c = 8287 \<or>
     c = 12288 \<or> c = 65279"

definition isDigit :: "int \<Rightarrow> bool" where
  "isDigit c \<longleftrightarrow> 48 \<le> c \<and> c \<le> 57"

text \<open>The class \<open>\w\<close>, which is ASCII only: a Cyrillic letter is not a word character.\<close>

definition isWordChar :: "int \<Rightarrow> bool" where
  "isWordChar c \<longleftrightarrow>
     isDigit c \<or> (65 \<le> c \<and> c \<le> 90) \<or> (97 \<le> c \<and> c \<le> 122) \<or> c = 95"

definition trim :: "ustring \<Rightarrow> ustring" where
  "trim s = rev (dropWhile isSpace (rev (dropWhile isSpace s)))"

text \<open>
  \<open>toLowerCase\<close> on the Latin and Cyrillic letters; other code units are left
  alone (the texts and patterns of the bot use no other cased letters).
\<close>

definition lower_cu :: "int \<Rightarrow> int" where
  "lower_cu c =
     (if 65 \<le> c \<and> c \<le> 90 then c + 32
      else if 1040 \<le> c \<and> c \<le> 1071 then c + 32
      else if 1024 \<le> c \<and> c \<le> 1039 then c + 80
      else c)"

definition toLowerCase :: "ustring \<Rightarrow> ustring" where
  "toLowerCase s = map lower_cu s"

definition upper_cu :: "int \<Rightarrow> int" where
  "upper_cu c =
     (if 97 \<le> c \<and> c \<le> 122 then c - 32
      else if 1072 \<le> c \<and> c \<le> 1103 then c - 32
      else if 1104 \<le> c \<and> c \<le> 1119 then c - 80
      else c)"

definition toUpperCase :: "ustring \<Rightarrow> ustring" where
  "toUpperCase s = map upper_cu s"

text \<open>\<open>s.startsWith(p)\<close> and \<open>s.includes(p)\<close>.\<close>

fun startsWith :: "ustring \<Rightarrow> ustring \<Rightarrow> bool" where
  "startsWith s [] = True"
| "startsWith [] (p # ps) = False"
| "startsWith (c # cs) (p # ps) = (c = p \<and> startsWith cs ps)"

fun includesStr :: "ustring \<Rightarrow> ustring \<Rightarrow> bool" where
  "includesStr [] p = (p = [])"
| "includesStr (c # cs) p = (startsWith (c # cs) p \<or> includesStr cs p)"

text \<open>\<open>Number(digits)\<close> for a string of decimal digits, read exactly.\<close>

definition digitsToNumber :: "ustring \<Rightarrow> rat" where
  "digitsToNumber ds = of_int (foldl (\<lambda>acc c. 10 * acc + (c - 48)) 0 ds)"

subsection \<open>A backtracking matcher\<close>

text \<open>
  The regular expressions of the source are kept as data and run by a
  backtracking matcher with the priorities of the language: alternatives left
  to right, quantifiers greedy, an iteration of \<open>*\<close> or \<open>?\<close> that consumes
  nothing is rejected, the leftmost start position wins. A match state is the
  position reached and the captures made so far, most recent first; the matcher
  returns the states reachable from a state in priority order, so the head of
  the list is the match the language reports. With the flag \<open>i\<close> letters are
  compared after \<open>lower_cu\<close>.
\<close>

datatype citem = CChar int | CRange int int | CDigit | CSpace

datatype re =
    Lit int
  | Cls "citem list"
  | NCls "citem list"
  | Eps
  | Seq re re
  | Alt re re
  | Star re
  | Opt re
  | Grp nat re
  | Bol
  | Eol
  | WordB
  | Look re
  | NLook re

type_synonym mstate = "nat \<times> (nat \<times> nat \<times> nat) list"

fun citem_ok :: "citem \<Rightarrow> int \<Rightarrow> bool" where
  "citem_ok (CChar a) c = (a = c)"
| "citem_ok (CRange a b) c = (a \<le> c \<and> c \<le> b)"
| "citem_ok CDigit c = isDigit c"
| "citem_ok CSpace c = isSpace c"

definition cls_ok :: "bool \<Rightarrow> citem list \<Rightarrow> int \<Rightarrow> bool" where
  "cls_ok ic items c \<longleftrightarrow>
     list_ex (\<lambda>i. citem_ok i c \<or> (ic \<and> (citem_ok i (lower_cu c) \<or> citem_ok i (upper_cu c)))) items"

definition lit_ok :: "bool \<Rightarrow> int \<Rightarrow> int \<Rightarrow> bool" where
  "lit_ok ic a c \<longleftrightarrow> (if ic then lower_cu a = lower_cu c else a = c)"

definition one_char :: "ustring \<Rightarrow> (int \<Rightarrow> bool) \<Rightarrow> mstate \<Rightarrow> mstate list" where
  "one_char s P st =
     (if fst st < length s \<and> P (s ! fst st) then [(Suc (fst st), snd st)] else [])"

definition at_boundary :: "ustring \<Rightarrow> nat \<Rightarrow> bool" where
  "at_boundary s p \<longleftrightarrow>
     (let a = (0 < p \<and> p \<le> length s \<and> isWordChar (s ! (p - 1)));
          b = (p < length s \<and> isWordChar (s ! p))
      in a \<noteq> b)"

text \<open>
  Greedy iteration: another round first, then stopping. A round must move
  forward, so the number of rounds is bounded by the characters left, which is
  the fuel.
\<close>

fun iter :: "nat \<Rightarrow> (mstate \<Rightarrow> mstate list) \<Rightarrow> mstate \<Rightarrow> mstate list" where
  "iter 0 f st = [st]"
| "iter (Suc n) f st =
     concat (map (\<lambda>st'. if fst st < fst st' then iter n f st' else []) (f st)) @ [st]"

primrec rmatch :: "bool \<Rightarrow> ustring \<Rightarrow> re \<Rightarrow> mstate \<Rightarrow> mstate list" where
  "rmatch ic s (Lit a) st = one_char s (lit_ok ic a) st"
| "rmatch ic s (Cls items) st = one_char s (cls_ok ic items) st"
| "rmatch ic s (NCls items) st = one_char s (\<lambda>c. \<not> cls_ok ic items c) st"
| "rmatch ic s Eps st = [st]"
| "rmatch ic s (Seq a b) st = concat (map (rmatch ic s b) (rmatch ic s a st))"
| "rmatch ic s (Alt a b) st = rmatch ic s a st @ rmatch ic s b st"
| "rmatch ic s (Star a) st = iter (length s - fst st) (rmatch ic s a) st"
| "rmatch ic s (Opt a) st = filter (\<lambda>st'. fst st' \<noteq> fst st) (rmatch ic s a st) @ [st]"
| "rmatch ic s (Grp k a) st =
     map (\<lambda>st'. (fst st', (k, fst st, fst st') # snd st')) (rmatch ic s a st)"
| "rmatch ic s Bol st = (if fst st = 0 then [st] else [])"
| "rmatch ic s Eol st = (if fst st = length s then [st] else [])"
| "rmatch ic s WordB st = (if at_boundary s (fst st) then [st] else [])"
| "rmatch ic s (Look a) st =
     (case rmatch ic s a st of [] \<Rightarrow> [] | st' # _ \<Rightarrow> [(fst st, snd st')])"
| "rmatch ic s (NLook a) st = (if rmatch ic s a st = [] then [st] else [])"

text \<open>\<open>re.exec(s)\<close>: the first start position with a match, and that match.\<close>

fun scan :: "bool \<Rightarrow> ustring \<Rightarrow> re \<Rightarrow> nat \<Rightarrow> nat \<Rightarrow> (nat \<times> mstate) option" where
  "scan ic s r p 0 = None"
| "scan ic s r p (Suc n) =
     (case rmatch ic s r (p, []) of
        [] \<Rightarrow> scan ic s r (Suc p) n
      | st # _ \<Rightarrow> Some (p, st))"

definition exec :: "bool \<Rightarrow> re \<Rightarrow> ustring \<Rightarrow> (nat \<times> mstate) option" where
  "exec ic r s = scan ic s r 0 (Suc (length s))"

definition test :: "bool \<Rightarrow> re \<Rightarrow> ustring \<Rightarrow> bool" where
  "test ic r s \<longleftrightarrow> exec ic r s \<noteq> None"

text \<open>The text of capture group \<open>k\<close> of a match; \<open>None\<close> when the group took no part.\<close>

definition group :: "ustring \<Rightarrow> (nat \<times> mstate) \<Rightarrow> nat \<Rightarrow> ustring option" where
  "group s mt k =
     (case map_of (snd (snd mt)) k of
        None \<Rightarrow> None
      | Some (a, b) \<Rightarrow> Some (take (b - a) (drop a s)))"

text \<open>\<open>s.replace(re, "")\<close> with the flag \<open>g\<close>: every match, left to right, is cut out.\<close>

fun removeAll :: "bool \<Rightarrow> re \<Rightarrow> ustring \<Rightarrow> nat \<Rightarrow> nat \<Rightarrow> ustring" where
  "removeAll ic r s p 0 = []"
| "removeAll ic r s p (Suc n) =
     (if length s \<le> p then []
      else case rmatch ic s r (p, []) of
             [] \<Rightarrow> s ! p # removeAll ic r s (Suc p) n
           | st # _ \<Rightarrow>
               if fst st \<le> p then s ! p # removeAll ic r s (Suc p) n
               else removeAll ic r s (fst st) n)"

definition replaceAllEmpty :: "bool \<Rightarrow> re \<Rightarrow> ustring \<Rightarrow> ustring" where
  "replaceAllEmpty ic r s = removeAll ic r s 0 (length s)"

subsection \<open>Writing patterns\<close>

fun lits :: "ustring \<Rightarrow> re" where
  "lits [] = Eps"
| "lits [c] = Lit c"
| "lits (c # cs) = Seq (Lit c) (lits cs)"

fun alts :: "re list \<Rightarrow> re" where
  "alts [] = NLook Eps"
| "alts [r] = r"
| "alts (r # rs) = Alt r (alts rs)"

fun seqs :: "re list \<Rightarrow> re" where
  "seqs [] = Eps"
| "seqs [r] = r"
| "seqs (r # rs) = Seq r (seqs rs)"

definition Plus :: "re \<Rightarrow> re" where
  "Plus r = Seq r (Star r)"

fun rep_opt :: "nat \<Rightarrow> re \<Rightarrow> re" where
  "rep_opt 0 r = Eps"
| "rep_opt (Suc n) r = Opt (Seq r (rep_opt n r))"

fun rep_exact :: "nat \<Rightarrow> re \<Rightarrow> re" where
  "rep_exact 0 r = Eps"
| "rep_exact (Suc n) r = Seq r (rep_exact n r)"

text \<open>\<open>r{lo,hi}\<close>, greedy.\<close>

definition Rep :: "nat \<Rightarrow> nat \<Rightarrow> re \<Rightarrow> re" where
  "Rep lo hi r = Seq (rep_exact lo r) (rep_opt (hi - lo) r)"

definition re_d :: re where "re_d = Cls [CDigit]"
definition re_s :: re where "re_s = Cls [CSpace]"
definition re_dot :: re where "re_dot = Lit 46"

text \<open>A word of the transliteration, and an ASCII word, as patterns.\<close>

definition rw :: "string \<Rightarrow> re" where "rw w = lits (ru w)"
definition aw :: "string \<Rightarrow> re" where "aw w = lits (asc w)"


section \<open>Lexical extractors (nlu/parseQuery)\<close>

datatype SupportedCountry = Turkey | Egypt | Thailand | UAE | Maldives | Seychelles

datatype BudgetIntent =
    BMax rat
  | BRange rat rat
  | BApprox rat rat rat

text \<open>The budget's \<open>max\<close>, which every variant has.\<close>

fun budget_max_of :: "BudgetIntent \<Rightarrow> rat" where
  "budget_max_of (BMax mx) = mx"
| "budget_max_of (BRange mn mx) = mx"
| "budget_max_of (BApprox v mn mx) = mx"

definition APPROX_PCT :: rat where
  "APPROX_PCT = 1 / 10"

text \<open>\<open>\bword\b\<close> for an ASCII word.\<close>

definition wb :: "string \<Rightarrow> re" where
  "wb w = seqs [WordB, aw w, WordB]"

definition COUNTRY_ALIASES :: "(SupportedCountry \<times> re list) list" where
  "COUNTRY_ALIASES =
    [(Turkey, [wb ''turkey'', rw ''turc'']),
     (Egypt, [wb ''egypt'', rw ''egip'']),
     (Thailand, [wb ''thailand'', rw ''tail'',
        seqs [Grp 1 (Alt Bol re_s), rw ''taj'', NLook (rw ''p'')]]),
     (UAE, [wb ''uae'', rw ''oaE'', rw ''Emirat'', wb ''emirates'', rw ''dubaj'']),
     (Maldives, [wb ''maldives'', rw ''malXdiv'']),
     (Seychelles, [wb ''seychelles'', rw ''sejSel''])]"

definition UNSUPPORTED_GEO_PATTERNS :: "(ustring \<times> re) list" where
  "UNSUPPORTED_GEO_PATTERNS =
    [(cap (ru ''afrika''), Alt (rw ''afrik'') (wb ''africa'')),
     (cap (ru ''italiA''), Alt (rw ''ital'') (wb ''italy'')),
     (cap (ru ''franciA''), Alt (rw ''franc'') (wb ''france'')),
     (cap (ru ''rossiA''), Alt (rw ''rossi'') (wb ''russia'')),
     (cap (ru ''vXetnam''), Alt (rw ''vXet'') (wb ''vietnam'')),
     (cap (ru ''avstraliA''), Alt (rw ''avstral'') (wb ''australia'')),
     (cap (ru ''ispaniA''), Alt (rw ''ispan'') (wb ''spain'')),
     (cap (ru ''greciA''), Alt (rw ''grec'') (wb ''greece''))]"

text \<open>
  \<open>normalizeText\<close>: yo becomes ye, the dashes U+2010 to U+2015 become a
  hyphen, the no-break and thin spaces become a space, and the result is trimmed.
\<close>

definition normalizeText :: "ustring \<Rightarrow> ustring" where
  "normalizeText input =
     trim (map (\<lambda>c. if c = 160 \<or> c = 8201 \<or> c = 8239 then 32 else c)
       (map (\<lambda>c. if 8208 \<le> c \<and> c \<le> 8213 then 45 else c)
         (map (\<lambda>c. if c = 1105 then 1077 else c) input)))"

definition normalizeLower :: "ustring \<Rightarrow> ustring" where
  "normalizeLower input = toLowerCase (normalizeText input)"

record CountryMatch =
  country :: "SupportedCountry option"
  unknownCountry :: "ustring option"

definition extractCountry :: "ustring \<Rightarrow> CountryMatch" where
  "extractCountry text =
     (let normalized = normalizeText text in
      case find (\<lambda>item. list_ex (\<lambda>p. test True p normalized) (snd item)) COUNTRY_ALIASES of
        Some item \<Rightarrow> \<lparr> country = Some (fst item), unknownCountry = None \<rparr>
      | None \<Rightarrow>
          (case find (\<lambda>item. test True (snd item) normalized) UNSUPPORTED_GEO_PATTERNS of
             Some item \<Rightarrow> \<lparr> country = None, unknownCountry = Some (fst item) \<rparr>
           | None \<Rightarrow> \<lparr> country = None, unknownCountry = None \<rparr>))"

definition nights_direct_re :: re where
  "nights_direct_re =
     seqs [Opt (Seq (rw ''na'') (Star re_s)), Grp 1 (Rep 1 2 re_d), Star re_s,
       alts [Seq (rw ''noC'') (Opt (alts [rw ''ej'', rw ''i'', rw ''X''])),
             Seq (rw ''dn'') (Opt (alts [rw ''ej'', rw ''A''])),
             Seq (rw ''dn'') (Look (Alt re_s Eol)),
             Seq (rw ''d'') (Look (Alt re_s Eol)),
             Seq (rw ''sut'') (Opt (alts [rw ''ok'', rw ''ki'']))]]"

definition nights_shorthand_re :: re where
  "nights_shorthand_re =
     seqs [Alt Bol re_s, Grp 1 (Rep 1 2 re_d), Star re_s,
       alts [rw ''n'', rw ''d'', rw ''dn''], Look (Alt re_s Eol)]"

text \<open>The night count captured by a pattern, when it lies in 1..30.\<close>

definition nights_of_match :: "re \<Rightarrow> ustring \<Rightarrow> rat option" where
  "nights_of_match r t =
     (case exec True r t of
        None \<Rightarrow> None
      | Some mt \<Rightarrow>
          (case group t mt 1 of
             None \<Rightarrow> None
           | Some g \<Rightarrow>
               (let v = digitsToNumber g in
                if 1 \<le> v \<and> v \<le> 30 then Some (Math_floor v) else None)))"

definition extractNights :: "ustring \<Rightarrow> rat option" where
  "extractNights text =
     (let t = normalizeLower text in
      if includesStr t (ru ''na vyhodnye'') then Some 3
      else if includesStr t (ru ''na nedelU'') then Some 7
      else if includesStr t (ru ''dve nedeli'') then Some 14
      else case nights_of_match nights_direct_re t of
             Some v \<Rightarrow> Some v
           | None \<Rightarrow> nights_of_match nights_shorthand_re t)"

text \<open>The thousands markers that may follow an amount: k (Cyrillic or Latin), tys, tysyach, t.r., t.\<close>

definition marker_alts :: re where
  "marker_alts =
     alts [rw ''k'', aw ''k'', rw ''tys'', rw ''tysAC'',
           seqs [rw ''t'', Opt re_dot, rw ''r'', Opt re_dot], rw ''t'']"

text \<open>\<open>[\d\s]+(?:marker)?\<close> and \<open>[\d\s.,]+(?:marker)?\<close>.\<close>

definition money_re :: re where
  "money_re = Seq (Plus (Cls [CDigit, CSpace])) (Opt marker_alts)"

definition money_dots_re :: re where
  "money_dots_re = Seq (Plus (Cls [CDigit, CSpace, CChar 46, CChar 44])) (Opt marker_alts)"

text \<open>The test for a marker inside a captured side of a range: here t must stand between word boundaries.\<close>

definition hasK_re :: re where
  "hasK_re =
     Grp 1 (alts [rw ''k'', aw ''k'', rw ''tys'', rw ''tysAC'',
                  seqs [rw ''t'', Opt re_dot, rw ''r'', Opt re_dot],
                  seqs [WordB, rw ''t'', WordB]])"

definition rub_re :: re where
  "rub_re =
     Alt (Seq (rw ''rub'') (Opt (Alt (rw ''lej'') (rw ''lA''))))
         (Seq (rw ''r'') (Opt re_dot))"

definition thousands_re :: re where
  "thousands_re =
     Grp 1 (alts [rw ''tys'', rw ''tysAC'',
                  seqs [rw ''t'', Opt re_dot, rw ''r'', Opt re_dot],
                  seqs [WordB, rw ''t'', WordB],
                  Seq (rw ''k'') (Opt (rw ''k'')), aw ''k''])"

definition parseMoneyToken :: "ustring \<Rightarrow> bool \<Rightarrow> rat option" where
  "parseMoneyToken token forceThousands =
     (let raw = trim (filter (\<lambda>c. c \<noteq> 8381)
                  (replaceAllEmpty False rub_re (normalizeLower token)))
      in if raw = [] then None
         else
           let hasThousands = (forceThousands \<or> test True thousands_re raw);
               digits = filter isDigit raw
           in if digits = [] then None
              else
                let num = digitsToNumber digits
                in if num \<le> 0 then None
                   else
                     let v = (if hasThousands then num * 1000 else num)
                     in Some (Math_round v))"

definition round100 :: "rat \<Rightarrow> rat" where
  "round100 n = Math_round (n / 100) * 100"

definition rangeFromTo_re :: re where
  "rangeFromTo_re =
     seqs [Alt (rw ''ot'') (rw ''s''), Star re_s, Grp 1 money_dots_re, Star re_s,
           Alt (rw ''do'') (rw ''po''), Star re_s, Grp 2 money_dots_re]"

definition dashRange_re :: re where
  "dashRange_re = seqs [Grp 1 money_re, Star re_s, Lit 45, Star re_s, Grp 2 money_re]"

definition maxMatch_re :: re where
  "maxMatch_re =
     seqs [alts [rw ''do'', aw ''<='', seqs [rw ''ne'', Star re_s, rw ''bolXSe''],
                 Seq (rw ''maks'') (Opt (rw ''imum''))],
           Star re_s, Grp 1 money_re]"

definition approxMatch_re :: re where
  "approxMatch_re =
     seqs [alts [rw ''okolo'', rw ''primerno'', Seq (rw ''pribl'') (Opt (rw ''izitelXno'')),
                 rw ''porAdka'', Lit 126, Lit 8776],
           Star re_s, Grp 1 money_re]"

definition approxTrailing_re :: re where
  "approxTrailing_re =
     seqs [Grp 1 money_re, Star re_s,
           alts [rw ''primerno'', Seq (rw ''pribl'') (Opt (rw ''izitelXno'')), rw ''okolo''],
           WordB]"

definition bareMoney_re :: re where
  "bareMoney_re =
     seqs [Alt Bol re_s,
           Grp 1 (Alt (Seq (Rep 2 3 re_d) (Opt (Seq (Opt re_s) (rep_exact 3 re_d))))
                      (Rep 5 7 re_d)),
           Star re_s, Opt (Grp 2 marker_alts), alts [re_s, Eol, Lit 63]]"

text \<open>
  The two sides of a matched range: a marker found on one side only is forced
  on the other (\<open>sharedThousands && !leftHasK\<close>).
\<close>

definition range_of_match :: "re \<Rightarrow> ustring \<Rightarrow> BudgetIntent option" where
  "range_of_match r s =
     (case exec True r s of
        None \<Rightarrow> None
      | Some mt \<Rightarrow>
          (case (group s mt 1, group s mt 2) of
             (Some g1, Some g2) \<Rightarrow>
               (let leftHasK = test True hasK_re g1;
                    rightHasK = test True hasK_re g2;
                    sharedThousands = (leftHasK \<or> rightHasK);
                    a = parseMoneyToken g1 (sharedThousands \<and> \<not> leftHasK);
                    b = parseMoneyToken g2 (sharedThousands \<and> \<not> rightHasK)
                in case (a, b) of
                     (Some x, Some y) \<Rightarrow> Some (BRange (min x y) (max x y))
                   | _ \<Rightarrow> None)
           | _ \<Rightarrow> None))"

definition mkApprox :: "rat \<Rightarrow> BudgetIntent" where
  "mkApprox v =
     (let mn = round100 (v * (1 - APPROX_PCT));
          mx = round100 (v * (1 + APPROX_PCT))
      in BApprox v (min mn mx) (max mn mx))"

text \<open>The amount captured as group 1 of a pattern, read by \<open>parseMoneyToken\<close>.\<close>

definition amount_of_match :: "re \<Rightarrow> ustring \<Rightarrow> rat option" where
  "amount_of_match r s =
     (case exec True r s of
        None \<Rightarrow> None
      | Some mt \<Rightarrow>
          (case group s mt 1 of
             None \<Rightarrow> None
           | Some g \<Rightarrow> parseMoneyToken g False))"

definition bare_amount :: "ustring \<Rightarrow> rat option" where
  "bare_amount s =
     (case exec True bareMoney_re s of
        None \<Rightarrow> None
      | Some mt \<Rightarrow>
          (case group s mt 1 of
             None \<Rightarrow> None
           | Some g1 \<Rightarrow>
               parseMoneyToken
                 (g1 @ (case group s mt 2 of None \<Rightarrow> [] | Some g2 \<Rightarrow> g2)) False))"

definition extractBudget :: "ustring \<Rightarrow> BudgetIntent option" where
  "extractBudget text =
     (let original = normalizeText text;
          t = normalizeLower text
      in case range_of_match rangeFromTo_re t of
           Some b \<Rightarrow> Some b
         | None \<Rightarrow>
        (case range_of_match dashRange_re original of
           Some b \<Rightarrow> Some b
         | None \<Rightarrow>
        (case amount_of_match maxMatch_re t of
           Some v \<Rightarrow> Some (BMax v)
         | None \<Rightarrow>
        (case amount_of_match approxMatch_re t of
           Some v \<Rightarrow> Some (mkApprox v)
         | None \<Rightarrow>
        (case amount_of_match approxTrailing_re t of
           Some v \<Rightarrow> Some (mkApprox v)
         | None \<Rightarrow>
        (case bare_amount t of
           Some v \<Rightarrow> Some (mkApprox v)
         | None \<Rightarrow> None))))))"

text \<open>
  The rules of \<open>extractBudget\<close> by kind, for stating what it returns: whether a
  range or a ceiling is found (the rules tried first), and the amount read by
  the approx rules in the source's order (a leading marker word, a trailing
  marker word, a bare number).
\<close>

definition rangeOrMaxFound :: "ustring \<Rightarrow> bool" where
  "rangeOrMaxFound text \<longleftrightarrow>
     range_of_match rangeFromTo_re (normalizeLower text) \<noteq> None \<or>
     range_of_match dashRange_re (normalizeText text) \<noteq> None \<or>
     amount_of_match maxMatch_re (normalizeLower text) \<noteq> None"

definition approxRuleAmount :: "ustring \<Rightarrow> rat option" where
  "approxRuleAmount text =
     (let t = normalizeLower text in
      case amount_of_match approxMatch_re t of
        Some v \<Rightarrow> Some v
      | None \<Rightarrow>
          (case amount_of_match approxTrailing_re t of
             Some v \<Rightarrow> Some v
           | None \<Rightarrow> bare_amount t))"


section \<open>Search arguments and drafts\<close>

datatype PeriodCode = next_month | one_two_months | summer | autumn

datatype SortOrder = price_asc | price_desc

text \<open>A field of type \<open>number | string\<close> (\<open>meal\<close>, \<open>rating\<close>).\<close>

datatype numstr = NumV jsnum | StrV ustring

text \<open>
  \<open>Partial<SearchToursInput>\<close>, the type of drafts, of patches and (with every
  required field filled) of the arguments of a search. Every field is optional.
  The fields \<open>destination\<close>, \<open>city_name\<close> and \<open>resort_name\<close> are never written
  by the bot and are left out.
\<close>

record draft =
  country_id :: "jsnum option"
  country_name :: "ustring option"
  departure_id :: "jsnum option"
  date_from :: "ustring option"
  date_to :: "ustring option"
  nights_min :: "jsnum option"
  nights_max :: "jsnum option"
  adults :: "jsnum option"
  children :: "jsnum option"
  period :: "PeriodCode option"
  budget_min :: "jsnum option"
  budget_max :: "jsnum option"
  meal :: "numstr option"
  rating :: "numstr option"
  limit :: "jsnum option"
  offset :: "jsnum option"
  sort :: "SortOrder option"

definition emptyDraft :: draft where
  "emptyDraft = \<lparr> country_id = None, country_name = None, departure_id = None,
     date_from = None, date_to = None, nights_min = None, nights_max = None,
     adults = None, children = None, period = None, budget_min = None,
     budget_max = None, meal = None, rating = None, limit = None, offset = None,
     sort = None \<rparr>"

definition DEFAULT_SEARCH_TOURS_ARGS :: draft where
  "DEFAULT_SEARCH_TOURS_ARGS = \<lparr> country_id = None, country_name = None,
     departure_id = Some (Fin 1),
     date_from = Some (asc ''2026-06-01''), date_to = Some (asc ''2026-06-20''),
     nights_min = Some (Fin 6), nights_max = Some (Fin 10),
     adults = Some (Fin 2), children = Some (Fin 0), period = None, budget_min = None,
     budget_max = Some (Fin 0), meal = Some (NumV (Fin 0)), rating = Some (NumV (Fin 0)),
     limit = Some (Fin 5), offset = Some (Fin 0), sort = Some price_asc \<rparr>"

text \<open>\<open>{...a, ...b}\<close>: a field of \<open>b\<close> that is defined overrides the field of \<open>a\<close>.\<close>

definition orElse :: "'a option \<Rightarrow> 'a option \<Rightarrow> 'a option" where
  "orElse x y = (case x of Some v \<Rightarrow> Some v | None \<Rightarrow> y)"

definition spread :: "draft \<Rightarrow> draft \<Rightarrow> draft" where
  "spread a b = \<lparr>
     country_id = orElse (country_id b) (country_id a),
     country_name = orElse (country_name b) (country_name a),
     departure_id = orElse (departure_id b) (departure_id a),
     date_from = orElse (date_from b) (date_from a),
     date_to = orElse (date_to b) (date_to a),
     nights_min = orElse (nights_min b) (nights_min a),
     nights_max = orElse (nights_max b) (nights_max a),
     adults = orElse (adults b) (adults a),
     children = orElse (children b) (children a),
     period = orElse (period b) (period a),
     budget_min = orElse (budget_min b) (budget_min a),
     budget_max = orElse (budget_max b) (budget_max a),
     meal = orElse (meal b) (meal a),
     rating = orElse (rating b) (rating a),
     limit = orElse (limit b) (limit a),
     offset = orElse (offset b) (offset a),
     sort = orElse (sort b) (sort a) \<rparr>"

datatype MissingField = Country | Nights | Budget

text \<open>\<open>ChatState["aiAwaiting"]\<close>; \<open>None\<close> is \<open>null\<close> (or the field left undefined).\<close>

datatype awaiting = AwCountry | AwNights | AwBudget | AwNightsBudget

section \<open>The orchestrator\<close>

definition nameOf :: "SupportedCountry \<Rightarrow> ustring" where
  "nameOf c =
     (case c of Turkey \<Rightarrow> asc ''Turkey'' | Egypt \<Rightarrow> asc ''Egypt''
      | Thailand \<Rightarrow> asc ''Thailand'' | UAE \<Rightarrow> asc ''UAE''
      | Maldives \<Rightarrow> asc ''Maldives'' | Seychelles \<Rightarrow> asc ''Seychelles'')"

definition COUNTRY_TO_ID :: "SupportedCountry \<Rightarrow> rat" where
  "COUNTRY_TO_ID c =
     (case c of Turkey \<Rightarrow> 47 | Egypt \<Rightarrow> 54 | Thailand \<Rightarrow> 29 | UAE \<Rightarrow> 63
      | Maldives \<Rightarrow> 90 | Seychelles \<Rightarrow> 91)"

definition SUPPORTED_COUNTRIES :: "SupportedCountry list" where
  "SUPPORTED_COUNTRIES = [Turkey, Egypt, Thailand, UAE, Maldives, Seychelles]"

text \<open>\<open>COUNTRY_TO_ID[name]\<close> for an arbitrary string.\<close>

definition countryIdByName :: "ustring \<Rightarrow> rat option" where
  "countryIdByName name =
     map_option COUNTRY_TO_ID (find (\<lambda>c. nameOf c = name) SUPPORTED_COUNTRIES)"

definition normalizeCountryName :: "ustring \<Rightarrow> SupportedCountry option" where
  "normalizeCountryName countryName =
     (let lower = toLowerCase (trim countryName) in
      if lower = [] then None
      else if lower = asc ''turkey'' \<or> includesStr lower (ru ''turc'') then Some Turkey
      else if lower = asc ''egypt'' \<or> includesStr lower (ru ''egip'') then Some Egypt
      else if lower = asc ''uae'' \<or> includesStr lower (ru ''oaE'') \<or>
              includesStr lower (ru ''Emirat'') \<or> includesStr lower (ru ''dubaj'') \<or>
              includesStr lower (asc ''emirates'') then Some UAE
      else if lower = asc ''thailand'' \<or> includesStr lower (ru ''taj'') \<or>
              includesStr lower (ru ''tail'') then Some Thailand
      else if lower = asc ''maldives'' \<or> includesStr lower (ru ''malXdiv'') then Some Maldives
      else if lower = asc ''seychelles'' \<or> includesStr lower (ru ''sejSel'') then Some Seychelles
      else None)"

text \<open>\<open>getMappedCountryId\<close>; an absent name is not a string and maps to nothing.\<close>

definition getMappedCountryId :: "ustring option \<Rightarrow> rat option" where
  "getMappedCountryId countryName =
     (case countryName of
        None \<Rightarrow> None
      | Some n \<Rightarrow> map_option COUNTRY_TO_ID (normalizeCountryName n))"

definition detectCountryNameFromText :: "ustring \<Rightarrow> SupportedCountry option" where
  "detectCountryNameFromText input = normalizeCountryName input"

definition extractNightsFromText :: "ustring \<Rightarrow> rat option" where
  "extractNightsFromText input = extractNights input"

definition extractBudgetFromText :: "ustring \<Rightarrow> rat option" where
  "extractBudgetFromText input = map_option budget_max_of (extractBudget input)"

definition extractBudgetRangeFromText :: "ustring \<Rightarrow> (rat \<times> rat) option" where
  "extractBudgetRangeFromText input =
     (case extractBudget input of
        Some (BRange mn mx) \<Rightarrow> Some (mn, mx)
      | Some (BApprox v mn mx) \<Rightarrow> Some (mn, mx)
      | _ \<Rightarrow> None)"

definition extractAdultsFromText :: "ustring \<Rightarrow> rat option" where
  "extractAdultsFromText input =
     (let text = toLowerCase input in
      if includesStr text (ru ''na dvoih'') \<or> includesStr text (ru ''2 vzroslyh'') \<or>
         includesStr text (ru ''dva vzroslyh'') then Some 2 else None)"

definition extractPeriodFromText :: "ustring \<Rightarrow> PeriodCode option" where
  "extractPeriodFromText input =
     (let text = toLowerCase input in
      if includesStr text (ru ''letom'') then Some summer
      else if includesStr text (ru ''osenXU'') then Some autumn
      else if includesStr text (ru ''Cerez 1-2'') \<or>
              includesStr text (ru ''Cerez 1'' @ [8211] @ asc ''2'') \<or>
              includesStr text (ru ''Cerez 1 2'') then Some one_two_months
      else if includesStr text (ru ''Cerez mesAc'') \<or>
              includesStr text (ru ''v sleduUWem mesAce'') \<or>
              includesStr text (ru ''v bliZajSij mesAc'') then Some next_month
      else None)"

text \<open>\<open>x === undefined || x <= 0\<close> for a budget field.\<close>

fun unset_or_nonpos :: "jsnum option \<Rightarrow> bool" where
  "unset_or_nonpos None = True"
| "unset_or_nonpos (Some (Fin q)) = (q \<le> 0)"
| "unset_or_nonpos (Some NegInf) = True"
| "unset_or_nonpos (Some _) = False"

text \<open>
  \<open>buildDraftArgs\<close>, statement by statement: each step below is one \<open>if\<close>
  block of the source, applied to the draft built so far. The block that fills
  \<open>date_from\<close> and \<open>date_to\<close> from a month named in the text is left out: no
  property below reads the dates of a draft.
\<close>

definition fillCountryFromName :: "draft \<Rightarrow> draft \<Rightarrow> draft" where
  "fillCountryFromName args d =
     (let countryId = getMappedCountryId (country_name args);
          d = (if country_id d = None \<and> countryId \<noteq> None
               then d\<lparr>country_id := map_option Fin countryId\<rparr> else d)
      in case countryId of
           None \<Rightarrow> d
         | Some cid \<Rightarrow>
             d\<lparr>country_name :=
                 map_option nameOf
                   (find (\<lambda>name. COUNTRY_TO_ID name = cid) SUPPORTED_COUNTRIES)\<rparr>)"

definition fillCountryFromText :: "ustring \<Rightarrow> draft \<Rightarrow> draft" where
  "fillCountryFromText input d =
     (if country_id d = None \<and> country_name d = None
      then (case detectCountryNameFromText input of
              None \<Rightarrow> d
            | Some detectedCountry \<Rightarrow>
                d\<lparr>country_name := Some (nameOf detectedCountry),
                  country_id := Some (Fin (COUNTRY_TO_ID detectedCountry))\<rparr>)
      else d)"

definition fillNights :: "ustring \<Rightarrow> draft \<Rightarrow> draft" where
  "fillNights input d =
     (if nights_min d = None \<or> nights_max d = None
      then (case extractNightsFromText input of
              None \<Rightarrow> d
            | Some nights \<Rightarrow>
                d\<lparr>nights_min := Some (Fin nights), nights_max := Some (Fin nights)\<rparr>)
      else d)"

definition fillBudgetRange :: "ustring \<Rightarrow> draft \<Rightarrow> draft" where
  "fillBudgetRange input d =
     (case extractBudgetRangeFromText input of
        None \<Rightarrow> d
      | Some budgetRange \<Rightarrow>
          if unset_or_nonpos (budget_max d)
          then d\<lparr>budget_min := Some (Fin (fst budgetRange)),
                 budget_max := Some (Fin (snd budgetRange))\<rparr>
          else d)"

definition fillBudgetMax :: "ustring \<Rightarrow> draft \<Rightarrow> draft" where
  "fillBudgetMax input d =
     (if unset_or_nonpos (budget_max d)
      then (case extractBudgetFromText input of
              None \<Rightarrow> d
            | Some budget \<Rightarrow> d\<lparr>budget_max := Some (Fin budget)\<rparr>)
      else d)"

definition fillAdults :: "ustring \<Rightarrow> draft \<Rightarrow> draft" where
  "fillAdults input d =
     (if adults d = None
      then (case extractAdultsFromText input of
              None \<Rightarrow> d
            | Some a \<Rightarrow> d\<lparr>adults := Some (Fin a)\<rparr>)
      else d)"

definition fillPeriod :: "ustring \<Rightarrow> draft \<Rightarrow> draft" where
  "fillPeriod input d =
     (if period d = None
      then (case extractPeriodFromText input of
              None \<Rightarrow> d
            | Some p \<Rightarrow> d\<lparr>period := Some p\<rparr>)
      else d)"

definition buildDraftArgs :: "ustring \<Rightarrow> draft \<Rightarrow> draft" where
  "buildDraftArgs input args =
     (let d = args;
          d = fillCountryFromName args d;
          d = fillCountryFromText input d;
          d = fillNights input d;
          d = fillBudgetRange input d;
          d = fillBudgetMax input d;
          d = fillAdults input d;
          d = fillPeriod input d
      in d)"

definition hasCountry :: "draft \<Rightarrow> bool" where
  "hasCountry d \<longleftrightarrow>
     country_id d \<noteq> None \<or>
     (case country_name d of None \<Rightarrow> False | Some n \<Rightarrow> trim n \<noteq> [])"

definition hasNights :: "draft \<Rightarrow> bool" where
  "hasNights d \<longleftrightarrow>
     isFinite (Number_of (nights_min d)) \<and> isFinite (Number_of (nights_max d))"

definition hasBudget :: "draft \<Rightarrow> bool" where
  "hasBudget d \<longleftrightarrow>
     isFinite (Number_of (budget_max d)) \<and> js_pos (Number_of (budget_max d))"

definition getMissingFields :: "draft \<Rightarrow> MissingField list" where
  "getMissingFields d =
     (let missing = [];
          missing = (if \<not> hasCountry d then missing @ [Country] else missing);
          missing = (if \<not> hasNights d then missing @ [Nights] else missing);
          missing = (if \<not> hasBudget d then missing @ [Budget] else missing)
      in missing)"

text \<open>
  \<open>buildSearchArgs\<close> of the orchestrator: the defaults under the draft, and the
  country id looked up from the name when it is missing. The schema accepts the
  result (its fields were validated or written above), so parsing returns it.
\<close>

definition buildSearchArgs :: "draft \<Rightarrow> draft" where
  "buildSearchArgs args =
     (let merged = spread DEFAULT_SEARCH_TOURS_ARGS args in
      case (country_id merged, country_name merged) of
        (None, Some n) \<Rightarrow>
          (case countryIdByName n of
             None \<Rightarrow> merged
           | Some cid \<Rightarrow> merged\<lparr>country_id := Some (Fin cid)\<rparr>)
      | _ \<Rightarrow> merged)"

definition looksLikeTravelText :: "ustring \<Rightarrow> bool" where
  "looksLikeTravelText input =
     (let t = toLowerCase input in
      includesStr t (ru ''tur'') \<or> includesStr t (ru ''otpusk'') \<or>
      includesStr t (ru ''poehatX'') \<or> includesStr t (ru ''hoCu''))"

definition hasUnsupportedDestinationMention :: "ustring \<Rightarrow> bool" where
  "hasUnsupportedDestinationMention input =
     (let t = toLowerCase input in
      if normalizeCountryName t \<noteq> None then False
      else
        includesStr t (ru ''afrik'') \<or> includesStr t (asc ''africa'') \<or>
        includesStr t (ru ''vXet'') \<or> includesStr t (asc ''vietnam'') \<or>
        includesStr t (ru ''rossi'') \<or> includesStr t (asc ''russia'') \<or>
        includesStr t (ru ''ital'') \<or> includesStr t (asc ''italy'') \<or>
        includesStr t (ru ''avstral'') \<or> includesStr t (asc ''australia'') \<or>
        includesStr t (ru ''ispan'') \<or> includesStr t (asc ''spain''))"

text \<open>
  The classifier's answer after the fallbacks of \<open>handleUserMessage\<close>: a provider
  that throws counts as \<open>unknown\<close> with reason \<open>provider_error\<close>, an answer the
  schema rejects as \<open>unknown\<close> with reason \<open>invalid_intent\<close>.
\<close>

datatype ParsedIntent =
    ISearchTours draft
  | IMeta
  | ISmalltalk
  | IUnknown "ustring option"

datatype IntentType = search_tours | meta | smalltalk | unknown

text \<open>The reply texts of the orchestrator, by kind.\<close>

datatype OrchText =
    TxtEmpty
  | TxtUnsupportedCountry
  | TxtSearchFailed
  | TxtMeta
  | TxtSmalltalk
  | TxtFormatUnknown

record OrchestratorResult =
  reply_text :: OrchText
  intent_type :: IntentType
  reason :: "ustring option"
  search_args :: "draft option"
  missing_fields :: "MissingField list option"
  draft_args :: "draft option"

definition unsupportedResult :: OrchestratorResult where
  "unsupportedResult = \<lparr> reply_text = TxtUnsupportedCountry, intent_type = unknown,
     reason = Some (asc ''unsupported_country''), search_args = None,
     missing_fields = None, draft_args = None \<rparr>"

definition handleUserMessage :: "ustring \<Rightarrow> ParsedIntent \<Rightarrow> OrchestratorResult" where
  "handleUserMessage input intent =
     (if hasUnsupportedDestinationMention input then unsupportedResult
      else case intent of
        ISearchTours args \<Rightarrow>
          (case country_name args of
             Some n \<Rightarrow>
               if normalizeCountryName n = None then unsupportedResult
               else
                 let draftArgs = buildDraftArgs input args;
                     missingFields = getMissingFields draftArgs;
                     sargs = buildSearchArgs draftArgs
                 in \<lparr> reply_text = TxtEmpty, intent_type = search_tours, reason = None,
                      search_args = (if missingFields = [] then Some sargs else None),
                      missing_fields = Some missingFields, draft_args = Some draftArgs \<rparr>
           | None \<Rightarrow>
               let draftArgs = buildDraftArgs input args;
                   missingFields = getMissingFields draftArgs;
                   sargs = buildSearchArgs draftArgs
               in \<lparr> reply_text = TxtEmpty, intent_type = search_tours, reason = None,
                    search_args = (if missingFields = [] then Some sargs else None),
                    missing_fields = Some missingFields, draft_args = Some draftArgs \<rparr>)
      | IMeta \<Rightarrow>
          \<lparr> reply_text = TxtMeta, intent_type = meta, reason = None, search_args = None,
            missing_fields = None, draft_args = None \<rparr>
      | ISmalltalk \<Rightarrow>
          \<lparr> reply_text = TxtSmalltalk, intent_type = smalltalk, reason = None, search_args = None,
            missing_fields = None, draft_args = None \<rparr>
      | IUnknown r \<Rightarrow>
          (case detectCountryNameFromText input of
             Some detectedCountry \<Rightarrow>
               let draftArgs =
                     buildDraftArgs input (emptyDraft\<lparr>country_name := Some (nameOf detectedCountry)\<rparr>);
                   missingFields = getMissingFields draftArgs
               in \<lparr> reply_text = TxtEmpty, intent_type = search_tours, reason = r,
                    search_args = None, missing_fields = Some missingFields,
                    draft_args = Some draftArgs \<rparr>
           | None \<Rightarrow>
               if looksLikeTravelText input
               then \<lparr> reply_text = TxtEmpty, intent_type = search_tours, reason = r,
                      search_args = None, missing_fields = Some (getMissingFields emptyDraft),
                      draft_args = Some emptyDraft \<rparr>
               else \<lparr> reply_text = (if r = Some (asc ''unsupported_country'')
                               then TxtUnsupportedCountry else TxtFormatUnknown),
                      intent_type = unknown, reason = r, search_args = None,
                      missing_fields = None, draft_args = None \<rparr>))"

section \<open>Slot filling in the bot\<close>

definition nextAiAwaiting :: "draft \<Rightarrow> awaiting option" where
  "nextAiAwaiting d =
     (if \<not> hasCountry d then Some AwCountry
      else if \<not> hasNights d then Some AwNights
      else if \<not> hasBudget d then Some AwBudget
      else None)"

definition resolveAiAwaiting :: "MissingField list \<Rightarrow> awaiting option" where
  "resolveAiAwaiting missingFields =
     (let hasCountry = Country \<in> set missingFields;
          hasNights = Nights \<in> set missingFields;
          hasBudget = Budget \<in> set missingFields
      in if hasCountry then Some AwCountry
         else if hasNights \<and> hasBudget then Some AwNights
         else if hasNights then Some AwNights
         else if hasBudget then Some AwBudget
         else None)"

definition hasAiSearchData :: "draft \<Rightarrow> bool" where
  "hasAiSearchData d \<longleftrightarrow> hasNights d \<and> hasBudget d"

subsection \<open>The slots as the specification words them\<close>

text \<open>
  The specification's reading of "present": the country by numeric id or by a
  name that is not blank, the nights when both bounds are finite numbers, the
  budget when its ceiling is a finite number above zero.
\<close>

fun slot_present :: "draft \<Rightarrow> MissingField \<Rightarrow> bool" where
  "slot_present d Country =
     ((\<exists>i. country_id d = Some i) \<or> (\<exists>n. country_name d = Some n \<and> trim n \<noteq> []))"
| "slot_present d Nights =
     ((\<exists>a b. nights_min d = Some (Fin a) \<and> nights_max d = Some (Fin b)))"
| "slot_present d Budget = (\<exists>b. budget_max d = Some (Fin b) \<and> 0 < b)"

fun awaiting_of :: "MissingField \<Rightarrow> awaiting" where
  "awaiting_of Country = AwCountry"
| "awaiting_of Nights = AwNights"
| "awaiting_of Budget = AwBudget"

definition first_missing :: "MissingField list \<Rightarrow> awaiting option" where
  "first_missing ms = (case ms of [] \<Rightarrow> None | f # _ \<Rightarrow> Some (awaiting_of f))"


text \<open>A draft with country and nights and no budget: Turkey, seven nights.\<close>

definition turkey7 :: draft where
  "turkey7 = emptyDraft\<lparr>country_name := Some (asc ''Turkey''),
     nights_min := Some (Fin 7), nights_max := Some (Fin 7)\<rparr>"


section \<open>The state of a conversation (bot)\<close>

datatype ChatStep =
  idle | budget_input | await_phone | ai_country_input | ai_nights_input | ai_budget_input

datatype EditingFilter = EfBudget | EfRating | EfPeriod | EfMeal

text \<open>
  A tour as the bot and the search backend exchange it (\<open>Tour\<close>, \<open>FavoriteTour\<close>
  and \<open>TourResult\<close> are the same object read with different optional fields).
  The field names carry the prefix \<open>t_\<close>. \<open>t_date_from\<close> is the day of
  departure as a count of days since 1970-01-01, which stands for the string
  \<open>YYYY-MM-DD\<close> that \<open>toISOString\<close> writes for it: the rendering is one to one.
  \<open>t_raw_seed\<close> and \<open>t_raw_debug\<close> are the fields of \<open>raw\<close>.
\<close>

record Tour =
  t_price :: rat
  t_currency :: ustring
  t_date_from :: int
  t_nights :: rat
  t_operator :: ustring
  t_hotel_id :: rat
  t_hotel_name :: "ustring option"
  t_stars :: "rat option"
  t_rating :: "rat option"
  t_meal :: "ustring option"
  t_room :: "ustring option"
  t_country_name :: "ustring option"
  t_city_name :: "ustring option"
  t_flag_emoji :: "ustring option"
  t_image_url :: "ustring option"
  t_raw_seed :: "ustring option"
  t_raw_debug :: "(SortOrder \<times> rat \<times> rat) option"

subsection \<open>Favorites (favorites module)\<close>

record ParamsSnapshot =
  ps_country :: ustring
  ps_nights :: jsnum
  ps_budgetMin :: "jsnum option"
  ps_budgetMax :: "jsnum option"
  ps_meal :: "ustring option"

record SavedSet =
  set_id :: ustring
  set_createdAt :: int
  set_paramsSnapshot :: ParamsSnapshot
  set_tours :: "Tour list"

record FavoritesStore =
  fav_tours :: "Tour list"
  fav_collections :: "SavedSet list"

definition createEmptyFavorites :: FavoritesStore where
  "createEmptyFavorites = \<lparr> fav_tours = [], fav_collections = [] \<rparr>"

definition saveTour :: "FavoritesStore \<Rightarrow> Tour \<Rightarrow> FavoritesStore \<times> bool" where
  "saveTour favorites tour =
     (let hotelId = t_hotel_id tour;
          exists = list_ex (\<lambda>t. t_hotel_id t = hotelId) (fav_tours favorites)
      in if exists then (favorites, False)
         else (favorites\<lparr>fav_tours := fav_tours favorites @ [tour]\<rparr>, True))"

definition saveCollection ::
  "FavoritesStore \<Rightarrow> ustring \<Rightarrow> int \<Rightarrow> ParamsSnapshot \<Rightarrow> Tour list \<Rightarrow> nat \<Rightarrow>
   FavoritesStore \<times> SavedSet" where
  "saveCollection favorites ident createdAt paramsSnapshot tours maxTours =
     (let collection = \<lparr> set_id = ident, set_createdAt = createdAt,
            set_paramsSnapshot = paramsSnapshot,
            set_tours = take (max 1 maxTours) tours \<rparr>
      in (favorites\<lparr>fav_collections := fav_collections favorites @ [collection]\<rparr>,
          collection))"

definition openCollection :: "FavoritesStore \<Rightarrow> ustring \<Rightarrow> SavedSet option" where
  "openCollection favorites ident = find (\<lambda>c. set_id c = ident) (fav_collections favorites)"

definition deleteCollection :: "FavoritesStore \<Rightarrow> ustring \<Rightarrow> FavoritesStore \<times> bool" where
  "deleteCollection favorites ident =
     (let nxt = filter (\<lambda>c. set_id c \<noteq> ident) (fav_collections favorites)
      in if length nxt = length (fav_collections favorites) then (favorites, False)
         else (favorites\<lparr>fav_collections := nxt\<rparr>, True))"

definition clearFavorites :: FavoritesStore where
  "clearFavorites = createEmptyFavorites"

subsection \<open>Chat state\<close>

text \<open>\<open>SearchContext\<close>; the field names carry the prefix \<open>sc_\<close>.\<close>

record SearchContext =
  sc_countryId :: "jsnum option"
  sc_countryName :: "ustring option"
  sc_dateFrom :: "ustring option"
  sc_dateTo :: "ustring option"
  sc_period :: "PeriodCode option"
  sc_nightsMin :: "jsnum option"
  sc_nightsMax :: "jsnum option"
  sc_budgetMax :: "jsnum option"
  sc_budgetMin :: "jsnum option"
  sc_budgetTarget :: "jsnum option"
  sc_meal :: "ustring option"
  sc_ratingMin :: "jsnum option"
  sc_adults :: "jsnum option"
  sc_children :: "jsnum option"
  sc_lastArgs :: "draft option"
  sc_lastResults :: "Tour list option"
  sc_lastRequestId :: "ustring option"

definition emptyContext :: SearchContext where
  "emptyContext = \<lparr> sc_countryId = None, sc_countryName = None, sc_dateFrom = None,
     sc_dateTo = None, sc_period = None, sc_nightsMin = None, sc_nightsMax = None,
     sc_budgetMax = None, sc_budgetMin = None, sc_budgetTarget = None, sc_meal = None,
     sc_ratingMin = None, sc_adults = None, sc_children = None, sc_lastArgs = None,
     sc_lastResults = None, sc_lastRequestId = None \<rparr>"

datatype ClarificationMode = ModeAi | ModeFollowup

text \<open>
  \<open>ChatState\<close>. The fields \<open>period\<close>, \<open>meal\<close>, \<open>offset\<close> and \<open>limit\<close> carry
  the prefix \<open>st_\<close> (the draft has fields of the same names); \<open>aiMode\<close>
  undefined and false are both \<open>False\<close>, as the code only tests it.
\<close>

record ChatState =
  step :: ChatStep
  countryId :: "jsnum option"
  nightsMin :: jsnum
  nightsMax :: jsnum
  budgetChosen :: bool
  budgetMax :: "jsnum option"
  budgetMin :: "jsnum option"
  ratingChosen :: bool
  ratingMin :: "jsnum option"
  st_period :: "PeriodCode option"
  st_meal :: "ustring option"
  mealChosen :: bool
  editingFilter :: "EditingFilter option"
  st_offset :: jsnum
  st_limit :: jsnum
  lastRequestId :: "ustring option"
  lastResults :: "Tour list"
  pendingHotel :: "Tour option"
  phonePromptShownForHotelId :: "rat option"
  aiMode :: bool
  aiDraft :: "draft option"
  aiAwaiting :: "awaiting option"
  lastSearchArgs :: "draft option"
  activeSearchSeq :: "nat option"
  searchContext :: "SearchContext option"
  pendingBudgetClarification :: "(rat \<times> ClarificationMode) option"
  pendingPromptAction :: bool
  favorites :: FavoritesStore
  favoritesSeq :: nat

text \<open>\<open>x ?? d\<close> for a number field.\<close>

definition nullish :: "'a option \<Rightarrow> 'a \<Rightarrow> 'a" where
  "nullish x d = (case x of None \<Rightarrow> d | Some v \<Rightarrow> v)"

definition DEFAULT_nights_min :: jsnum where "DEFAULT_nights_min = Fin 6"
definition DEFAULT_nights_max :: jsnum where "DEFAULT_nights_max = Fin 10"
definition DEFAULT_limit :: jsnum where "DEFAULT_limit = Fin 5"
definition DEFAULT_offset :: jsnum where "DEFAULT_offset = Fin 0"

text \<open>The state \<open>getState\<close> creates on first contact.\<close>

definition initialState :: ChatState where
  "initialState = \<lparr> step = idle, countryId = None,
     nightsMin = DEFAULT_nights_min, nightsMax = DEFAULT_nights_max,
     budgetChosen = False, budgetMax = None, budgetMin = None,
     ratingChosen = False, ratingMin = None, st_period = None,
     st_meal = Some (asc ''ANY''), mealChosen = False, editingFilter = None,
     st_offset = Fin 0, st_limit = DEFAULT_limit, lastRequestId = None, lastResults = [],
     pendingHotel = None, phonePromptShownForHotelId = None, aiMode = False,
     aiDraft = None, aiAwaiting = None, lastSearchArgs = None, activeSearchSeq = None,
     searchContext = None, pendingBudgetClarification = None, pendingPromptAction = False,
     favorites = createEmptyFavorites, favoritesSeq = 0 \<rparr>"

definition resetSearchState :: "ChatState \<Rightarrow> ChatState" where
  "resetSearchState state = state\<lparr>
     nightsMin := DEFAULT_nights_min,
     nightsMax := DEFAULT_nights_max,
     budgetChosen := False,
     budgetMax := None,
     budgetMin := None,
     ratingChosen := False,
     ratingMin := None,
     st_period := None,
     st_meal := Some (asc ''ANY''),
     mealChosen := False,
     editingFilter := None,
     st_offset := DEFAULT_offset,
     st_limit := DEFAULT_limit,
     lastRequestId := None,
     lastResults := [],
     pendingHotel := None,
     phonePromptShownForHotelId := None,
     aiMode := False,
     aiDraft := None,
     aiAwaiting := None,
     lastSearchArgs := None,
     activeSearchSeq := None,
     searchContext := None,
     pendingBudgetClarification := None,
     pendingPromptAction := False \<rparr>"

definition resetFlow :: "ChatState \<Rightarrow> ChatState" where
  "resetFlow state =
     (let keepLastSearchArgs = lastSearchArgs state;
          state = resetSearchState state
      in state\<lparr>lastSearchArgs := keepLastSearchArgs, step := idle,
           pendingPromptAction := False\<rparr>)"

subsection \<open>Replies\<close>

text \<open>
  What a handler sends, by kind of message. A result card is one reply whether
  it goes out as a photo with caption or, failing that, as text.
\<close>

datatype Reply =
    RCancelReset
  | RAvailableCountries
  | RAskCountry
  | RStartOver
  | RFindMore
  | RFavoritesCleared
  | RTourSaved bool
  | RTourRemoved bool
  | RCollectionDeleted bool
  | RNotInResults
  | RSearchFirst
  | RCollectionSaved
  | RNoMoreTours
  | RNothingFound
  | RFound rat rat
  | RCard Tour
  | RPickHint
  | RResultActions ustring
  | RAlreadyChecking
  | RTourNotFound
  | RPhoneHint
  | RCheckingAvailability
  | RRecap Tour
  | RGreatChoice
  | RAmountNotUnderstood rat
  | RUpdatingSearch
  | RAskMissing "awaiting option"
  | RBudgetDigitsPlease
  | RAskQuality
  | RUnsupportedCommand
  | RWriteValue
  | RWriteBudget


section \<open>Handlers of the bot\<close>

subsection \<open>Search context\<close>

definition COUNTRY_LABEL_BY_ID :: "rat \<Rightarrow> ustring option" where
  "COUNTRY_LABEL_BY_ID i =
     (if i = 47 then Some (cap (ru ''turciA''))
      else if i = 54 then Some (cap (ru ''egipet''))
      else if i = 29 then Some (cap (ru ''tailand''))
      else if i = 63 then Some (toUpperCase (ru ''oaE''))
      else if i = 90 then Some (cap (ru ''malXdivy''))
      else if i = 91 then Some (cap (ru ''sejSely''))
      else None)"

text \<open>\<open>countryId ? COUNTRY_LABEL_BY_ID[countryId] : undefined\<close>: zero and \<open>NaN\<close> are falsy.\<close>

definition labelOfCountryId :: "jsnum option \<Rightarrow> ustring option" where
  "labelOfCountryId cid =
     (case cid of Some (Fin i) \<Rightarrow> (if i = 0 then None else COUNTRY_LABEL_BY_ID i) | _ \<Rightarrow> None)"

text \<open>
  \<open>applySearchContext\<close> in its only mode, \<open>merge\<close>: the fields of the patch that
  are neither undefined nor null are written over the previous context.
\<close>

definition applySearchContext :: "SearchContext option \<Rightarrow> SearchContext \<Rightarrow> SearchContext" where
  "applySearchContext prev patch =
     (let p = nullish prev emptyContext in \<lparr>
        sc_countryId = orElse (sc_countryId patch) (sc_countryId p),
        sc_countryName = orElse (sc_countryName patch) (sc_countryName p),
        sc_dateFrom = orElse (sc_dateFrom patch) (sc_dateFrom p),
        sc_dateTo = orElse (sc_dateTo patch) (sc_dateTo p),
        sc_period = orElse (sc_period patch) (sc_period p),
        sc_nightsMin = orElse (sc_nightsMin patch) (sc_nightsMin p),
        sc_nightsMax = orElse (sc_nightsMax patch) (sc_nightsMax p),
        sc_budgetMax = orElse (sc_budgetMax patch) (sc_budgetMax p),
        sc_budgetMin = orElse (sc_budgetMin patch) (sc_budgetMin p),
        sc_budgetTarget = orElse (sc_budgetTarget patch) (sc_budgetTarget p),
        sc_meal = orElse (sc_meal patch) (sc_meal p),
        sc_ratingMin = orElse (sc_ratingMin patch) (sc_ratingMin p),
        sc_adults = orElse (sc_adults patch) (sc_adults p),
        sc_children = orElse (sc_children patch) (sc_children p),
        sc_lastArgs = orElse (sc_lastArgs patch) (sc_lastArgs p),
        sc_lastResults = orElse (sc_lastResults patch) (sc_lastResults p),
        sc_lastRequestId = orElse (sc_lastRequestId patch) (sc_lastRequestId p) \<rparr>)"

text \<open>The field of the base arguments, when there are base arguments.\<close>

definition ofArgs :: "draft option \<Rightarrow> (draft \<Rightarrow> 'a option) \<Rightarrow> 'a option" where
  "ofArgs baseArgs f = (case baseArgs of None \<Rightarrow> None | Some a \<Rightarrow> f a)"

definition mealString :: "numstr option \<Rightarrow> ustring option" where
  "mealString m = (case m of Some (StrV s) \<Rightarrow> Some s | _ \<Rightarrow> None)"

definition ratingNumber :: "numstr option \<Rightarrow> jsnum option" where
  "ratingNumber r = (case r of Some (NumV n) \<Rightarrow> Some n | _ \<Rightarrow> None)"

definition syncSearchContextFromState :: "ChatState \<Rightarrow> draft option \<Rightarrow> ChatState" where
  "syncSearchContextFromState state args =
     (let baseArgs = orElse args (lastSearchArgs state);
          cid = orElse (ofArgs baseArgs country_id) (countryId state);
          cname = labelOfCountryId cid
      in state\<lparr>searchContext := Some (applySearchContext (searchContext state) \<lparr>
           sc_countryId = cid,
           sc_countryName = cname,
           sc_dateFrom = ofArgs baseArgs date_from,
           sc_dateTo = ofArgs baseArgs date_to,
           sc_period = orElse (ofArgs baseArgs period) (st_period state),
           sc_nightsMin = Some (nullish (ofArgs baseArgs nights_min) (nightsMin state)),
           sc_nightsMax = Some (nullish (ofArgs baseArgs nights_max) (nightsMax state)),
           sc_budgetMax = orElse (ofArgs baseArgs budget_max) (budgetMax state),
           sc_budgetMin = orElse (ofArgs baseArgs budget_min) (budgetMin state),
           sc_budgetTarget = None,
           sc_meal = orElse (map_option toUpperCase (mealString (ofArgs baseArgs meal)))
                       (st_meal state),
           sc_ratingMin = orElse (ratingNumber (ofArgs baseArgs rating)) (ratingMin state),
           sc_adults = Some (nullish (ofArgs baseArgs adults) (Fin 2)),
           sc_children = Some (nullish (ofArgs baseArgs children) (Fin 0)),
           sc_lastArgs = baseArgs,
           sc_lastResults = Some (lastResults state),
           sc_lastRequestId = lastRequestId state \<rparr>)\<rparr>)"

subsection \<open>Numbers read from strings\<close>

text \<open>
  \<open>Number(s)\<close> for a string: white space is trimmed, the empty string is 0,
  then a signed decimal literal with optional fraction and exponent, or
  \<open>Infinity\<close>, or an unsigned literal with the prefix \<open>0x\<close>, \<open>0o\<close> or \<open>0b\<close>;
  anything else is \<open>NaN\<close>. Values are exact.
\<close>

definition digitVal :: "int \<Rightarrow> int option" where
  "digitVal c =
     (if 48 \<le> c \<and> c \<le> 57 then Some (c - 48)
      else if 97 \<le> c \<and> c \<le> 102 then Some (c - 87)
      else if 65 \<le> c \<and> c \<le> 70 then Some (c - 55)
      else None)"

definition radixNumber :: "int \<Rightarrow> ustring \<Rightarrow> jsnum" where
  "radixNumber b ds =
     (if ds \<noteq> [] \<and> list_all (\<lambda>c. case digitVal c of None \<Rightarrow> False | Some d \<Rightarrow> d < b) ds
      then Fin (of_int (foldl (\<lambda>acc c. b * acc + the (digitVal c)) 0 ds))
      else NaN)"

definition pow10 :: "int \<Rightarrow> rat" where
  "pow10 e = (if 0 \<le> e then 10 ^ nat e else 1 / 10 ^ nat (- e))"

definition decimalNumber :: "ustring \<Rightarrow> jsnum" where
  "decimalNumber s =
     (let ip = takeWhile isDigit s;
          r1 = dropWhile isDigit s;
          hasDot = (r1 \<noteq> [] \<and> hd r1 = 46);
          r2 = (if hasDot then tl r1 else r1);
          fp = (if hasDot then takeWhile isDigit r2 else []);
          r3 = (if hasDot then dropWhile isDigit r2 else r2);
          mant = digitsToNumber (ip @ fp) / 10 ^ length fp
      in if ip = [] \<and> fp = [] then NaN
         else if r3 = [] then Fin mant
         else if hd r3 = 101 \<or> hd r3 = 69 then
           (let r4 = tl r3;
                neg = (r4 \<noteq> [] \<and> hd r4 = 45);
                r5 = (if r4 \<noteq> [] \<and> (hd r4 = 45 \<or> hd r4 = 43) then tl r4 else r4)
            in if r5 \<noteq> [] \<and> list_all isDigit r5
               then Fin (mant * pow10 ((if neg then - 1 else 1) *
                      \<lfloor>digitsToNumber r5\<rfloor>))
               else NaN)
         else NaN)"

fun js_neg :: "jsnum \<Rightarrow> jsnum" where
  "js_neg (Fin q) = Fin (- q)"
| "js_neg PosInf = NegInf"
| "js_neg NegInf = PosInf"
| "js_neg NaN = NaN"

definition signedNumber :: "ustring \<Rightarrow> jsnum" where
  "signedNumber s =
     (if s = asc ''Infinity'' then PosInf else decimalNumber s)"

definition StringToNumber :: "ustring \<Rightarrow> jsnum" where
  "StringToNumber str =
     (let s = trim str in
      if s = [] then Fin 0
      else if startsWith s (asc ''0x'') \<or> startsWith s (asc ''0X'') then radixNumber 16 (drop 2 s)
      else if startsWith s (asc ''0o'') \<or> startsWith s (asc ''0O'') then radixNumber 8 (drop 2 s)
      else if startsWith s (asc ''0b'') \<or> startsWith s (asc ''0B'') then radixNumber 2 (drop 2 s)
      else if hd s = 45 then js_neg (signedNumber (tl s))
      else if hd s = 43 then signedNumber (tl s)
      else signedNumber s)"

definition Number_numstr :: "numstr option \<Rightarrow> jsnum" where
  "Number_numstr v =
     (case v of None \<Rightarrow> NaN | Some (NumV n) \<Rightarrow> n | Some (StrV s) \<Rightarrow> StringToNumber s)"

definition asPositiveNumber :: "numstr option \<Rightarrow> jsnum option" where
  "asPositiveNumber v =
     (let n = Number_numstr v in
      case n of Fin q \<Rightarrow> (if q \<le> 0 then None else Some n) | _ \<Rightarrow> None)"

subsection \<open>Applying search arguments to the state\<close>

text \<open>\<open>x !== undefined && x > 0\<close> for a budget field.\<close>

definition definedPositive :: "jsnum option \<Rightarrow> bool" where
  "definedPositive x = (case x of None \<Rightarrow> False | Some n \<Rightarrow> js_pos n)"

definition applyOrchestratedSearchArgsToState :: "ChatState \<Rightarrow> draft \<Rightarrow> ChatState" where
  "applyOrchestratedSearchArgsToState state0 args =
     (let state = resetSearchState state0;
          state = state\<lparr>nightsMin := nullish (nights_min args) DEFAULT_nights_min,
                        nightsMax := nullish (nights_max args) DEFAULT_nights_max\<rparr>;
          state = (if country_id args \<noteq> None then state\<lparr>countryId := country_id args\<rparr>
                   else state);
          state = (if definedPositive (budget_max args)
                   then state\<lparr>budgetChosen := True, budgetMax := budget_max args\<rparr>
                   else state);
          state = (if definedPositive (budget_min args)
                   then state\<lparr>budgetMin := budget_min args\<rparr> else state);
          state = (case asPositiveNumber (rating args) of
                     None \<Rightarrow> state
                   | Some r \<Rightarrow> state\<lparr>ratingChosen := True, ratingMin := Some r\<rparr>);
          state = (if period args \<noteq> None then state\<lparr>st_period := period args\<rparr> else state);
          state = (case meal args of
                     Some (StrV s) \<Rightarrow>
                       (let m = toUpperCase s in
                        if m = asc ''AI'' \<or> m = asc ''BB'' \<or> m = asc ''ANY''
                        then state\<lparr>mealChosen := True, st_meal := Some m\<rparr> else state)
                   | _ \<Rightarrow> state);
          state = state\<lparr>st_limit := nullish (limit args) DEFAULT_limit,
                        st_offset := nullish (offset args) DEFAULT_offset\<rparr>
      in syncSearchContextFromState state (Some args))"

text \<open>
  \<open>buildSearchArgs\<close> of the bot (it shares its name with the orchestrator's
  function): the arguments of a search from the state; a missing country
  becomes 47 in the state as well.
\<close>

definition falsyNum :: "jsnum option \<Rightarrow> bool" where
  "falsyNum x = (case x of None \<Rightarrow> True | Some (Fin q) \<Rightarrow> q = 0 | Some NaN \<Rightarrow> True | _ \<Rightarrow> False)"

definition bot_buildSearchArgs :: "ChatState \<Rightarrow> draft \<times> ChatState" where
  "bot_buildSearchArgs state0 =
     (let state = (if falsyNum (countryId state0) then state0\<lparr>countryId := Some (Fin 47)\<rparr>
                   else state0);
          args = DEFAULT_SEARCH_TOURS_ARGS\<lparr>
                   country_id := countryId state,
                   nights_min := Some (nightsMin state),
                   nights_max := Some (nightsMax state),
                   limit := Some (st_limit state),
                   offset := Some (st_offset state),
                   sort := Some price_asc\<rparr>;
          args = (if budgetMax state \<noteq> None then args\<lparr>budget_max := budgetMax state\<rparr> else args);
          args = (if budgetMin state \<noteq> None then args\<lparr>budget_min := budgetMin state\<rparr> else args);
          args = (if definedPositive (ratingMin state)
                  then args\<lparr>rating := map_option NumV (ratingMin state)\<rparr> else args);
          args = (if st_period state \<noteq> None then args\<lparr>period := st_period state\<rparr> else args);
          args = (case st_meal state of
                    None \<Rightarrow> args
                  | Some m \<Rightarrow> if m \<noteq> [] \<and> m \<noteq> asc ''ANY'' then args\<lparr>meal := Some (StrV m)\<rparr>
                              else args)
      in (args, state))"

subsection \<open>Running a search\<close>

record SearchOutput =
  out_requestid :: ustring
  out_results :: "Tour list"
  out_meta_total :: "jsnum option"
  out_total :: "jsnum option"

definition beginSearchSeq :: "ChatState \<Rightarrow> nat \<times> ChatState" where
  "beginSearchSeq state =
     (let nxt = nullish (activeSearchSeq state) 0 + 1
      in (nxt, state\<lparr>activeSearchSeq := Some nxt\<rparr>))"

definition isSearchSeqStale :: "ChatState \<Rightarrow> nat \<Rightarrow> bool" where
  "isSearchSeqStale state seq \<longleftrightarrow> nullish (activeSearchSeq state) 0 \<noteq> seq"

definition toSafeCount :: "jsnum option \<Rightarrow> rat option" where
  "toSafeCount v =
     (case Number_of v of Fin q \<Rightarrow> (if q < 0 then None else Some (Math_floor q)) | _ \<Rightarrow> None)"

fun js_add_rat :: "jsnum \<Rightarrow> rat \<Rightarrow> jsnum" where
  "js_add_rat (Fin q) r = Fin (q + r)"
| "js_add_rat n r = n"

definition buildFoundText :: "jsnum \<Rightarrow> rat \<Rightarrow> Reply list" where
  "buildFoundText totalCount shown =
     (case totalCount of
        Fin q \<Rightarrow> (if q \<le> 0 \<or> shown \<le> 0 then [] else [RFound q shown])
      | NegInf \<Rightarrow> []
      | _ \<Rightarrow> (if shown \<le> 0 then [] else [RFound 0 shown]))"

definition sendCards :: "ChatState \<Rightarrow> SearchOutput \<Rightarrow> ChatState \<times> Reply list" where
  "sendCards state0 output =
     (let state = state0\<lparr>step := idle, aiAwaiting := None, aiDraft := Some emptyDraft,
                    lastRequestId := Some (out_requestid output),
                    lastResults := out_results output\<rparr>;
          state = syncSearchContextFromState state None;
          state = (case searchContext state of
                     None \<Rightarrow> state
                   | Some sc \<Rightarrow>
                       state\<lparr>searchContext := Some (applySearchContext (Some sc)
                         (emptyContext\<lparr>sc_lastResults := Some (out_results output),
                            sc_lastRequestId := Some (out_requestid output)\<rparr>))\<rparr>)
      in if out_results output = []
         then (state, if js_pos (st_offset state) then [RNoMoreTours] else [RNothingFound])
         else
           let shown = of_nat (length (out_results output));
               totalCount = (case toSafeCount (out_meta_total output) of
                          Some n \<Rightarrow> Fin n
                        | None \<Rightarrow>
                            (case toSafeCount (out_total output) of
                               Some n \<Rightarrow> Fin n
                             | None \<Rightarrow> js_add_rat (st_offset state) shown))
           in (state,
               buildFoundText totalCount shown @ map RCard (out_results output) @
               [RPickHint, RResultActions (out_requestid output)]))"

text \<open>
  \<open>runSearch\<close> awaits the backend in the middle. The part before the await
  takes the sequence number and prepares the request; the part after it runs
  when the result arrives, on the state as it is then, with the number captured
  before. The schema accepts the arguments built from a state the bot wrote, so
  parsing returns them.
\<close>

definition runSearch_begin :: "ChatState \<Rightarrow> nat \<times> draft \<times> ChatState" where
  "runSearch_begin state0 =
     (let (seq, state) = beginSearchSeq state0;
          (args, state) = bot_buildSearchArgs state;
          state = state\<lparr>lastSearchArgs := Some args\<rparr>;
          state = syncSearchContextFromState state (lastSearchArgs state)
      in (seq, args, state))"

definition runSearch_resume :: "ChatState \<Rightarrow> nat \<Rightarrow> SearchOutput \<Rightarrow> ChatState \<times> Reply list" where
  "runSearch_resume state seq output =
     (if isSearchSeqStale state seq then (state, []) else sendCards state output)"

text \<open>
  The refinement branch of the text handler, from the patch on: a patch is the
  fields it sets and whether it resets \<open>budget_min\<close> to undefined (as a
  ceiling-type budget does).
\<close>

datatype BotReplyKind = SwitchCountry | UpdateSearch

definition followup_begin ::
  "ChatState \<Rightarrow> draft \<Rightarrow> bool \<Rightarrow> (nat \<times> draft \<times> ChatState \<times> BotReplyKind) option" where
  "followup_begin state0 followupPatch clearsBudgetMin =
     (case lastSearchArgs state0 of
        None \<Rightarrow> None
      | Some lastArgs \<Rightarrow>
          (let merged = spread lastArgs followupPatch;
               merged = (if clearsBudgetMin then merged\<lparr>budget_min := None\<rparr> else merged);
               nextArgs = merged\<lparr>offset := Some (Fin 0)\<rparr>;
               prevCountryId = country_id lastArgs;
               switch = (country_id followupPatch \<noteq> None \<and>
                         country_id followupPatch \<noteq> prevCountryId);
               state = applyOrchestratedSearchArgsToState state0 nextArgs;
               state = state\<lparr>lastSearchArgs := Some nextArgs\<rparr>;
               (seq, state) = beginSearchSeq state
           in Some (seq, nextArgs, state, if switch then SwitchCountry else UpdateSearch)))"

definition followup_resume :: "ChatState \<Rightarrow> nat \<Rightarrow> SearchOutput \<Rightarrow> ChatState \<times> Reply list" where
  "followup_resume state seq output =
     (if isSearchSeqStale state seq then (state, []) else sendCards state output)"

subsection \<open>Reset commands\<close>

text \<open>The button \<open>new\<close> (the action \<open>new\<close> of the inline keyboard).\<close>

definition action_new :: "ChatState \<Rightarrow> ChatState \<times> Reply list" where
  "action_new state0 =
     (let state = resetSearchState state0;
          state = state\<lparr>step := idle\<rparr>
      in (state, [RAskCountry]))"

definition replyCancelReset :: "ChatState \<Rightarrow> ChatState \<times> Reply list" where
  "replyCancelReset state0 =
     (let state = resetFlow state0;
          state = state\<lparr>aiMode := True, aiAwaiting := Some AwCountry\<rparr>
      in (state, [RCancelReset, RAvailableCountries]))"

definition isCancelText_re :: re where
  "isCancelText_re =
     Grp 1 (alts [rw ''otmena'', aw ''/cancel'', aw ''cancel'', rw ''stop'', aw ''stop'',
                  rw ''sbros'', aw ''reset'', rw ''naCatX zanovo'', rw ''hvatit''])"

definition isCancelText :: "ustring \<Rightarrow> bool" where
  "isCancelText txt = test True isCancelText_re txt"

subsection \<open>Favorites actions\<close>

definition saveTourToFavorites :: "ChatState \<Rightarrow> Tour \<Rightarrow> ChatState \<times> bool" where
  "saveTourToFavorites state tour =
     (let saved = saveTour (favorites state) tour
      in (state\<lparr>favorites := fst saved\<rparr>, snd saved))"

definition removeTourFromFavorites :: "ChatState \<Rightarrow> rat \<Rightarrow> ChatState \<times> bool" where
  "removeTourFromFavorites state hotelId =
     (let before = length (fav_tours (favorites state));
          fav = (favorites state)\<lparr>fav_tours :=
                  filter (\<lambda>t. t_hotel_id t \<noteq> hotelId) (fav_tours (favorites state))\<rparr>
      in (state\<lparr>favorites := fav\<rparr>, length (fav_tours fav) \<noteq> before))"

definition action_fav_clear :: "ChatState \<Rightarrow> ChatState \<times> Reply list" where
  "action_fav_clear state =
     (state\<lparr>favorites := clearFavorites, pendingPromptAction := False\<rparr>, [RFavoritesCleared])"

definition action_fav_tour :: "ChatState \<Rightarrow> rat \<Rightarrow> ChatState \<times> Reply list" where
  "action_fav_tour state hotelId =
     (case find (\<lambda>t. t_hotel_id t = hotelId) (lastResults state) of
        None \<Rightarrow> (state, [RNotInResults])
      | Some tour \<Rightarrow>
          (let r = saveTourToFavorites state tour in (fst r, [RTourSaved (snd r)])))"

definition action_fav_remove :: "ChatState \<Rightarrow> rat \<Rightarrow> ChatState \<times> Reply list" where
  "action_fav_remove state hotelId =
     (let r = removeTourFromFavorites state hotelId in (fst r, [RTourRemoved (snd r)]))"

definition action_fav_del :: "ChatState \<Rightarrow> ustring \<Rightarrow> ChatState \<times> Reply list" where
  "action_fav_del state ident =
     (let nxt = deleteCollection (favorites state) ident
      in (state\<lparr>favorites := fst nxt\<rparr>, [RCollectionDeleted (snd nxt)]))"

subsection \<open>Selecting a result\<close>

definition collectStep :: "rat list \<times> Tour list \<Rightarrow> Tour \<Rightarrow> rat list \<times> Tour list" where
  "collectStep acc tour =
     (let ident = t_hotel_id tour in
      if ident \<in> set (fst acc) then acc else (fst acc @ [ident], snd acc @ [tour]))"

definition collectFavoriteTours :: "ChatState \<Rightarrow> Tour list" where
  "collectFavoriteTours state =
     (let acc = foldl collectStep ([], []) (fav_tours (favorites state));
          acc = foldl (\<lambda>a s. foldl collectStep a (set_tours s)) acc
                  (fav_collections (favorites state))
      in snd acc)"

definition findTourForWantAction :: "ChatState \<Rightarrow> rat \<Rightarrow> ustring option \<Rightarrow> Tour option" where
  "findTourForWantAction state hotelId sourceHint =
     (case find (\<lambda>t. t_hotel_id t = hotelId) (lastResults state) of
        Some fromLast \<Rightarrow> Some fromLast
      | None \<Rightarrow> find (\<lambda>t. t_hotel_id t = hotelId) (collectFavoriteTours state))"

definition isSamePendingHotel :: "ChatState \<Rightarrow> rat \<Rightarrow> bool" where
  "isSamePendingHotel state hotelId \<longleftrightarrow>
     step state = await_phone \<and>
     (case pendingHotel state of None \<Rightarrow> False | Some h \<Rightarrow> t_hotel_id h = hotelId)"

text \<open>
  The key of a selection: the user, the result set the button came from, the
  item, and the source hint. The source joins the four with colons, which none
  of them contains.
\<close>

type_synonym wantKey = "rat \<times> ustring \<times> rat \<times> ustring"

type_synonym pendingWant = "wantKey \<Rightarrow> int option"

definition mkWantKey :: "rat \<Rightarrow> ustring \<Rightarrow> rat \<Rightarrow> ustring option \<Rightarrow> wantKey" where
  "mkWantKey userId requestid hotelId sourceHint =
     (userId, requestid, hotelId, nullish sourceHint (asc ''default''))"

text \<open>
  The handler of \<open>want:requestid:hotelId[:hint]\<close> at the time \<open>now\<close>
  (\<open>Date.now()\<close>, in milliseconds). Its result is the state, the map of pending
  selections and the replies.
\<close>

definition action_want ::
  "ChatState \<times> pendingWant \<Rightarrow> rat \<Rightarrow> ustring \<Rightarrow> rat \<Rightarrow> ustring option \<Rightarrow> int \<Rightarrow>
   (ChatState \<times> pendingWant) \<times> Reply list" where
  "action_want sp userId requestid hotelId sourceHint now =
     (let state = fst sp; pendingWantByKey = snd sp;
          wantKey = mkWantKey userId requestid hotelId sourceHint;
          pendingAt = pendingWantByKey wantKey
      in if (case pendingAt of None \<Rightarrow> False | Some t0 \<Rightarrow> t0 \<noteq> 0 \<and> now - t0 < 45000)
         then ((state, pendingWantByKey), [RAlreadyChecking])
         else
           let pendingWantByKey = pendingWantByKey(wantKey \<mapsto> now) in
           case findTourForWantAction state hotelId sourceHint of
             None \<Rightarrow> ((state, pendingWantByKey(wantKey := None)), [RTourNotFound])
           | Some selected \<Rightarrow>
               if isSamePendingHotel state hotelId \<and>
                  phonePromptShownForHotelId state = Some hotelId
               then ((state, pendingWantByKey(wantKey := None)), [RPhoneHint])
               else
                 ((state\<lparr>pendingHotel := Some selected, step := await_phone,
                     phonePromptShownForHotelId := Some hotelId\<rparr>, pendingWantByKey),
                  [RCheckingAvailability, RRecap selected, RGreatChoice, RPhoneHint]))"


text \<open>A booking flow starts when the handler pins the tour and asks for the phone number.\<close>

definition startsBooking :: "Reply list \<Rightarrow> bool" where
  "startsBooking rs \<longleftrightarrow> RCheckingAvailability \<in> set rs"


subsection \<open>Budget answers\<close>

datatype BudgetAnswer = AnsNone | AnsMax rat | AnsTarget rat

definition parseBudgetAnswer :: "ustring \<Rightarrow> BudgetAnswer option" where
  "parseBudgetAnswer txt =
     (let normalized = trim (map (\<lambda>c. if c = 160 then 32 else c) (toLowerCase txt)) in
      if includesStr normalized (ru ''bez'') \<and> includesStr normalized (ru ''lim'')
      then Some AnsNone
      else if startsWith normalized (asc ''-'') then None
      else case extractBudget txt of
             None \<Rightarrow> None
           | Some (BRange mn mx) \<Rightarrow> Some (AnsMax mx)
           | Some (BApprox v mn mx) \<Rightarrow> Some (AnsTarget v)
           | Some (BMax mx) \<Rightarrow> Some (AnsMax mx))"

definition askAiMissingField :: "ChatState \<Rightarrow> Reply list" where
  "askAiMissingField state =
     (case aiAwaiting state of
        Some AwCountry \<Rightarrow> [RAskMissing (Some AwCountry)]
      | Some AwNights \<Rightarrow> [RAskMissing (Some AwNights)]
      | Some AwBudget \<Rightarrow> [RAskMissing (Some AwBudget)]
      | _ \<Rightarrow> [])"

text \<open>What a branch of the text handler leaves to do when it hands over to a search.\<close>

datatype Pending =
    Done
  | AwaitSearch nat draft
  | StartAiDraftSearch
  | StartSearchWithRetry

text \<open>\<open>/(^|\s)za\s*\d/i\<close>, with za the Russian preposition.\<close>

definition targetPhrase_re :: re where
  "targetPhrase_re = seqs [Grp 1 (Alt Bol re_s), rw ''za'', Star re_s, re_d]"

definition explicitTargetWords :: "ustring \<Rightarrow> bool" where
  "explicitTargetWords lower \<longleftrightarrow>
     includesStr lower (ru ''okolo'') \<or> includesStr lower (ru ''primerno'') \<or>
     includesStr lower (ru ''v rajone'') \<or> test True targetPhrase_re lower"

text \<open>
  The branch of the text handler taken when a budget clarification is pending
  (the text is not a command with a slash and not a cancel phrase). The amount
  is \<open>extractBudgetFromText(text) ?? pending.value\<close>, and
  \<open>extractBudgetFromText\<close> returns the \<open>max\<close> of whatever budget was extracted.
\<close>

definition pendingBudgetClarification_branch ::
  "ChatState \<Rightarrow> ustring \<Rightarrow> ChatState \<times> Reply list \<times> Pending" where
  "pendingBudgetClarification_branch state0 txt =
     (case pendingBudgetClarification state0 of
        None \<Rightarrow> (state0, [], Done)
      | Some pending \<Rightarrow>
          (let lower = toLowerCase txt;
               explicitTarget = explicitTargetWords lower;
               parsedBudget = nullish (extractBudgetFromText txt) (fst pending)
           in if parsedBudget = 0
              then (state0, [RAmountNotUnderstood (fst pending)], Done)
              else
                let state = state0\<lparr>pendingBudgetClarification := None\<rparr>;
                    resolvedBudgetMax =
                      (if explicitTarget then Math_round (parsedBudget * (6 / 5))
                       else parsedBudget);
                    resolvedBudgetTarget = (if explicitTarget then Some (Fin parsedBudget) else None);
                    patch = emptyContext\<lparr>sc_budgetTarget := resolvedBudgetTarget,
                              sc_budgetMax := Some (Fin resolvedBudgetMax)\<rparr>
                in case (snd pending, lastSearchArgs state) of
                     (ModeFollowup, Some lastArgs) \<Rightarrow>
                       (let nextArgs = lastArgs\<lparr>budget_max := Some (Fin resolvedBudgetMax),
                                          offset := Some (Fin 0)\<rparr>;
                            state = applyOrchestratedSearchArgsToState state nextArgs;
                            state = state\<lparr>searchContext :=
                                      Some (applySearchContext (searchContext state) patch)\<rparr>;
                            state = state\<lparr>lastSearchArgs := Some nextArgs\<rparr>;
                            (seq, state) = beginSearchSeq state
                        in (state, [RUpdatingSearch], AwaitSearch seq nextArgs))
                   | _ \<Rightarrow>
                       (let state = state\<lparr>aiMode := True\<rparr>;
                            d = (nullish (aiDraft state) emptyDraft)
                                  \<lparr>budget_max := Some (Fin resolvedBudgetMax)\<rparr>;
                            state = state\<lparr>aiDraft := Some d\<rparr>;
                            state = state\<lparr>searchContext :=
                                      Some (applySearchContext (searchContext state) patch)\<rparr>;
                            state = state\<lparr>aiAwaiting := nextAiAwaiting d\<rparr>
                        in if hasAiSearchData d then (state, [], StartAiDraftSearch)
                           else (state, askAiMissingField state, Done))))"

text \<open>
  The branch for the step \<open>budget_input\<close> of the guided flow, which reads the
  answer with \<open>parseBudgetAnswer\<close>.
\<close>

definition budget_input_branch ::
  "ChatState \<Rightarrow> ustring \<Rightarrow> ChatState \<times> Reply list \<times> Pending" where
  "budget_input_branch state0 txt =
     (case parseBudgetAnswer txt of
        None \<Rightarrow> (state0, [RBudgetDigitsPlease], Done)
      | Some budget \<Rightarrow>
          (let state = state0\<lparr>budgetChosen := True\<rparr>;
               state =
                 (case budget of
                    AnsNone \<Rightarrow>
                      state\<lparr>budgetMax := None, budgetMin := None,
                        searchContext := Some (applySearchContext (searchContext state) emptyContext)\<rparr>
                  | AnsTarget v \<Rightarrow>
                      state\<lparr>budgetMin := None, budgetMax := Some (Fin (Math_round (v * (6 / 5)))),
                        searchContext := Some (applySearchContext (searchContext state)
                          (emptyContext\<lparr>sc_budgetTarget := Some (Fin v),
                             sc_budgetMax := Some (Fin (Math_round (v * (6 / 5))))\<rparr>))\<rparr>
                  | AnsMax v \<Rightarrow>
                      state\<lparr>budgetMin := None, budgetMax := Some (Fin v),
                        searchContext := Some (applySearchContext (searchContext state)
                          (emptyContext\<lparr>sc_budgetMax := Some (Fin v)\<rparr>))\<rparr>);
               state = state\<lparr>step := idle\<rparr>
           in if editingFilter state = Some EfBudget
              then (state\<lparr>st_offset := Fin 0, editingFilter := None\<rparr>, [], StartSearchWithRetry)
              else (state, [RAskQuality], Done)))"

text \<open>A state in which the bot has asked whether 100000 is a ceiling or a target.\<close>

definition askedAbout100000 :: ChatState where
  "askedAbout100000 = initialState\<lparr>aiMode := True,
     aiDraft := Some (emptyDraft\<lparr>country_name := Some (asc ''Turkey''),
                        country_id := Some (Fin 47)\<rparr>),
     aiAwaiting := Some AwNights,
     pendingBudgetClarification := Some (100000, ModeAi)\<rparr>"


subsection \<open>Commands and parameters in a text (nlu/parseQuery)\<close>

datatype ParsedCommand =
  SHOW_MORE | EDIT_FILTERS | CLEAR_FAVORITES | FAVORITES | NEW_SEARCH | COUNTRIES | START_SEARCH

text \<open>A pattern between \<open>^\<close> and \<open>$\<close>.\<close>

definition anchored :: "re list \<Rightarrow> re" where
  "anchored rs = seqs (Bol # rs @ [Eol])"

text \<open>The class of the three letters e (Cyrillic e and yo, Latin e) that may end the word for more.\<close>

definition re_e3 :: re where
  "re_e3 = Cls [CChar 1077, CChar 1105, CChar 101]"

definition detectCommand :: "ustring \<Rightarrow> ParsedCommand option" where
  "detectCommand text =
     (let t = normalizeLower text in
      if test False (anchored [Opt (Seq (lits [8617, 65038]) (Star re_s)), rw ''pokazatX'',
                               Star re_s, rw ''eW'', re_e3]) t \<or>
         test False (anchored [rw ''eW'', re_e3]) t
      then Some SHOW_MORE
      else if test False (anchored [rw ''izmenitX'', Plus re_s, rw ''filXtry'']) t \<or>
              test False (anchored [rw ''filXtry'']) t
      then Some EDIT_FILTERS
      else if test False (anchored [rw ''oCistitX'', Plus re_s, rw ''izbrannoe'']) t
      then Some CLEAR_FAVORITES
      else if test False (anchored [rw ''izbrannoe'']) t \<or>
              test False (anchored [rw ''pokaZi'', Plus re_s, rw ''izbrannoe'']) t \<or>
              test False (anchored [rw ''moi'', Plus re_s, rw ''tury'']) t
      then Some FAVORITES
      else if test False (anchored [rw ''novyj'', Plus re_s, rw ''poisk'']) t \<or>
              test False (anchored [rw ''sbros'']) t
      then Some NEW_SEARCH
      else if test False (anchored [rw ''strany'']) t
      then Some COUNTRIES
      else if test False (anchored [rw ''najti'', Plus re_s, rw ''tur'']) t \<or>
              test False (anchored [rw ''poisk'']) t
      then Some START_SEARCH
      else None)"

definition detectSmalltalk :: "ustring \<Rightarrow> bool" where
  "detectSmalltalk text \<longleftrightarrow>
     (let t = normalizeLower text in
      t = ru ''spasibo'' \<or> t = ru ''sps'' \<or> t = ru ''blagodarU'' \<or> t = ru ''poZalujsta'' \<or>
      t = ru ''ok'' \<or> t = ru ''okej'' \<or> t = ru ''aga'' \<or> t = ru ''ponAtno'' \<or>
      t = ru ''privet'' \<or>
      test False (anchored [Plus (Lit 41)]) t \<or> test False (anchored [Plus (Lit 40)]) t \<or>
      test False (anchored [rw ''ah'', Plus (rw ''a'')]) t)"

definition extractMeal :: "ustring \<Rightarrow> ustring option" where
  "extractMeal text =
     (let t = normalizeLower text in
      if includesStr t (ru ''vse vklUC'') \<or> includesStr t (ru ''vsO vklUC'') \<or>
         includesStr t (asc ''all inclusive'') \<or> test True (wb ''ai'') t
      then Some (asc ''AI'')
      else if includesStr t (ru ''bez pitaniA'') \<or> test True (wb ''ro'') t then Some (asc ''RO'')
      else if includesStr t (ru ''zavtrak'') \<or> test True (wb ''bb'') t then Some (asc ''BB'')
      else if includesStr t (ru ''polupansion'') \<or> test True (wb ''hb'') t then Some (asc ''HB'')
      else if includesStr t (ru ''polnyj pansion'') \<or> test True (wb ''fb'') t then Some (asc ''FB'')
      else None)"

definition MONTH_LABELS_RU :: "(rat \<times> ustring list) list" where
  "MONTH_LABELS_RU =
     [(1, [ru ''Anvar'', ru ''Anvare'', ru ''Anv'']),
      (2, [ru ''fevral'', ru ''fevrale'', ru ''fev'']),
      (3, [ru ''mart'', ru ''marte'', ru ''mar'']),
      (4, [ru ''aprel'', ru ''aprele'', ru ''apr'']),
      (5, [ru ''maj'', ru ''maA'', ru ''mae'', ru ''majskie'']),
      (6, [ru ''iUn'', ru ''iUnA'', ru ''iUne'', ru ''iUnX'']),
      (7, [ru ''iUl'', ru ''iUlA'', ru ''iUle'', ru ''iUlX'']),
      (8, [ru ''avgust'', ru ''avguste'', ru ''avg'']),
      (9, [ru ''sentAbr'', ru ''sentAbre'', ru ''sent'', ru ''sen'']),
      (10, [ru ''oktAbr'', ru ''oktAbre'', ru ''okt'']),
      (11, [ru ''noAbr'', ru ''noAbre'', ru ''noA'']),
      (12, [ru ''dekabr'', ru ''dekabre'', ru ''dek''])]"

text \<open>\<open>/(?:^|\s)(?:v|na)?\s*(0?[1-9]|1[0-2])(?:\s*(?:mes(?:yats)?|mesyatse)?)?(?:\s|$)/i\<close>, the words in Russian.\<close>

definition numericMonth_re :: re where
  "numericMonth_re =
     seqs [Alt Bol re_s, Opt (Alt (rw ''v'') (rw ''na'')), Star re_s,
           Grp 1 (Alt (Seq (Opt (Lit 48)) (Cls [CRange 49 57]))
                      (Seq (Lit 49) (Cls [CRange 48 50]))),
           Opt (Seq (Star re_s) (Opt (Alt (Seq (rw ''mes'') (Opt (rw ''Ac''))) (rw ''mesAce'')))),
           Alt re_s Eol]"

text \<open>
  The month of \<open>parseMonthRu(text)\<close>, \<open>None\<close> when it returns null (the year, which it
  looks for as well, plays no part below). The date range of \<open>parseQuery\<close> is
  defined exactly when the month is.
\<close>

definition parseMonthRu_month :: "ustring \<Rightarrow> rat option" where
  "parseMonthRu_month text =
     (let t = normalizeLower text in
      case find (\<lambda>entry. list_ex (\<lambda>token. includesStr t token) (snd entry)) MONTH_LABELS_RU of
        Some entry \<Rightarrow> Some (fst entry)
      | None \<Rightarrow>
          (case exec True numericMonth_re t of
             None \<Rightarrow> None
           | Some m \<Rightarrow> Some (digitsToNumber (nullish (group t m 1) []))))"

text \<open>
  \<open>hasExplicitParams\<close> of the text handler, over the fields of \<open>parseQuery(text).params\<close>.
\<close>

definition hasExplicitParams :: "ustring \<Rightarrow> bool" where
  "hasExplicitParams text \<longleftrightarrow>
     country (extractCountry text) \<noteq> None \<or> unknownCountry (extractCountry text) \<noteq> None \<or>
     extractNights text \<noteq> None \<or> extractBudget text \<noteq> None \<or> extractMeal text \<noteq> None \<or>
     parseMonthRu_month text \<noteq> None"

subsection \<open>The text handler up to its command branches\<close>

definition isAffirmativeText :: "ustring \<Rightarrow> bool" where
  "isAffirmativeText text \<longleftrightarrow>
     test True
       (anchored [Grp 1 (alts [rw ''da'', rw ''aga'', rw ''ugu'', rw ''hoCu'', rw ''davaj'',
                               rw ''ok'', rw ''okej''])])
       (trim (toLowerCase text))"

text \<open>\<open>/^\/(start|cancel|help)\b/i\<close>\<close>

definition knownSlash_re :: re where
  "knownSlash_re = seqs [Bol, Lit 47, Grp 1 (alts [aw ''start'', aw ''cancel'', aw ''help'']), WordB]"

text \<open>
  What \<open>bot.on("text")\<close> does with a message, branch by branch in the order of the
  source, up to the branches of the commands: a text that starts with a slash;
  a cancel phrase; a yes to the offer to show the favorites (the state is given
  as it is before \<open>showFavorites\<close> runs); a pending budget clarification; a yes
  while a value is awaited; a command without parameters. The branch of the
  command \<open>NEW_SEARCH\<close> is written out, the branches of the other commands are
  named by their command, and \<open>Beyond\<close> is a message that goes on to the part of
  the handler below the commands.
\<close>

datatype TextOutcome =
    SlashCommand "Reply list"
  | CancelReset ChatState "Reply list"
  | FavoritesPrompt ChatState
  | Clarification ChatState "Reply list" Pending
  | Affirmative ChatState "Reply list"
  | OtherCommand ParsedCommand ChatState
  | NewSearch ChatState "Reply list"
  | Beyond ChatState

definition onText :: "ChatState \<Rightarrow> ustring \<Rightarrow> TextOutcome" where
  "onText state0 messageText =
     (let txt = trim messageText in
      if startsWith txt (asc ''/'') then
        (if test True knownSlash_re txt then SlashCommand [] else SlashCommand [RUnsupportedCommand])
      else if isCancelText txt then
        (let (state, replies) = replyCancelReset state0 in CancelReset state replies)
      else if pendingPromptAction state0 \<and> isAffirmativeText txt then
        FavoritesPrompt (state0\<lparr>pendingPromptAction := False\<rparr>)
      else if pendingBudgetClarification state0 \<noteq> None then
        (let (state, replies, todo) = pendingBudgetClarification_branch state0 txt
         in Clarification state replies todo)
      else
        (let command = detectCommand txt;
             explicit = hasExplicitParams txt;
             state =
               (if pendingPromptAction state0 \<and>
                   \<not> (pendingPromptAction state0 \<and> isAffirmativeText txt) \<and>
                   (explicit \<or> command \<noteq> None \<or> \<not> detectSmalltalk txt)
                then state0\<lparr>pendingPromptAction := False\<rparr> else state0)
         in if isAffirmativeText txt \<and> \<not> explicit \<and> command = None \<and>
               aiMode state \<and> aiAwaiting state \<noteq> None
            then Affirmative state (RWriteValue # askAiMissingField state)
            else if isAffirmativeText txt \<and> \<not> explicit \<and> command = None \<and>
                    step state = budget_input
            then Affirmative state [RWriteBudget]
            else
              (case command of
                 None \<Rightarrow> Beyond state
               | Some c \<Rightarrow>
                   if explicit then Beyond state
                   else if c = NEW_SEARCH then
                     (let state = resetSearchState state;
                          state = state\<lparr>step := idle\<rparr>
                      in NewSearch state [RStartOver])
                   else OtherCommand c state)))"

text \<open>The text of a new search.\<close>

definition newSearchText :: ustring where
  "newSearchText = ru ''novyj poisk''"


subsection \<open>What a reset clears\<close>

text \<open>The parts of the state the claim names, and the favorites with their counter.\<close>

definition cleared :: "ChatState \<Rightarrow> bool" where
  "cleared st \<longleftrightarrow>
     aiDraft st = None \<and> pendingHotel st = None \<and> pendingBudgetClarification st = None \<and>
     st_offset st = Fin 0 \<and> lastResults st = []"

definition sameFavorites :: "ChatState \<Rightarrow> ChatState \<Rightarrow> bool" where
  "sameFavorites st st' \<longleftrightarrow> favorites st' = favorites st \<and> favoritesSeq st' = favoritesSeq st"

subsection \<open>Example states\<close>

text \<open>A result list with one card, as shown to the user, and no selection pending.\<close>

definition cardTour :: Tour where
  "cardTour = \<lparr> t_price = 98000, t_currency = asc ''RUB'', t_date_from = 20610, t_nights = 7,
     t_operator = asc ''TUI'', t_hotel_id = 1004, t_hotel_name = Some (asc ''Asteria Kemer''),
     t_stars = Some 4, t_rating = Some (21 / 5), t_meal = Some (asc ''AI''),
     t_room = Some (asc ''Standard''), t_country_name = Some (asc ''Turkey''),
     t_city_name = Some (asc ''Kemer''), t_flag_emoji = None, t_image_url = None,
     t_raw_seed = None, t_raw_debug = None \<rparr>"

definition shownResults :: ChatState where
  "shownResults = initialState\<lparr>lastRequestId := Some (asc ''mock-1''), lastResults := [cardTour]\<rparr>"


text \<open>
  The state after a first search has started, two refinements (ten nights; all
  inclusive) and an output of the backend with one tour.
\<close>

definition searched :: ChatState where
  "searched = snd (snd (runSearch_begin initialState))"

definition tenNights :: draft where
  "tenNights = emptyDraft\<lparr>nights_min := Some (Fin 10), nights_max := Some (Fin 10)\<rparr>"

definition allInclusive :: draft where
  "allInclusive = emptyDraft\<lparr>meal := Some (StrV (asc ''AI''))\<rparr>"

definition oneCard :: SearchOutput where
  "oneCard = \<lparr> out_requestid = asc ''mock-1'', out_results = [cardTour],
     out_meta_total = None, out_total = None \<rparr>"

section \<open>The synthetic search backend (mockSearch.ts)\<close>

text \<open>
  \<open>mockSearchTours\<close> generates a market of tours from a seed, filters it by the
  request, sorts it by price, cuts a page out of it and assigns images. What it
  reads besides its argument is made explicit: the hash functions, the
  conversion \<open>String(x)\<close> and the date parser of the runtime are a parameter
  (\<open>Runtime\<close>); the clock, the
  directory of images and the variable \<open>MOCK_DEBUG\<close> are a second one (\<open>World\<close>);
  the cache of image pools, a module variable, is passed in and returned.

  Numbers are exact rationals (the rounding of the floating-point operations is
  not modelled); an instant is its number of milliseconds since the epoch, and
  the date string of a tour is represented by the number of its UTC day.
\<close>

subsection \<open>Input and values\<close>

text \<open>
  The fields of the input are of type \<open>unknown\<close>: undefined, null, a number, a
  string, or something else (a boolean, a plain object).
\<close>

datatype jsval = JUndefined | JNull | JNum jsnum | JStr ustring | JOther

record MockInput =
  in_seed :: jsval
  in_sort :: jsval
  in_limit :: jsval
  in_offset :: jsval
  in_period :: jsval
  in_country_id :: jsval
  in_country_name :: jsval
  in_destination :: jsval
  in_departure_id :: jsval
  in_date_from :: jsval
  in_date_to :: jsval
  in_nights_min :: jsval
  in_nights_max :: jsval
  in_adults :: jsval
  in_children :: jsval
  in_budget_max :: jsval
  in_budget_min :: jsval
  in_rating :: jsval
  in_meal :: jsval

record Destination =
  d_id :: rat
  d_name :: ustring
  d_slug :: ustring
  d_flag :: ustring
  d_resorts :: "ustring list"
  d_priceFactor :: rat

definition DESTINATIONS :: "Destination list" where
  "DESTINATIONS =
     [\<lparr> d_id = 47, d_name = asc ''Turkey'', d_slug = asc ''turkey'',
         d_flag = [55356, 56825, 55356, 56823],
         d_resorts = [asc ''Antalya'', asc ''Kemer'', asc ''Belek'', asc ''Alanya'', asc ''Side''],
         d_priceFactor = 1 \<rparr>,
      \<lparr> d_id = 54, d_name = asc ''Egypt'', d_slug = asc ''egypt'',
         d_flag = [55356, 56810, 55356, 56812],
         d_resorts = [asc ''Hurghada'', asc ''Sharm El Sheikh'', asc ''Marsa Alam''],
         d_priceFactor = 92 / 100 \<rparr>,
      \<lparr> d_id = 29, d_name = asc ''Thailand'', d_slug = asc ''thailand'',
         d_flag = [55356, 56825, 55356, 56813],
         d_resorts = [asc ''Phuket'', asc ''Krabi'', asc ''Khao Lak'', asc ''Pattaya'', asc ''Samui''],
         d_priceFactor = 108 / 100 \<rparr>,
      \<lparr> d_id = 63, d_name = asc ''UAE'', d_slug = asc ''uae'',
         d_flag = [55356, 56806, 55356, 56810],
         d_resorts = [asc ''Dubai'', asc ''Abu Dhabi'', asc ''Ras Al Khaimah''],
         d_priceFactor = 125 / 100 \<rparr>,
      \<lparr> d_id = 90, d_name = asc ''Maldives'', d_slug = asc ''maldives'',
         d_flag = [55356, 56818, 55356, 56827],
         d_resorts = [asc ''North Mal'' @ [233] @ asc '' Atoll'',
                      asc ''South Mal'' @ [233] @ asc '' Atoll'', asc ''Ari Atoll'', asc ''Baa Atoll''],
         d_priceFactor = 135 / 100 \<rparr>,
      \<lparr> d_id = 91, d_name = asc ''Seychelles'', d_slug = asc ''seychelles'',
         d_flag = [55356, 56824, 55356, 56808],
         d_resorts = [asc ''Mah'' @ [233], asc ''Praslin'', asc ''La Digue''],
         d_priceFactor = 132 / 100 \<rparr>]"

definition DESTINATION_BY_ID :: "rat \<Rightarrow> Destination option" where
  "DESTINATION_BY_ID k = find (\<lambda>d. d_id d = k) DESTINATIONS"

definition COUNTRY_ALIASES_mock :: "(ustring \<times> ustring) list" where
  "COUNTRY_ALIASES_mock =
     [(asc ''turkey'', asc ''Turkey''), (asc ''turkiye'', asc ''Turkey''),
      (asc ''egypt'', asc ''Egypt''), (asc ''thailand'', asc ''Thailand''),
      (asc ''uae'', asc ''UAE''), (asc ''united arab emirates'', asc ''UAE''),
      (asc ''emirates'', asc ''UAE''), (asc ''maldives'', asc ''Maldives''),
      (asc ''seychelles'', asc ''Seychelles'')]"

definition HOTEL_BRANDS :: "ustring list" where
  "HOTEL_BRANDS =
     [asc ''Asteria'', asc ''Blue Horizon'', asc ''Coral Elite'', asc ''Royal Palm'',
      asc ''Sunwave'', asc ''Marina Crown'', asc ''Vista Mare'', asc ''Grand Azure'',
      asc ''Luna Coast'', asc ''Sea Breeze'', asc ''Crystal Bay'', asc ''Imperial Sands'']"

definition OPERATORS :: "ustring list" where
  "OPERATORS =
     [asc ''TUI'', asc ''Coral'', asc ''Anex'', asc ''Pegas'', asc ''Tez Tour'',
      asc ''Biblio Globus'', asc ''Fun&Sun'']"

definition ROOMS :: "ustring list" where
  "ROOMS =
     [asc ''Standard'', asc ''Superior'', asc ''Deluxe'', asc ''Family Room'',
      asc ''Junior Suite'', asc ''Suite'']"

definition MEAL_CODES :: "ustring list" where
  "MEAL_CODES = [asc ''RO'', asc ''BB'', asc ''HB'', asc ''FB'', asc ''AI'']"

fun toFiniteNumber :: "jsval \<Rightarrow> rat option" where
  "toFiniteNumber (JNum (Fin q)) = Some q"
| "toFiniteNumber (JStr s) =
     (if trim s \<noteq> []
      then (case StringToNumber s of Fin q \<Rightarrow> Some q | _ \<Rightarrow> None)
      else None)"
| "toFiniteNumber _ = None"

text \<open>The test \<open>/^\d{4}-\d{2}-\d{2}$/\<close>.\<close>

definition isoDateShape :: "ustring \<Rightarrow> bool" where
  "isoDateShape s \<longleftrightarrow>
     length s = 10 \<and> list_all isDigit (take 4 s) \<and> s ! 4 = 45 \<and>
     list_all isDigit (take 2 (drop 5 s)) \<and> s ! 7 = 45 \<and> list_all isDigit (drop 8 s)"

fun normalizeDate :: "jsval \<Rightarrow> ustring option" where
  "normalizeDate (JStr s) = (if isoDateShape s then Some s else None)"
| "normalizeDate _ = None"

fun normalizeText_mock :: "jsval \<Rightarrow> ustring option" where
  "normalizeText_mock (JStr s) = (if trim s = [] then None else Some (trim s))"
| "normalizeText_mock _ = None"

subsection \<open>Seed and random numbers\<close>

record SeedPayload =
  sp_date_from :: ustring
  sp_date_to :: ustring
  sp_country_id :: rat
  sp_country_name :: ustring
  sp_destination :: ustring
  sp_period :: ustring
  sp_departure_id :: rat
  sp_adults :: rat
  sp_children :: rat
  sp_nights_min :: rat
  sp_nights_max :: rat
  sp_budget_max :: rat
  sp_budget_min :: rat
  sp_rating :: rat
  sp_meal :: numstr

text \<open>
  The runtime: the SHA-256 digest in hexadecimal of the JSON text of a payload;
  the first four bytes of the SHA-256 digest of a string, read as an unsigned
  little-endian number; the first four bytes of its SHA-1 digest, read big-endian;
  its SHA-1 digest in hexadecimal; \<open>String(x)\<close> for a value that is not a string;
  and the instant of \<open>new Date(s)\<close> for a date-time string, \<open>None\<close> when the
  date is invalid (what an engine makes of a day such as 30 February is its own).
\<close>

record Runtime =
  rt_sha256_json :: "SeedPayload \<Rightarrow> ustring"
  rt_sha256_u32le :: "ustring \<Rightarrow> int"
  rt_sha1_u32be :: "ustring \<Rightarrow> int"
  rt_sha1_hex :: "ustring \<Rightarrow> ustring"
  rt_String :: "jsval \<Rightarrow> ustring"
  rt_Date :: "ustring \<Rightarrow> int option"

definition String_js :: "Runtime \<Rightarrow> jsval \<Rightarrow> ustring" where
  "String_js rt v = (case v of JStr s \<Rightarrow> s | _ \<Rightarrow> rt_String rt v)"

definition makeSeedFromInput :: "Runtime \<Rightarrow> MockInput \<Rightarrow> ustring" where
  "makeSeedFromInput rt input =
     (if in_seed input \<noteq> JUndefined \<and> in_seed input \<noteq> JNull \<and>
         trim (String_js rt (in_seed input)) \<noteq> []
      then String_js rt (in_seed input)
      else rt_sha256_json rt
        \<lparr> sp_date_from = nullish (normalizeDate (in_date_from input)) [],
          sp_date_to = nullish (normalizeDate (in_date_to input)) [],
          sp_country_id = nullish (toFiniteNumber (in_country_id input)) 0,
          sp_country_name = nullish (normalizeText_mock (in_country_name input)) [],
          sp_destination = nullish (normalizeText_mock (in_destination input)) [],
          sp_period = nullish (normalizeText_mock (in_period input)) [],
          sp_departure_id = nullish (toFiniteNumber (in_departure_id input)) 0,
          sp_adults = nullish (toFiniteNumber (in_adults input)) 0,
          sp_children = nullish (toFiniteNumber (in_children input)) 0,
          sp_nights_min = nullish (toFiniteNumber (in_nights_min input)) 0,
          sp_nights_max = nullish (toFiniteNumber (in_nights_max input)) 0,
          sp_budget_max = nullish (toFiniteNumber (in_budget_max input)) 0,
          sp_budget_min = nullish (toFiniteNumber (in_budget_min input)) 0,
          sp_rating = nullish (toFiniteNumber (in_rating input)) 0,
          sp_meal = (case in_meal input of
                       JStr s \<Rightarrow> StrV (toUpperCase s)
                     | v \<Rightarrow> NumV (Fin (nullish (toFiniteNumber v) 0))) \<rparr>)"

text \<open>
  The generator is a 32-bit xorshift. The state is kept as the unsigned value of
  its 32 bits: \<open>x << k\<close> keeps the low 32 bits of the shifted value, \<open>x >>> k\<close>
  shifts the unsigned value, and \<open>(x >>> 0) / 0xffffffff\<close> divides the unsigned value.
\<close>

definition shl32 :: "int \<Rightarrow> nat \<Rightarrow> int" where
  "shl32 x k = take_bit 32 (push_bit k x)"

definition shr32 :: "int \<Rightarrow> nat \<Rightarrow> int" where
  "shr32 x k = drop_bit k (take_bit 32 x)"

definition makeRng :: "Runtime \<Rightarrow> ustring \<Rightarrow> int" where
  "makeRng rt seed = (let h = rt_sha256_u32le rt seed in if h = 0 then 1 else h)"

definition rng :: "int \<Rightarrow> int \<times> rat" where
  "rng state =
     (let s1 = state XOR shl32 state 13;
          s2 = s1 XOR shr32 s1 17;
          s3 = s2 XOR shl32 s2 5
      in (s3, of_int (take_bit 32 s3) / 4294967295))"

definition randomInt :: "int \<Rightarrow> rat \<Rightarrow> rat \<Rightarrow> int \<times> rat" where
  "randomInt st mn mx = (let (st1, r) = rng st in (st1, Math_floor (r * (mx - mn + 1)) + mn))"

text \<open>\<open>values[k]\<close> is undefined when \<open>k\<close> is not an index of the array.\<close>

definition at_index :: "'a list \<Rightarrow> rat \<Rightarrow> 'a option" where
  "at_index values k =
     (if 0 \<le> k \<and> k < of_nat (length values) \<and> k = of_int \<lfloor>k\<rfloor>
      then Some (values ! nat \<lfloor>k\<rfloor>) else None)"

definition pick :: "int \<Rightarrow> 'a list \<Rightarrow> int \<times> 'a option" where
  "pick st values =
     (let (st1, k) = randomInt st 0 (of_nat (length values) - 1) in (st1, at_index values k))"

definition clamp :: "rat \<Rightarrow> rat \<Rightarrow> rat \<Rightarrow> rat" where
  "clamp n mn mx = max mn (min mx n)"

definition roundPrice :: "rat \<Rightarrow> rat \<Rightarrow> rat" where
  "roundPrice v stp = Math_round (v / stp) * stp"

subsection \<open>Dates\<close>

text \<open>The day number of a civil date, for the constant dates of the source.\<close>

definition days_from_civil :: "int \<Rightarrow> int \<Rightarrow> int \<Rightarrow> int" where
  "days_from_civil y m d =
     (let y1 = (if m \<le> 2 then y - 1 else y);
          era = y1 div 400;
          yoe = y1 - era * 400;
          mp = (if 2 < m then m - 3 else m + 9);
          doy = (153 * mp + 2) div 5 + d - 1;
          doe = yoe * 365 + yoe div 4 - yoe div 100 + doy
      in era * 146097 + doe - 719468)"

definition msPerDay :: int where
  "msPerDay = 86400000"

definition parseDateSafe :: "Runtime \<Rightarrow> jsval \<Rightarrow> int \<Rightarrow> int" where
  "parseDateSafe rt v fallback =
     (case normalizeDate v of
        None \<Rightarrow> fallback
      | Some normalized \<Rightarrow>
          (case rt_Date rt (normalized @ asc ''T00:00:00Z'') of
             None \<Rightarrow> fallback
           | Some d \<Rightarrow> d))"

definition toIsoDate :: "int \<Rightarrow> int" where
  "toIsoDate date = date div msPerDay"

definition addDays :: "int \<Rightarrow> int \<Rightarrow> int" where
  "addDays base days = base + days * msPerDay"

subsection \<open>Normalising the request\<close>

definition resolveEffectiveNightsRange :: "MockInput \<Rightarrow> rat \<times> rat" where
  "resolveEffectiveNightsRange input =
     (let rawMin = toFiniteNumber (in_nights_min input);
          rawMax = toFiniteNumber (in_nights_max input);
          mn = clamp (nullish rawMin 6) 1 30;
          mx = clamp (nullish rawMax 10) 1 30
      in if mn > mx then (Math_floor mx, Math_floor mn) else (Math_floor mn, Math_floor mx))"

fun normalizeMealFilter :: "jsval \<Rightarrow> ustring option" where
  "normalizeMealFilter JUndefined = None"
| "normalizeMealFilter JNull = None"
| "normalizeMealFilter (JStr s) =
     (let normalized = toUpperCase (trim s)
      in if normalized = [] \<or> normalized = asc ''0'' then None else Some normalized)"
| "normalizeMealFilter v =
     (case toFiniteNumber v of
        None \<Rightarrow> None
      | Some numeric \<Rightarrow>
          if numeric \<le> 0 then None
          else if numeric = of_int \<lfloor>numeric\<rfloor> \<and> 1 \<le> numeric \<and> numeric \<le> 5
          then Some (MEAL_CODES ! nat (\<lfloor>numeric\<rfloor> - 1))
          else None)"

definition normalizeSort :: "jsval \<Rightarrow> SortOrder" where
  "normalizeSort v = (if v = JStr (asc ''price_desc'') then price_desc else price_asc)"

definition normalizePeriod :: "jsval \<Rightarrow> PeriodCode option" where
  "normalizePeriod v =
     (case normalizeText_mock v of
        None \<Rightarrow> None
      | Some normalized \<Rightarrow>
          if normalized = asc ''next_month'' then Some next_month
          else if normalized = asc ''1_2_months'' then Some one_two_months
          else if normalized = asc ''summer'' then Some summer
          else if normalized = asc ''autumn'' then Some autumn
          else None)"

definition normalizeLimit :: "jsval \<Rightarrow> rat" where
  "normalizeLimit v =
     (case toFiniteNumber v of
        None \<Rightarrow> 10
      | Some numeric \<Rightarrow> if numeric = 0 \<or> numeric \<le> 0 then 10 else min 20 (Math_floor numeric))"

definition normalizeOffset :: "jsval \<Rightarrow> rat" where
  "normalizeOffset v =
     (case toFiniteNumber v of
        None \<Rightarrow> 0
      | Some numeric \<Rightarrow> if numeric < 0 then 0 else Math_floor numeric)"

text \<open>
  \<open>COUNTRY_ALIASES[token]\<close> is a property access on a plain object: for the tokens
  \<open>constructor\<close> and \<open>__proto__\<close> it yields an inherited member that is not a string,
  and \<open>targetName.toLowerCase()\<close> then throws a \<open>TypeError\<close> (the outer \<open>None\<close>).
\<close>

definition resolveDestinationByText :: "ustring option \<Rightarrow> Destination option option" where
  "resolveDestinationByText text =
     (case text of
        None \<Rightarrow> Some None
      | Some t \<Rightarrow>
          if t = [] then Some None
          else
            (let token = toLowerCase (trim t) in
             if token = asc ''constructor'' \<or> token = asc ''__proto__'' then None
             else
               (let targetName = nullish (map_of COUNTRY_ALIASES_mock token) (trim t)
                in Some (find (\<lambda>d. toLowerCase (d_name d) = toLowerCase targetName)
                           DESTINATIONS))))"

definition resolveDestination :: "MockInput \<Rightarrow> Destination option" where
  "resolveDestination input =
     (case (case toFiniteNumber (in_country_id input) of
              None \<Rightarrow> None
            | Some cid \<Rightarrow> DESTINATION_BY_ID (Math_floor cid)) of
        Some byId \<Rightarrow> Some byId
      | None \<Rightarrow>
          (case resolveDestinationByText (normalizeText_mock (in_country_name input)) of
             None \<Rightarrow> None
           | Some (Some byCountryName) \<Rightarrow> Some byCountryName
           | Some None \<Rightarrow>
               (case resolveDestinationByText (normalizeText_mock (in_destination input)) of
                  None \<Rightarrow> None
                | Some (Some byDestination) \<Rightarrow> Some byDestination
                | Some None \<Rightarrow> Some (nullish (DESTINATION_BY_ID 47) (hd DESTINATIONS)))))"

text \<open>
  What the backend reads from its surroundings: \<open>new Date()\<close> in \<open>buildTours\<close> and
  in \<open>resolvePeriodDates\<close>, the sorted list of image files of a destination (empty
  when the directory cannot be read), and whether \<open>MOCK_DEBUG\<close> is \<open>"1"\<close>.
\<close>

record World =
  now_build :: int
  now_period :: int
  listImages :: "ustring \<Rightarrow> ustring list"
  MOCK_DEBUG :: bool

definition resolvePeriodDates :: "World \<Rightarrow> PeriodCode option \<Rightarrow> int \<Rightarrow> int \<Rightarrow> int \<times> int" where
  "resolvePeriodDates w p dateFrom dateTo =
     (case p of
        None \<Rightarrow> (dateFrom, dateTo)
      | Some summer \<Rightarrow> (days_from_civil 2026 6 1 * msPerDay, days_from_civil 2026 8 31 * msPerDay)
      | Some autumn \<Rightarrow> (days_from_civil 2026 9 1 * msPerDay, days_from_civil 2026 11 30 * msPerDay)
      | Some q \<Rightarrow>
          (let fromDate = (now_period w div msPerDay) * msPerDay;
               delta = (if q = next_month then 30 else 60)
           in (fromDate, addDays fromDate delta)))"

subsection \<open>The market\<close>

record TourResult =
  r_price :: rat
  r_currency :: ustring
  r_date_from :: int
  r_nights :: rat
  r_operator :: "ustring option"
  r_hotel_id :: rat
  r_hotel_name :: ustring
  r_stars :: rat
  r_rating :: "rat option"
  r_meal :: ustring
  r_room :: "ustring option"
  r_country_name :: ustring
  r_city_name :: "ustring option"
  r_flag_emoji :: ustring
  r_image_url :: "ustring option"
  r_raw_seed :: ustring
  r_raw_debug :: "(SortOrder \<times> rat \<times> rat) option"

text \<open>An undefined value inside a template string reads \<open>undefined\<close>.\<close>

definition inTemplate :: "ustring option \<Rightarrow> ustring" where
  "inTemplate v = (case v of None \<Rightarrow> asc ''undefined'' | Some s \<Rightarrow> s)"

definition makeHotelName :: "int \<Rightarrow> ustring option \<Rightarrow> int \<times> ustring" where
  "makeHotelName st city =
     (let (st1, brand) = pick st HOTEL_BRANDS;
          (st2, r) = rng st1
      in (st2, if r < 65 / 100
               then inTemplate brand @ asc '' Resort '' @ inTemplate city
               else inTemplate brand @ asc '' '' @ inTemplate city))"

definition maybeMissingRating :: "int \<Rightarrow> rat \<Rightarrow> int \<times> rat option" where
  "maybeMissingRating st rated =
     (let (st1, r) = rng st in (st1, if r < 6 / 100 then None else Some rated))"

record MarketParams =
  mp_seed :: ustring
  mp_destination :: Destination
  mp_fromDate :: int
  mp_rangeDays :: int
  mp_nights_min :: rat
  mp_nights_max :: rat
  mp_occupancyFactor :: rat
  mp_departureFactor :: rat

text \<open>The body of the loop of \<open>buildTours\<close> for the index \<open>i\<close>, from the state of the generator.\<close>

definition tourAt :: "MarketParams \<Rightarrow> nat \<Rightarrow> int \<Rightarrow> int \<times> TourResult" where
  "tourAt mp i st0 =
     (let (st1, starRoll) = rng st0;
          stars = (if starRoll < 3 / 10 then 3 else if starRoll < 72 / 100 then 4 else 5);
          (st2, drawn) = randomInt st1 (mp_nights_min mp) (mp_nights_max mp);
          nights = (if i = 4 then clamp 8 (mp_nights_min mp) (mp_nights_max mp) else drawn);
          (st3, startOffset) =
             (if 0 < mp_rangeDays mp then randomInt st2 0 (of_int (mp_rangeDays mp))
              else randomInt st2 0 21);
          dateFrom = toIsoDate (addDays (mp_fromDate mp) \<lfloor>startOffset\<rfloor>);
          (st4, mealRoll) = rng st3;
          mealCode =
             (if i < length MEAL_CODES then MEAL_CODES ! i
              else if mealRoll < 14 / 100 then asc ''RO''
              else if mealRoll < 34 / 100 then asc ''BB''
              else if mealRoll < 62 / 100 then asc ''HB''
              else if mealRoll < 82 / 100 then asc ''FB''
              else asc ''AI'');
          (st5, operator) = pick st4 OPERATORS;
          (st6, room) = pick st5 ROOMS;
          (st7, cityName) = pick st6 (d_resorts (mp_destination mp));
          (st8, ratingRoll) = rng st7;
          baseRating =
             (if stars = 5 then 425 / 100 + ratingRoll * (75 / 100)
              else if stars = 4 then 375 / 100 + ratingRoll * (9 / 10)
              else 3 + ratingRoll * (115 / 100));
          rating1 = Math_round (clamp baseRating 3 5 * 10) / 10;
          mealFactor =
             (if mealCode = asc ''AI'' then 12 / 10
              else if mealCode = asc ''FB'' then 112 / 100
              else if mealCode = asc ''HB'' then 107 / 100
              else if mealCode = asc ''BB'' then 103 / 100
              else 98 / 100);
          starFactor = (if stars = 5 then 15 / 10 else if stars = 4 then 12 / 10 else 95 / 100);
          (st9, operatorFactor) =
             (if operator = Some (asc ''TUI'') \<or> operator = Some (asc ''Tez Tour'')
              then (st8, 106 / 100)
              else (let (s, r) = rng st8 in (s, 97 / 100 + r * (1 / 10))));
          (st10, noiseRoll) = rng st9;
          noise = 9 / 10 + noiseRoll * (22 / 100);
          grossPrice =
             42000 * starFactor * mealFactor * (84 / 100 + nights * (75 / 1000)) *
             mp_occupancyFactor mp * d_priceFactor (mp_destination mp) *
             mp_departureFactor mp * operatorFactor * noise;
          (st11, stepRoll) = rng st10;
          priceStep = (if stepRoll < 2 / 10 then 10 else 100);
          price = roundPrice grossPrice priceStep;
          hotelId = 1000 + of_nat i;
          (st12, hotelName) = makeHotelName st11 cityName;
          (st13, rated) = maybeMissingRating st12 rating1
      in (st13,
          \<lparr> r_price = price, r_currency = asc ''RUB'', r_date_from = dateFrom,
            r_nights = nights, r_operator = operator, r_hotel_id = hotelId,
            r_hotel_name = hotelName, r_stars = stars, r_rating = rated, r_meal = mealCode,
            r_room = room, r_country_name = d_name (mp_destination mp),
            r_city_name = cityName, r_flag_emoji = d_flag (mp_destination mp),
            r_image_url = None, r_raw_seed = mp_seed mp, r_raw_debug = None \<rparr>))"

text \<open>The loop \<open>for (let i = 0; i < marketSize; i += 1)\<close>, with the number of rounds left.\<close>

primrec tourLoop :: "MarketParams \<Rightarrow> nat \<Rightarrow> int \<Rightarrow> nat \<Rightarrow> TourResult list" where
  "tourLoop mp i st 0 = []"
| "tourLoop mp i st (Suc n) = (let (st1, t) = tourAt mp i st in t # tourLoop mp (Suc i) st1 n)"

text \<open>\<open>x % y\<close> on numbers: the remainder has the sign of \<open>x\<close>.\<close>

definition js_rem :: "rat \<Rightarrow> rat \<Rightarrow> rat" where
  "js_rem x y = x - y * of_int (if 0 \<le> x / y then \<lfloor>x / y\<rfloor> else \<lceil>x / y\<rceil>)"

text \<open>What \<open>buildTours\<close> computes from the request before its loop.\<close>

definition marketParams ::
  "World \<Rightarrow> Runtime \<Rightarrow> MockInput \<Rightarrow> Destination \<Rightarrow> ustring \<Rightarrow> MarketParams" where
  "marketParams w rt input destination seed =
     (let parsedFromDate = parseDateSafe rt (in_date_from input) (now_build w);
          parsedToDate = parseDateSafe rt (in_date_to input) (addDays parsedFromDate 30);
          (fromDate, toDate) =
             resolvePeriodDates w (normalizePeriod (in_period input)) parsedFromDate parsedToDate;
          rangeDays = max 0 ((toDate - fromDate) div msPerDay);
          nightsRange = resolveEffectiveNightsRange input;
          nAdults = clamp (nullish (toFiniteNumber (in_adults input)) 2) 1 6;
          nChildren = clamp (nullish (toFiniteNumber (in_children input)) 0) 0 4;
          occupancyFactor = 1 + nAdults * (18 / 100) + nChildren * (9 / 100);
          departureFactor =
             9 / 10 + js_rem (nullish (toFiniteNumber (in_departure_id input)) 0) 5 * (4 / 100)
      in \<lparr> mp_seed = seed, mp_destination = destination, mp_fromDate = fromDate,
           mp_rangeDays = rangeDays, mp_nights_min = fst nightsRange,
           mp_nights_max = snd nightsRange, mp_occupancyFactor = occupancyFactor,
           mp_departureFactor = departureFactor \<rparr>)"

definition buildTours :: "World \<Rightarrow> Runtime \<Rightarrow> MockInput \<Rightarrow> ustring \<Rightarrow> TourResult list option" where
  "buildTours w rt input seed =
     (let (st1, marketSize) = randomInt (makeRng rt (seed @ asc '':market'')) 60 100
      in case resolveDestination input of
           None \<Rightarrow> None
         | Some destination \<Rightarrow>
             Some (tourLoop (marketParams w rt input destination seed) 0 st1
                     (nat \<lfloor>marketSize\<rfloor>)))"

subsection \<open>Images\<close>

text \<open>A whole number below \<open>10^21\<close> inside a template string: its decimal digits.\<close>

fun showNat :: "nat \<Rightarrow> ustring" where
  "showNat n = (if n < 10 then [48 + int n] else showNat (n div 10) @ [48 + int (n mod 10)])"

declare showNat.simps [simp del]

definition hashToInt :: "Runtime \<Rightarrow> ustring \<Rightarrow> int" where
  "hashToInt rt s = rt_sha1_u32be rt s"

type_synonym poolCache = "ustring \<Rightarrow> ustring list option"

definition getImagePool :: "World \<Rightarrow> poolCache \<Rightarrow> ustring \<Rightarrow> ustring list \<times> poolCache" where
  "getImagePool w cache slug =
     (case cache slug of
        Some cached \<Rightarrow> (cached, cache)
      | None \<Rightarrow> (let files = listImages w slug in (files, cache(slug \<mapsto> files))))"

text \<open>The loop \<open>while (used.has(idx) && tries < poolSize)\<close>, with the number of tries left.\<close>

primrec probe :: "nat list \<Rightarrow> nat \<Rightarrow> nat \<Rightarrow> nat \<Rightarrow> nat" where
  "probe used poolSize idx 0 = idx"
| "probe used poolSize idx (Suc n) =
     (if idx \<in> set used then probe used poolSize ((idx + 1) mod poolSize) n else idx)"

text \<open>The callback of \<open>page.map\<close>, with the index in the page and the set \<open>used\<close>.\<close>

primrec assignLoop ::
  "Runtime \<Rightarrow> ustring \<Rightarrow> rat \<Rightarrow> ustring list \<Rightarrow> nat \<Rightarrow> nat \<Rightarrow> nat \<Rightarrow> nat list \<Rightarrow>
   TourResult list \<Rightarrow> TourResult list" where
  "assignLoop rt seed off pool pageSize start indexInPage used [] = []"
| "assignLoop rt seed off pool pageSize start indexInPage used (tour # rest) =
     (let poolSize = length pool;
          spin = nat (hashToInt rt (seed @ asc ''|'' @ showNat (nat \<lfloor>r_hotel_id tour\<rfloor>) @
                   asc ''|'' @ showNat (nat \<lfloor>off\<rfloor>) @ asc ''|'' @ showNat indexInPage)
                   mod int poolSize);
          idx0 = (start + indexInPage + spin) mod poolSize;
          idx = (if poolSize \<ge> pageSize then probe used poolSize idx0 poolSize else idx0);
          used1 = (if poolSize \<ge> pageSize then idx # used else used)
      in tour\<lparr> r_image_url := Some (pool ! idx) \<rparr> #
         assignLoop rt seed off pool pageSize start (Suc indexInPage) used1 rest)"

definition assignImagesForPage ::
  "Runtime \<Rightarrow> ustring \<Rightarrow> ustring \<Rightarrow> rat \<Rightarrow> ustring list \<Rightarrow> TourResult list \<Rightarrow> TourResult list" where
  "assignImagesForPage rt seed slug off pool page =
     (if length pool = 0 then map (\<lambda>tour. tour\<lparr> r_image_url := None \<rparr>) page
      else
        (let start = nat (hashToInt rt (seed @ asc ''|'' @ slug @ asc ''|'' @ showNat (nat \<lfloor>off\<rfloor>))
                       mod int (length pool))
         in assignLoop rt seed off pool (length page) start 0 [] page))"

subsection \<open>The search\<close>

definition ratingRejected :: "rat option \<Rightarrow> TourResult \<Rightarrow> bool" where
  "ratingRejected minRating tour =
     (case minRating of
        None \<Rightarrow> False
      | Some q \<Rightarrow> 0 < q \<and> (case r_rating tour of None \<Rightarrow> True | Some v \<Rightarrow> v < q))"

definition mealRejected :: "ustring option \<Rightarrow> TourResult \<Rightarrow> bool" where
  "mealRejected mealFilter tour =
     (case mealFilter of
        None \<Rightarrow> False
      | Some f \<Rightarrow> f \<noteq> [] \<and> toUpperCase (r_meal tour) \<noteq> f)"

text \<open>The callback of \<open>generated.filter\<close>.\<close>

definition keepTour ::
  "rat \<times> rat \<Rightarrow> rat \<Rightarrow> rat \<Rightarrow> rat option \<Rightarrow> ustring option \<Rightarrow> TourResult \<Rightarrow> bool" where
  "keepTour nightsRange minBudget maxBudget minRating mealFilter tour =
     (if r_nights tour < fst nightsRange then False
      else if r_nights tour > snd nightsRange then False
      else if minBudget > 0 \<and> r_price tour < minBudget then False
      else if maxBudget > 0 \<and> r_price tour > maxBudget then False
      else if ratingRejected minRating tour then False
      else if mealRejected mealFilter tour then False
      else True)"

text \<open>
  The output without \<open>meta\<close> (whose field \<open>ms\<close> is the time the call took); the
  latency is the time the call sleeps before it returns.
\<close>

record MockOutput =
  mo_requestid :: ustring
  mo_results :: "TourResult list"
  mo_latencyMs :: rat

text \<open>
  The page of a request: the market filtered, sorted by price
  (\<open>Array.prototype.sort\<close> is stable, and so is \<open>sort_key\<close>) and cut.
\<close>

definition pageOf :: "MockInput \<Rightarrow> TourResult list \<Rightarrow> TourResult list" where
  "pageOf input generated =
     (let nightsRange = resolveEffectiveNightsRange input;
          maxBudget = nullish (toFiniteNumber (in_budget_max input)) 0;
          minBudget = nullish (toFiniteNumber (in_budget_min input)) 0;
          minRating = toFiniteNumber (in_rating input);
          mealFilter = normalizeMealFilter (in_meal input);
          srt = normalizeSort (in_sort input);
          lim = normalizeLimit (in_limit input);
          off = normalizeOffset (in_offset input);
          filtered =
            filter (keepTour nightsRange minBudget maxBudget minRating mealFilter) generated;
          sorted =
            (if srt = price_desc then sort_key (\<lambda>t. - r_price t) filtered
             else sort_key r_price filtered)
      in take (nat \<lfloor>lim\<rfloor>) (drop (nat \<lfloor>off\<rfloor>) sorted))"

text \<open>
  What \<open>mockSearchTours\<close> makes of the generated market, the destination, the pool
  of images and the setting of \<open>MOCK_DEBUG\<close>: the page with its images and with
  \<open>raw\<close> filled in, the request id and the latency.
\<close>

definition pageOutput ::
  "Runtime \<Rightarrow> MockInput \<Rightarrow> ustring \<Rightarrow> TourResult list \<Rightarrow> Destination \<Rightarrow> ustring list \<Rightarrow> bool \<Rightarrow>
   MockOutput" where
  "pageOutput rt input seed generated destination pool debug =
     (let latencyMs = snd (randomInt (makeRng rt (seed @ asc '':latency'')) 250 900);
          srt = normalizeSort (in_sort input);
          lim = normalizeLimit (in_limit input);
          off = normalizeOffset (in_offset input);
          page = pageOf input generated;
          withImages = assignImagesForPage rt seed (d_slug destination) off pool page;
          results =
            map (\<lambda>tour. tour\<lparr> r_raw_seed := seed,
                   r_raw_debug := (if debug then Some (srt, lim, off) else None) \<rparr>)
              withImages
      in \<lparr> mo_requestid = asc ''mock-'' @ take 12 (rt_sha1_hex rt seed),
           mo_results = results, mo_latencyMs = latencyMs \<rparr>)"

text \<open>The result is \<open>None\<close> when the call throws.\<close>

definition mockSearchTours ::
  "World \<Rightarrow> Runtime \<Rightarrow> poolCache \<Rightarrow> MockInput \<Rightarrow> (MockOutput \<times> poolCache) option" where
  "mockSearchTours w rt cache input =
     (let seed = makeSeedFromInput rt input
      in case buildTours w rt input seed of
           None \<Rightarrow> None
         | Some generated \<Rightarrow>
             (case resolveDestination input of
                None \<Rightarrow> None
              | Some destination \<Rightarrow>
                  (let (pool, cache1) = getImagePool w cache (d_slug destination)
                   in Some (pageOutput rt input seed generated destination pool (MOCK_DEBUG w),
                            cache1))))"

text \<open>A tour without what the page adds to it: the image and the field \<open>raw\<close>.\<close>

definition bare :: "TourResult \<Rightarrow> TourResult" where
  "bare t = t\<lparr> r_image_url := None, r_raw_seed := [], r_raw_debug := None \<rparr>"

text \<open>
  A request whose dates do not come from the clock: the period is the summer or
  the autumn, or there is no period and \<open>date_from\<close> is a date the runtime accepts.
\<close>

definition fixedDates :: "Runtime \<Rightarrow> MockInput \<Rightarrow> bool" where
  "fixedDates rt input =
     (case normalizePeriod (in_period input) of
        Some summer \<Rightarrow> True
      | Some autumn \<Rightarrow> True
      | Some other \<Rightarrow> False
      | None \<Rightarrow>
          (case normalizeDate (in_date_from input) of
             None \<Rightarrow> False
           | Some s \<Rightarrow> rt_Date rt (s @ asc ''T00:00:00Z'') \<noteq> None))"


subsection \<open>Example surroundings and requests\<close>

text \<open>
  A stand-in runtime for running the backend on examples: polynomial check sums in
  the place of the digests, and a date parser that takes a month from 1 to 12 and
  a day from 1 to 31, counting a day beyond the end of the month on into the next
  month. Nothing proved below for all runtimes depends on it.
\<close>

definition Date_of_iso :: "ustring \<Rightarrow> int option" where
  "Date_of_iso s =
     (let y = \<lfloor>digitsToNumber (take 4 s)\<rfloor>;
          m = \<lfloor>digitsToNumber (take 2 (drop 5 s))\<rfloor>;
          d = \<lfloor>digitsToNumber (take 2 (drop 8 s))\<rfloor>
      in if 1 \<le> m \<and> m \<le> 12 \<and> 1 \<le> d \<and> d \<le> 31
         then Some (days_from_civil y m d * msPerDay) else None)"

definition checksum :: "int \<Rightarrow> ustring \<Rightarrow> int" where
  "checksum b s = foldl (\<lambda>acc c. (acc * b + c) mod 4294967296) 7 s"

definition demoRuntime :: Runtime where
  "demoRuntime =
     \<lparr> rt_sha256_json = (\<lambda>p. asc ''payload:'' @ sp_date_from p @ sp_date_to p @ sp_country_name p @ sp_period p),
       rt_sha256_u32le = checksum 31,
       rt_sha1_u32be = checksum 37,
       rt_sha1_hex = (\<lambda>s. asc ''0123456789abcdef''),
       rt_String = (\<lambda>v. asc ''[object Object]''),
       rt_Date = Date_of_iso \<rparr>"

definition noImages :: "ustring \<Rightarrow> ustring list" where
  "noImages slug = []"

definition threeImages :: "ustring \<Rightarrow> ustring list" where
  "threeImages slug =
     [asc ''/assets/hotels/'' @ slug @ asc ''/'' @ slug @ asc ''_01.jpg'',
      asc ''/assets/hotels/'' @ slug @ asc ''/'' @ slug @ asc ''_02.jpg'',
      asc ''/assets/hotels/'' @ slug @ asc ''/'' @ slug @ asc ''_03.jpg'']"

text \<open>
  Two moments: 2 November 2026, 10:00 UTC, with three images in the directory of
  each destination, and 40 days later, when the directories are gone.
\<close>

definition worldNov2 :: World where
  "worldNov2 =
     \<lparr> now_build = days_from_civil 2026 11 2 * msPerDay + 36000000,
       now_period = days_from_civil 2026 11 2 * msPerDay + 36000000,
       listImages = threeImages, MOCK_DEBUG = False \<rparr>"

definition worldDec12 :: World where
  "worldDec12 =
     \<lparr> now_build = days_from_civil 2026 12 12 * msPerDay + 36000000,
       now_period = days_from_civil 2026 12 12 * msPerDay + 36000000,
       listImages = noImages, MOCK_DEBUG = False \<rparr>"

definition emptyInput :: MockInput where
  "emptyInput =
     \<lparr> in_seed = JUndefined, in_sort = JUndefined, in_limit = JUndefined,
       in_offset = JUndefined, in_period = JUndefined, in_country_id = JUndefined,
       in_country_name = JUndefined, in_destination = JUndefined,
       in_departure_id = JUndefined, in_date_from = JUndefined, in_date_to = JUndefined,
       in_nights_min = JUndefined, in_nights_max = JUndefined, in_adults = JUndefined,
       in_children = JUndefined, in_budget_max = JUndefined, in_budget_min = JUndefined,
       in_rating = JUndefined, in_meal = JUndefined \<rparr>"

text \<open>Egypt from 1 June 2026, 7 to 9 nights, all inclusive, 100000 to 400000, rated 3.5 or better, three per page.\<close>

definition egyptRequest :: MockInput where
  "egyptRequest =
     emptyInput
     \<lparr> in_seed := JStr (asc ''demo''), in_limit := JNum (Fin 3),
       in_country_name := JStr (asc ''Egypt''),
       in_date_from := JStr (asc ''2026-06-01''), in_date_to := JStr (asc ''2026-06-20''),
       in_nights_min := JNum (Fin 9), in_nights_max := JNum (Fin 7),
       in_budget_max := JNum (Fin 400000), in_budget_min := JNum (Fin 100000),
       in_rating := JNum (Fin (7 / 2)), in_meal := JStr (asc ''ai'') \<rparr>"

text \<open>Tours of the next month, with the seed given.\<close>

definition nextMonthRequest :: MockInput where
  "nextMonthRequest =
     emptyInput\<lparr> in_seed := JStr (asc ''demo''), in_period := JStr (asc ''next_month'') \<rparr>"

definition noCache :: poolCache where
  "noCache = (\<lambda>slug. None)"


section \<open>Missing slots (C1)\<close>

lemma isFinite_Number_of: "isFinite (Number_of x) \<longleftrightarrow> (\<exists>q. x = Some (Fin q))"
  by (cases x; cases "the x") auto

lemma hasCountry_spec: "hasCountry d \<longleftrightarrow> slot_present d Country"
  by (auto simp: hasCountry_def split: option.splits)

lemma hasNights_spec: "hasNights d \<longleftrightarrow> slot_present d Nights"
  by (auto simp: hasNights_def isFinite_Number_of)

lemma hasBudget_spec: "hasBudget d \<longleftrightarrow> slot_present d Budget"
  by (auto simp: hasBudget_def isFinite_Number_of)

text \<open>
  C1. The missing-slot computation lists exactly the required slots that are
  not present (the country counts by numeric id or by a name that is not blank,
  the nights when both bounds are finite, the budget when its ceiling is finite
  and above zero), in the order country, nights, budget; the next slot to ask
  for is the first of them, or null when the list is empty. The same holds for
  the awaiting pointer the bot derives from the orchestrator's list.
\<close>

theorem C1_missing_slots:
  "getMissingFields d = filter (\<lambda>f. \<not> slot_present d f) [Country, Nights, Budget] \<and>
   nextAiAwaiting d = first_missing (getMissingFields d) \<and>
   resolveAiAwaiting (getMissingFields d) = first_missing (getMissingFields d)"
  by (cases "slot_present d Country"; cases "slot_present d Nights";
      cases "slot_present d Budget")
     (simp_all add: getMissingFields_def nextAiAwaiting_def resolveAiAwaiting_def
       first_missing_def hasCountry_spec hasNights_spec hasBudget_spec Let_def
       del: slot_present.simps)

theorem C1_missing_slots_witness:
  "getMissingFields (emptyDraft\<lparr>country_name := Some (asc ''Turkey''),
      budget_max := Some (Fin 0)\<rparr>) = [Nights, Budget] \<and>
   nextAiAwaiting (emptyDraft\<lparr>country_name := Some (asc ''Turkey''),
      budget_max := Some (Fin 0)\<rparr>) = Some AwNights"
  using C1_missing_slots [of "emptyDraft\<lparr>country_name := Some (asc ''Turkey''),
      budget_max := Some (Fin 0)\<rparr>"]
  by (simp add: emptyDraft_def first_missing_def asc_def trim_def isSpace_def)


section \<open>Budget extraction (C5, C6)\<close>

lemma Math_round_of_int: "Math_round (of_int n) = of_int n"
proof -
  have "\<lfloor>(of_int n :: rat) + 1 / 2\<rfloor> = n" by linarith
  then show ?thesis by (simp add: Math_round_def)
qed

lemma Math_round_mono: "x \<le> y \<Longrightarrow> Math_round x \<le> Math_round y"
  by (simp add: Math_round_def floor_mono)

lemma round100_mono: "x \<le> y \<Longrightarrow> round100 x \<le> round100 y"
  by (simp add: round100_def Math_round_mono divide_right_mono)

lemma digitsToNumber_int: "\<exists>k. digitsToNumber ds = of_int k"
  by (auto simp: digitsToNumber_def)

lemma parseMoneyToken_pos:
  assumes "parseMoneyToken tok f = Some v"
  shows "1 \<le> v"
proof -
  let ?raw = "trim (filter (\<lambda>c. c \<noteq> 8381)
                  (replaceAllEmpty False rub_re (normalizeLower tok)))"
  obtain k where k: "digitsToNumber (filter isDigit ?raw) = of_int k"
    using digitsToNumber_int by blast
  from assms have pos: "0 < (of_int k :: rat)"
    and v: "v = Math_round (if f \<or> test True thousands_re ?raw
                            then of_int k * 1000 else of_int k)"
    by (auto simp: parseMoneyToken_def Let_def k split: if_splits)
  from pos have k1: "1 \<le> k" by simp
  have "v = of_int (if f \<or> test True thousands_re ?raw then k * 1000 else k)"
    using v Math_round_of_int [of "k * 1000"] Math_round_of_int [of k] by simp
  moreover have "1 \<le> (if f \<or> test True thousands_re ?raw then k * 1000 else k)"
    using k1 by simp
  ultimately show ?thesis by simp
qed

lemma mkApprox_band:
  assumes "0 \<le> v"
  shows "mkApprox v = BApprox v (round100 (v * (9 / 10))) (round100 (v * (11 / 10)))"
proof -
  have "v * (9 / 10) \<le> v * (11 / 10)" using assms by simp
  then have "round100 (v * (9 / 10)) \<le> round100 (v * (11 / 10))" by (rule round100_mono)
  then show ?thesis by (simp add: mkApprox_def APPROX_PCT_def Let_def)
qed

lemma amount_of_match_pos: "amount_of_match r s = Some v \<Longrightarrow> 1 \<le> v"
  by (auto simp: amount_of_match_def parseMoneyToken_pos split: option.splits)

lemma bare_amount_pos: "bare_amount s = Some v \<Longrightarrow> 1 \<le> v"
  by (auto simp: bare_amount_def parseMoneyToken_pos split: option.splits)

lemma range_of_match_shape: "range_of_match r s = Some b \<Longrightarrow> \<exists>x y. b = BRange x y \<and> x \<le> y"
  by (auto simp: range_of_match_def Let_def split: option.splits prod.splits)

text \<open>Where an approx budget can come from: one of the last three rules, with a positive amount.\<close>

lemma extractBudget_approxD:
  assumes "extractBudget input = Some (BApprox v mn mx)"
  shows "\<exists>w. 1 \<le> w \<and> mkApprox w = BApprox v mn mx"
proof -
  let ?t = "normalizeLower input"
  let ?o = "normalizeText input"
  consider
      (a) b where "range_of_match rangeFromTo_re ?t = Some b" "b = BApprox v mn mx"
    | (b) b where "range_of_match dashRange_re ?o = Some b" "b = BApprox v mn mx"
    | (c) w where "amount_of_match maxMatch_re ?t = Some w" "BMax w = BApprox v mn mx"
    | (d) w where "amount_of_match approxMatch_re ?t = Some w" "mkApprox w = BApprox v mn mx"
    | (e) w where "amount_of_match approxTrailing_re ?t = Some w" "mkApprox w = BApprox v mn mx"
    | (f) w where "bare_amount ?t = Some w" "mkApprox w = BApprox v mn mx"
    using assms by (auto simp: extractBudget_def Let_def split: option.splits)
  then show ?thesis
  proof cases
    case a then show ?thesis using range_of_match_shape by blast
  next
    case b then show ?thesis using range_of_match_shape by blast
  next
    case c then show ?thesis by simp
  next
    case d then show ?thesis using amount_of_match_pos by blast
  next
    case e then show ?thesis using amount_of_match_pos by blast
  next
    case f then show ?thesis using bare_amount_pos by blast
  qed
qed

lemma extractBudget_approx_band:
  assumes "extractBudget input = Some (BApprox v mn mx)"
  shows "1 \<le> v \<and> mn = round100 (v * (9 / 10)) \<and> mx = round100 (v * (11 / 10)) \<and> mn \<le> mx"
proof -
  from extractBudget_approxD [OF assms] obtain w
    where w: "1 \<le> w" "mkApprox w = BApprox v mn mx" by blast
  have wpos: "0 \<le> w" using w(1) by simp
  have "BApprox w (round100 (w * (9 / 10))) (round100 (w * (11 / 10))) = BApprox v mn mx"
    using w(2) unfolding mkApprox_band [OF wpos] .
  then have eqs: "w = v" "mn = round100 (v * (9 / 10))" "mx = round100 (v * (11 / 10))"
    by auto
  have "v * (9 / 10) \<le> v * (11 / 10)" using w eqs by simp
  then have "mn \<le> mx" unfolding eqs by (rule round100_mono)
  then show ?thesis using w eqs by simp
qed

lemma extractBudget_range_ordered:
  assumes "extractBudget input = Some (BRange mn mx)"
  shows "mn \<le> mx"
proof -
  let ?t = "normalizeLower input"
  let ?o = "normalizeText input"
  consider
      (a) "range_of_match rangeFromTo_re ?t = Some (BRange mn mx)"
    | (b) "range_of_match dashRange_re ?o = Some (BRange mn mx)"
    | (c) w where "mkApprox w = BRange mn mx"
    using assms by (auto simp: extractBudget_def Let_def split: option.splits)
  then show ?thesis
  proof cases
    case a then show ?thesis using range_of_match_shape by blast
  next
    case b then show ?thesis using range_of_match_shape by blast
  next
    case c then show ?thesis by (simp add: mkApprox_def Let_def)
  qed
qed


subsection \<open>Merging an approx budget into a draft\<close>

lemma normalizeCountryName_find:
  "find (\<lambda>name. COUNTRY_TO_ID name = COUNTRY_TO_ID c) SUPPORTED_COUNTRIES = Some c"
  by (cases c) (simp_all add: SUPPORTED_COUNTRIES_def COUNTRY_TO_ID_def)

lemma nameOf_not_blank: "trim (nameOf c) \<noteq> []"
  by (cases c) (simp_all add: nameOf_def asc_def trim_def isSpace_def)

lemma fillCountryFromName_hasCountry:
  "hasCountry d \<Longrightarrow> hasCountry (fillCountryFromName args d)"
  by (auto simp: fillCountryFromName_def hasCountry_def getMappedCountryId_def Let_def
      normalizeCountryName_find nameOf_not_blank split: option.splits)

lemma fillCountryFromText_hasCountry:
  "hasCountry d \<Longrightarrow> hasCountry (fillCountryFromText input d)"
  by (auto simp: fillCountryFromText_def hasCountry_def split: option.splits)

lemma fillCountry_nights:
  "nights_min (fillCountryFromName args d) = nights_min d"
  "nights_max (fillCountryFromName args d) = nights_max d"
  "nights_min (fillCountryFromText input d) = nights_min d"
  "nights_max (fillCountryFromText input d) = nights_max d"
  "budget_max (fillCountryFromName args d) = budget_max d"
  "budget_max (fillCountryFromText input d) = budget_max d"
  by (simp_all add: fillCountryFromName_def fillCountryFromText_def Let_def split: option.splits)

lemma fillNights_keeps:
  "hasNights d \<Longrightarrow> fillNights input d = d"
  by (auto simp: fillNights_def hasNights_def isFinite_Number_of)

lemma fillBudget_hasBudget:
  assumes "extractBudgetRangeFromText input = Some (mn, mx)" "0 < mx"
    and "budget_max d = None \<or> (\<exists>q. budget_max d = Some (Fin q))"
  shows "hasBudget (fillBudgetMax input (fillBudgetRange input d))"
proof (cases "unset_or_nonpos (budget_max d)")
  case True
  then have "fillBudgetRange input d = d\<lparr>budget_min := Some (Fin mn), budget_max := Some (Fin mx)\<rparr>"
    using assms(1) by (simp add: fillBudgetRange_def)
  then show ?thesis using assms(2) by (simp add: fillBudgetMax_def hasBudget_def)
next
  case False
  then obtain q where q: "budget_max d = Some (Fin q)" "0 < q"
    using assms(3) by auto
  then have "fillBudgetMax input (fillBudgetRange input d) = d"
    using False assms(1) by (simp add: fillBudgetRange_def fillBudgetMax_def)
  then show ?thesis using q by (simp add: hasBudget_def)
qed

lemma fill_rest_keeps:
  "hasCountry (fillBudgetRange input d) = hasCountry d"
  "hasCountry (fillBudgetMax input d) = hasCountry d"
  "hasCountry (fillAdults input d) = hasCountry d"
  "hasCountry (fillPeriod input d) = hasCountry d"
  "hasNights (fillBudgetRange input d) = hasNights d"
  "hasNights (fillBudgetMax input d) = hasNights d"
  "hasNights (fillAdults input d) = hasNights d"
  "hasNights (fillPeriod input d) = hasNights d"
  "hasBudget (fillAdults input d) = hasBudget d"
  "hasBudget (fillPeriod input d) = hasBudget d"
  by (simp_all add: fillBudgetRange_def fillBudgetMax_def fillAdults_def fillPeriod_def
      hasCountry_def hasNights_def hasBudget_def split: option.splits)

lemma buildDraftArgs_complete:
  assumes eb: "extractBudget input = Some (BApprox v mn mx)"
    and mx: "0 < mx"
    and c: "slot_present args Country"
    and n: "slot_present args Nights"
    and b: "budget_max args = None \<or> (\<exists>q. budget_max args = Some (Fin q))"
  shows "getMissingFields (buildDraftArgs input args) = []"
proof -
  let ?d1 = "fillCountryFromText input (fillCountryFromName args args)"
  let ?d2 = "fillBudgetMax input (fillBudgetRange input ?d1)"
  have r: "extractBudgetRangeFromText input = Some (mn, mx)"
    using eb by (simp add: extractBudgetRangeFromText_def)
  have "hasCountry args" using c by (simp only: hasCountry_spec)
  then have hc: "hasCountry ?d1"
    by (intro fillCountryFromText_hasCountry fillCountryFromName_hasCountry)
  have hn: "hasNights ?d1"
    using n by (simp add: hasNights_def fillCountry_nights isFinite_Number_of)
  have b1: "budget_max ?d1 = None \<or> (\<exists>q. budget_max ?d1 = Some (Fin q))"
    using b by (simp add: fillCountry_nights)
  have hb: "hasBudget ?d2" by (rule fillBudget_hasBudget [OF r mx b1])
  have eq: "buildDraftArgs input args = fillPeriod input (fillAdults input ?d2)"
    using hn by (simp add: buildDraftArgs_def Let_def fillNights_keeps)
  show ?thesis
    using hc hn hb unfolding eq
    by (simp add: getMissingFields_def Let_def fill_rest_keeps)
qed

lemma round100_pos:
  assumes "46 \<le> v"
  shows "0 < round100 (v * (11 / 10))"
proof -
  have "1 \<le> v * (11 / 10) / 100 + 1 / 2" using assms by simp
  then have "1 \<le> \<lfloor>v * (11 / 10) / 100 + 1 / 2\<rfloor>" by linarith
  then show ?thesis by (simp add: round100_def Math_round_def)
qed

text \<open>
  The approx rules of the extractor, tried in the source's order: a leading
  marker word, a trailing marker word, a bare number.
\<close>


lemma extractBudget_approx_rules:
  assumes "\<not> rangeOrMaxFound input" "approxRuleAmount input = Some v"
  shows "extractBudget input = Some (mkApprox v)"
  using assms
  by (auto simp: rangeOrMaxFound_def approxRuleAmount_def extractBudget_def Let_def
      split: option.splits)

lemma approxRuleAmount_pos: "approxRuleAmount input = Some v \<Longrightarrow> 1 \<le> v"
  by (auto simp: approxRuleAmount_def Let_def amount_of_match_pos bare_amount_pos
      split: option.splits)

text \<open>
  C5, as amended. When no range and no ceiling is found and an approx rule (a
  marker word before or after the number, or a bare number) reads the value
  \<open>v\<close>, the extracted budget is approx-type with min \<open>round100 (0.9 v)\<close> and max
  \<open>round100 (1.1 v)\<close>; every approx budget the extractor returns has this band,
  and min is at most max. Merged by \<open>buildDraftArgs\<close> into a draft that has
  country and nights and no unusable budget value, it leaves no slot missing
  provided \<open>v\<close> is at least 46, so that the derived max is above zero.
\<close>

theorem C5_approx_budget:
  "(\<not> rangeOrMaxFound input \<and> approxRuleAmount input = Some v \<longrightarrow>
      extractBudget input =
        Some (BApprox v (round100 (v * (9 / 10))) (round100 (v * (11 / 10))))) \<and>
   (extractBudget input = Some (BApprox v mn mx) \<longrightarrow>
      mn = round100 (v * (9 / 10)) \<and> mx = round100 (v * (11 / 10)) \<and> mn \<le> mx) \<and>
   (extractBudget input = Some (BApprox v mn mx) \<and> 46 \<le> v \<and>
    slot_present args Country \<and> slot_present args Nights \<and>
    (budget_max args = None \<or> (\<exists>q. budget_max args = Some (Fin q))) \<longrightarrow>
      getMissingFields (buildDraftArgs input args) = [] \<and>
      resolveAiAwaiting (getMissingFields (buildDraftArgs input args)) = None)"
proof (intro conjI impI)
  assume a: "\<not> rangeOrMaxFound input \<and> approxRuleAmount input = Some v"
  then have "0 \<le> v" using approxRuleAmount_pos [of input v] by simp
  then show "extractBudget input =
      Some (BApprox v (round100 (v * (9 / 10))) (round100 (v * (11 / 10))))"
    using a extractBudget_approx_rules [of input v] mkApprox_band [of v] by simp
next
  assume a: "extractBudget input = Some (BApprox v mn mx)"
  show "mn = round100 (v * (9 / 10))" "mx = round100 (v * (11 / 10))" "mn \<le> mx"
    using extractBudget_approx_band [OF a] by simp_all
next
  assume a: "extractBudget input = Some (BApprox v mn mx) \<and> 46 \<le> v \<and>
    slot_present args Country \<and> slot_present args Nights \<and>
    (budget_max args = None \<or> (\<exists>q. budget_max args = Some (Fin q)))"
  then have eb: "extractBudget input = Some (BApprox v mn mx)" by simp
  have "mx = round100 (v * (11 / 10))" using extractBudget_approx_band [OF eb] by simp
  then have "0 < mx" using a round100_pos [of v] by simp
  then have m: "getMissingFields (buildDraftArgs input args) = []"
    using a buildDraftArgs_complete [OF eb, of args] by blast
  show "getMissingFields (buildDraftArgs input args) = []" by (rule m)
  show "resolveAiAwaiting (getMissingFields (buildDraftArgs input args)) = None"
    unfolding m by (simp add: resolveAiAwaiting_def)
qed


lemma extractBudget_120000:
  "\<not> rangeOrMaxFound (asc ''120000'') \<and> approxRuleAmount (asc ''120000'') = Some 120000"
  by code_simp

theorem C5_approx_budget_witness:
  "extractBudget (asc ''120000'') = Some (BApprox 120000 108000 132000) \<and>
   slot_present turkey7 Country \<and> slot_present turkey7 Nights \<and> budget_max turkey7 = None \<and>
   getMissingFields (buildDraftArgs (asc ''120000'') turkey7) = []"
proof -
  have r: "round100 (120000 * (9 / 10)) = 108000" "round100 (120000 * (11 / 10)) = 132000"
    by code_simp+
  have t: "slot_present turkey7 Country" "slot_present turkey7 Nights" "budget_max turkey7 = None"
    by (simp_all add: turkey7_def emptyDraft_def asc_def trim_def isSpace_def)
  note inst = C5_approx_budget [of "asc ''120000''" 120000 108000 132000 turkey7]
  have e0: "extractBudget (asc ''120000'') =
      Some (BApprox 120000 (round100 (120000 * (9 / 10))) (round100 (120000 * (11 / 10))))"
    using inst extractBudget_120000 by blast
  have e: "extractBudget (asc ''120000'') = Some (BApprox 120000 108000 132000)"
    using e0 unfolding r .
  have "(46::rat) \<le> 120000" by simp
  then have "getMissingFields (buildDraftArgs (asc ''120000'') turkey7) = []"
    using inst e t by blast
  then show ?thesis using e t by blast
qed

text \<open>
  The claim as stated fails for a small number: 45 is read as an approx budget
  whose band is 0..0, and the budget slot stays missing.
\<close>

theorem C5_small_number_counterexample:
  "extractBudget (ru ''turciA 7 noCej 45'') = Some (BApprox 45 0 0) \<and>
   slot_present turkey7 Country \<and> slot_present turkey7 Nights \<and>
   getMissingFields (buildDraftArgs (ru ''turciA 7 noCej 45'') turkey7) = [Budget]"
proof -
  have e: "extractBudget (ru ''turciA 7 noCej 45'') = Some (BApprox 45 0 0)"
    by code_simp
  have t: "slot_present turkey7 Country" "slot_present turkey7 Nights"
    by (simp_all add: turkey7_def emptyDraft_def asc_def trim_def isSpace_def)
  have m: "getMissingFields (buildDraftArgs (ru ''turciA 7 noCej 45'') turkey7) = [Budget]"
    by code_simp
  show ?thesis using e t m by blast
qed


subsection \<open>Ranges with one thousands marker (C6)\<close>

text \<open>
  The example of the specification: in \<open>90-120k\<close> (with an en dash, and k the
  Cyrillic letter) the marker stated on the right scales both sides.
\<close>

lemma range_90_120k:
  "extractBudget (asc ''90'' @ [8211] @ asc ''120'' @ ru ''k'') = Some (BRange 90000 120000)"
  by code_simp

lemma range_from_to_k:
  "extractBudget (ru ''ot 90 do 120k'') = Some (BRange 90000 120000)"
  by code_simp

lemma range_tys_left:
  "extractBudget (asc ''90'' @ ru ''tys'' @ asc ''-120'') = Some (BRange 90000 120000)"
  by code_simp

text \<open>
  C6 at the markers \<open>t.r.\<close> and \<open>t\<close>. With \<open>t.r.\<close> on the right side the left
  side is scaled and the right side is not: \<open>parseMoneyToken\<close> removes the
  letter r with its dot before it looks for a marker, and what is left, the
  letter t between a digit and a dot, is not between word boundaries. The range
  is returned as 120 to 90000.
\<close>

theorem C6_marker_tr_scales_one_side:
  "extractBudget (asc ''90-120'' @ ru ''t.r.'') = Some (BRange 120 90000)"
  by code_simp

text \<open>With the bare marker \<open>t\<close> neither side is scaled.\<close>

lemma range_marker_t_unscaled:
  "extractBudget (asc ''90-120'' @ ru ''t'') = Some (BRange 90 120)"
  by code_simp


section \<open>Unsupported destinations (C4)\<close>

lemma find_first_index:
  assumes "i < length xs" "P (xs ! i)" "\<forall>j<i. \<not> P (xs ! j)"
  shows "find P xs = Some (xs ! i)"
  using assms by (auto simp: find_Some_iff)

lemma find_none_aliases:
  assumes "\<forall>item \<in> set COUNTRY_ALIASES. \<forall>p \<in> set (snd item). \<not> test True p s"
  shows "find (\<lambda>item. list_ex (\<lambda>p. test True p s) (snd item)) COUNTRY_ALIASES = None"
  using assms by (auto simp: find_None_iff list_ex_iff)

text \<open>
  C4, as amended. A message that matches the pattern of an entry of the
  unsupported table, no pattern of an earlier entry and no alias of a supported
  destination is extracted as unsupported with that entry's label. In the
  orchestrator a message for which \<open>hasUnsupportedDestinationMention\<close> holds is
  answered as \<open>unsupported_country\<close> whatever the classifier returned, and so
  never as \<open>search_tours\<close>.
\<close>

theorem C4_unsupported_destination:
  "(i < length UNSUPPORTED_GEO_PATTERNS \<and>
    test True (snd (UNSUPPORTED_GEO_PATTERNS ! i)) (normalizeText msg) \<and>
    (\<forall>j<i. \<not> test True (snd (UNSUPPORTED_GEO_PATTERNS ! j)) (normalizeText msg)) \<and>
    (\<forall>item \<in> set COUNTRY_ALIASES. \<forall>p \<in> set (snd item). \<not> test True p (normalizeText msg))
    \<longrightarrow>
      extractCountry msg =
        \<lparr> country = None, unknownCountry = Some (fst (UNSUPPORTED_GEO_PATTERNS ! i)) \<rparr>) \<and>
   (hasUnsupportedDestinationMention msg \<longrightarrow>
      handleUserMessage msg intent = unsupportedResult \<and>
      intent_type (handleUserMessage msg intent) = unknown \<and>
      reason (handleUserMessage msg intent) = Some (asc ''unsupported_country''))"
proof (intro conjI impI)
  assume a: "i < length UNSUPPORTED_GEO_PATTERNS \<and>
    test True (snd (UNSUPPORTED_GEO_PATTERNS ! i)) (normalizeText msg) \<and>
    (\<forall>j<i. \<not> test True (snd (UNSUPPORTED_GEO_PATTERNS ! j)) (normalizeText msg)) \<and>
    (\<forall>item \<in> set COUNTRY_ALIASES. \<forall>p \<in> set (snd item). \<not> test True p (normalizeText msg))"
  have f1: "find (\<lambda>item. list_ex (\<lambda>p. test True p (normalizeText msg)) (snd item))
      COUNTRY_ALIASES = None"
    using a find_none_aliases by blast
  have f2: "find (\<lambda>item. test True (snd item) (normalizeText msg)) UNSUPPORTED_GEO_PATTERNS =
      Some (UNSUPPORTED_GEO_PATTERNS ! i)"
    using a by (intro find_first_index) auto
  show "extractCountry msg =
      \<lparr> country = None, unknownCountry = Some (fst (UNSUPPORTED_GEO_PATTERNS ! i)) \<rparr>"
    by (simp add: extractCountry_def Let_def f1 f2)
next
  assume a: "hasUnsupportedDestinationMention msg"
  then show u: "handleUserMessage msg intent = unsupportedResult"
    by (simp add: handleUserMessage_def)
  show "intent_type (handleUserMessage msg intent) = unknown"
    "reason (handleUserMessage msg intent) = Some (asc ''unsupported_country'')"
    unfolding u by (simp_all add: unsupportedResult_def)
qed

text \<open>The message "pokazhi Afriku" of the regression fixtures, with any classifier answer.\<close>

lemma africa_facts:
  "test True (snd (UNSUPPORTED_GEO_PATTERNS ! 0)) (normalizeText (ru ''pokaZi afriku'')) \<and>
   list_all (\<lambda>item. list_all (\<lambda>p. \<not> test True p (normalizeText (ru ''pokaZi afriku''))) (snd item))
     COUNTRY_ALIASES \<and>
   hasUnsupportedDestinationMention (ru ''pokaZi afriku'') \<and>
   fst (UNSUPPORTED_GEO_PATTERNS ! 0) = cap (ru ''afrika'')"
  by code_simp

theorem C4_unsupported_destination_witness:
  "extractCountry (ru ''pokaZi afriku'') =
     \<lparr> country = None, unknownCountry = Some (cap (ru ''afrika'')) \<rparr> \<and>
   intent_type (handleUserMessage (ru ''pokaZi afriku'') (ISearchTours turkey7)) = unknown"
proof -
  note inst = C4_unsupported_destination [of 0 "ru ''pokaZi afriku''" "ISearchTours turkey7"]
  have len: "0 < length UNSUPPORTED_GEO_PATTERNS"
    by (simp add: UNSUPPORTED_GEO_PATTERNS_def)
  have al: "\<forall>item \<in> set COUNTRY_ALIASES. \<forall>p \<in> set (snd item).
      \<not> test True p (normalizeText (ru ''pokaZi afriku''))"
    using africa_facts by (simp add: list_all_iff)
  have "extractCountry (ru ''pokaZi afriku'') =
      \<lparr> country = None, unknownCountry = Some (fst (UNSUPPORTED_GEO_PATTERNS ! 0)) \<rparr>"
    using inst len al africa_facts by blast
  moreover have "intent_type (handleUserMessage (ru ''pokaZi afriku'') (ISearchTours turkey7)) = unknown"
    using inst africa_facts by blast
  ultimately show ?thesis using africa_facts by simp
qed

text \<open>
  The claim as stated fails when the message also names a supported
  destination: "Turtsiya ili Italiya" mentions Italy, yet the extractor returns
  Turkey and no unsupported label, the orchestrator's check does not fire, and
  with a search intent from the classifier the message is classified as
  \<open>search_tours\<close>.
\<close>

theorem C4_supported_wins_counterexample:
  "test True (snd (UNSUPPORTED_GEO_PATTERNS ! 1)) (normalizeText (ru ''turciA ili italiA'')) \<and>
   fst (UNSUPPORTED_GEO_PATTERNS ! 1) = cap (ru ''italiA'') \<and>
   extractCountry (ru ''turciA ili italiA'') = \<lparr> country = Some Turkey, unknownCountry = None \<rparr> \<and>
   \<not> hasUnsupportedDestinationMention (ru ''turciA ili italiA'') \<and>
   intent_type (handleUserMessage (ru ''turciA ili italiA'')
     (ISearchTours (emptyDraft\<lparr>country_name := Some (asc ''Turkey'')\<rparr>))) = search_tours"
  by code_simp


section \<open>Reset and the favorites (C8)\<close>

lemma resetSearchState_fields:
  "aiDraft (resetSearchState st) = None"
  "pendingHotel (resetSearchState st) = None"
  "pendingBudgetClarification (resetSearchState st) = None"
  "st_offset (resetSearchState st) = Fin 0"
  "lastResults (resetSearchState st) = []"
  "favorites (resetSearchState st) = favorites st"
  "favoritesSeq (resetSearchState st) = favoritesSeq st"
  by (simp_all add: resetSearchState_def DEFAULT_offset_def)

lemma resetFlow_fields:
  "aiDraft (resetFlow st) = None"
  "pendingHotel (resetFlow st) = None"
  "pendingBudgetClarification (resetFlow st) = None"
  "st_offset (resetFlow st) = Fin 0"
  "lastResults (resetFlow st) = []"
  "favorites (resetFlow st) = favorites st"
  "favoritesSeq (resetFlow st) = favoritesSeq st"
  by (simp_all add: resetFlow_def Let_def resetSearchState_fields)

lemma sameFavorites_sync: "sameFavorites st (syncSearchContextFromState st a)"
  by (simp add: sameFavorites_def syncSearchContextFromState_def Let_def)

lemma favorites_sync [simp]:
  "favorites (syncSearchContextFromState st a) = favorites st"
  "favoritesSeq (syncSearchContextFromState st a) = favoritesSeq st"
  by (simp_all add: syncSearchContextFromState_def Let_def)

lemma favorites_applyArgs [simp]:
  "favorites (applyOrchestratedSearchArgsToState st a) = favorites st"
  "favoritesSeq (applyOrchestratedSearchArgsToState st a) = favoritesSeq st"
  by (simp_all add: applyOrchestratedSearchArgsToState_def Let_def resetSearchState_fields
      split: option.splits numstr.splits)

lemma favorites_sendCards [simp]:
  "favorites (fst (sendCards st out)) = favorites st"
  "favoritesSeq (fst (sendCards st out)) = favoritesSeq st"
  by (simp_all add: sendCards_def Let_def split: option.splits)

lemma favorites_beginSearchSeq [simp]:
  "favorites (snd (beginSearchSeq st)) = favorites st"
  "favoritesSeq (snd (beginSearchSeq st)) = favoritesSeq st"
  by (simp_all add: beginSearchSeq_def Let_def)

lemma favorites_bot_buildSearchArgs [simp]:
  "favorites (snd (bot_buildSearchArgs st)) = favorites st"
  "favoritesSeq (snd (bot_buildSearchArgs st)) = favoritesSeq st"
  by (simp_all add: bot_buildSearchArgs_def Let_def)

lemma favorites_runSearch_begin:
  "favorites (snd (snd (runSearch_begin st))) = favorites st"
  "favoritesSeq (snd (snd (runSearch_begin st))) = favoritesSeq st"
  by (simp_all add: runSearch_begin_def Let_def split_beta)

lemma favorites_resume:
  "favorites (fst (runSearch_resume st seq out)) = favorites st"
  "favoritesSeq (fst (runSearch_resume st seq out)) = favoritesSeq st"
  "favorites (fst (followup_resume st seq out)) = favorites st"
  "favoritesSeq (fst (followup_resume st seq out)) = favoritesSeq st"
  by (simp_all add: runSearch_resume_def followup_resume_def)

lemma favorites_action_want:
  "favorites (fst (fst (action_want (st, pw) u r h hint now))) = favorites st"
  "favoritesSeq (fst (fst (action_want (st, pw) u r h hint now))) = favoritesSeq st"
  by (simp_all add: action_want_def Let_def split: option.splits)

lemma reset_keeps_favorites:
  "cleared (resetSearchState st) \<and> sameFavorites st (resetSearchState st) \<and>
   cleared (fst (action_new st)) \<and> sameFavorites st (fst (action_new st)) \<and>
   cleared (fst (replyCancelReset st)) \<and> sameFavorites st (fst (replyCancelReset st))"
  by (simp add: cleared_def sameFavorites_def action_new_def
      replyCancelReset_def Let_def resetSearchState_fields resetFlow_fields)

lemma search_keeps_favorites:
  "sameFavorites st (snd (snd (runSearch_begin st))) \<and>
   sameFavorites st (fst (runSearch_resume st seq out)) \<and>
   sameFavorites st (fst (followup_resume st seq out)) \<and>
   sameFavorites st (fst (fst (action_want (st, pw) u r h hint now))) \<and>
   favorites (fst (action_fav_clear st)) = createEmptyFavorites"
  by (simp add: sameFavorites_def favorites_runSearch_begin favorites_resume
      favorites_action_want action_fav_clear_def clearFavorites_def)

subsection \<open>The text of a new search in the text handler\<close>

lemma newSearchText_plain:
  "trim newSearchText = newSearchText"
  "\<not> startsWith newSearchText (asc ''/'')"
  "\<not> isCancelText newSearchText"
  "\<not> isAffirmativeText newSearchText"
  by code_simp+

lemma newSearchText_command: "detectCommand newSearchText = Some NEW_SEARCH"
  by code_simp

lemma newSearchText_no_params: "\<not> hasExplicitParams newSearchText"
  by code_simp

lemma onText_new_search:
  assumes "pendingBudgetClarification st = None"
  shows "onText st newSearchText =
           NewSearch ((resetSearchState st)\<lparr>step := idle\<rparr>) [RStartOver]"
proof -
  have r: "resetSearchState (st\<lparr>pendingPromptAction := False\<rparr>) = resetSearchState st"
    by (simp add: resetSearchState_def)
  show ?thesis
    using assms
    by (simp add: onText_def Let_def newSearchText_plain newSearchText_command
        newSearchText_no_params r)
qed

lemma onText_clarifying:
  "onText askedAbout100000 newSearchText =
     Clarification (fst (pendingBudgetClarification_branch askedAbout100000 newSearchText))
       (fst (snd (pendingBudgetClarification_branch askedAbout100000 newSearchText)))
       (snd (snd (pendingBudgetClarification_branch askedAbout100000 newSearchText)))"
proof -
  have p: "pendingPromptAction askedAbout100000 = False"
    "pendingBudgetClarification askedAbout100000 \<noteq> None"
    by (simp_all add: askedAbout100000_def initialState_def)
  show ?thesis
    by (simp add: onText_def Let_def newSearchText_plain p split_beta)
qed

lemma clarifying_keeps_draft:
  "aiDraft (fst (pendingBudgetClarification_branch askedAbout100000 newSearchText)) =
     Some (emptyDraft\<lparr>country_name := Some (asc ''Turkey''), country_id := Some (Fin 47),
             budget_max := Some (Fin 100000)\<rparr>)"
  "pendingBudgetClarification
     (fst (pendingBudgetClarification_branch askedAbout100000 newSearchText)) = None"
  by code_simp+

text \<open>
  C8. The text of a new search is the command \<open>NEW_SEARCH\<close>. When no budget
  clarification is pending the text handler takes it to the branch of that
  command, which clears the draft, the pinned selection, the pagination offset
  and the cached results and leaves the favorites as they were. When a budget
  clarification is pending, the branch for the clarification comes first in the
  handler and takes the text for the answer: with the question about 100000 open
  and a draft for Turkey, the draft stays and gets the ceiling 100000, and nothing
  is reset.
\<close>

theorem C8_new_search_while_clarifying:
  "detectCommand newSearchText = Some NEW_SEARCH \<and>
   (pendingBudgetClarification st = None \<longrightarrow>
      (\<exists>st'. onText st newSearchText = NewSearch st' [RStartOver] \<and>
             cleared st' \<and> sameFavorites st st')) \<and>
   (\<exists>st' replies todo.
      onText askedAbout100000 newSearchText = Clarification st' replies todo \<and>
      aiDraft st' =
        Some (emptyDraft\<lparr>country_name := Some (asc ''Turkey''), country_id := Some (Fin 47),
                budget_max := Some (Fin 100000)\<rparr>) \<and>
      \<not> cleared st')"
proof -
  have a: "pendingBudgetClarification st = None \<longrightarrow>
      (\<exists>st'. onText st newSearchText = NewSearch st' [RStartOver] \<and>
             cleared st' \<and> sameFavorites st st')"
  proof
    assume n: "pendingBudgetClarification st = None"
    have "cleared ((resetSearchState st)\<lparr>step := idle\<rparr>)"
      by (simp add: cleared_def resetSearchState_fields)
    moreover have "sameFavorites st ((resetSearchState st)\<lparr>step := idle\<rparr>)"
      by (simp add: sameFavorites_def resetSearchState_fields)
    ultimately show "\<exists>st'. onText st newSearchText = NewSearch st' [RStartOver] \<and>
             cleared st' \<and> sameFavorites st st'"
      using onText_new_search [OF n] by blast
  qed
  have "\<not> cleared (fst (pendingBudgetClarification_branch askedAbout100000 newSearchText))"
    by (simp add: cleared_def clarifying_keeps_draft(1))
  hence b: "\<exists>st' replies todo.
      onText askedAbout100000 newSearchText = Clarification st' replies todo \<and>
      aiDraft st' =
        Some (emptyDraft\<lparr>country_name := Some (asc ''Turkey''), country_id := Some (Fin 47),
                budget_max := Some (Fin 100000)\<rparr>) \<and>
      \<not> cleared st'"
    using onText_clarifying clarifying_keeps_draft(1) by blast
  from newSearchText_command a b show ?thesis by blast
qed

text \<open>
  With a result list on the screen and no clarification pending, the text of a
  new search empties the list and keeps the favorites.
\<close>

theorem C8_new_search_while_clarifying_witness:
  "pendingBudgetClarification shownResults = None \<and>
   (\<exists>st'. onText shownResults newSearchText = NewSearch st' [RStartOver] \<and>
          lastResults st' = [] \<and> favorites st' = favorites shownResults)"
proof -
  have n: "pendingBudgetClarification shownResults = None"
    by (simp add: shownResults_def initialState_def)
  from C8_new_search_while_clarifying [of shownResults] n
  obtain st' where "onText shownResults newSearchText = NewSearch st' [RStartOver]"
    and "cleared st'" and "sameFavorites shownResults st'" by blast
  thus ?thesis using n by (auto simp: cleared_def sameFavorites_def)
qed

section \<open>Stale search results (C3)\<close>

lemma beginSearchSeq_captures:
  "fst (beginSearchSeq st) = nullish (activeSearchSeq st) 0 + 1"
  "activeSearchSeq (snd (beginSearchSeq st)) = Some (fst (beginSearchSeq st))"
  "\<not> isSearchSeqStale (snd (beginSearchSeq st)) (fst (beginSearchSeq st))"
  by (simp_all add: beginSearchSeq_def isSearchSeqStale_def Let_def nullish_def)

lemma activeSearchSeq_sync [simp]:
  "activeSearchSeq (syncSearchContextFromState st a) = activeSearchSeq st"
  by (simp add: syncSearchContextFromState_def Let_def)

lemma activeSearchSeq_buildArgs [simp]:
  "activeSearchSeq (snd (bot_buildSearchArgs st)) = activeSearchSeq st"
  by (simp add: bot_buildSearchArgs_def Let_def)

lemma runSearch_begin_captures:
  "fst (runSearch_begin st) = nullish (activeSearchSeq st) 0 + 1"
  "activeSearchSeq (snd (snd (runSearch_begin st))) = Some (fst (runSearch_begin st))"
  by (simp_all add: runSearch_begin_def Let_def split_beta beginSearchSeq_captures)

lemma followup_begin_captures:
  assumes "followup_begin st p c = Some (seq, a, st', k)"
  shows "activeSearchSeq st' = Some seq"
  using assms
  by (auto simp: followup_begin_def Let_def split_beta beginSearchSeq_captures
      split: option.splits)

lemma stale_result_dropped:
  "fst (runSearch_begin st) = nullish (activeSearchSeq st) 0 + 1 \<and>
   activeSearchSeq (snd (snd (runSearch_begin st))) = Some (fst (runSearch_begin st)) \<and>
   (nullish (activeSearchSeq cur) 0 \<noteq> seq \<longrightarrow>
      runSearch_resume cur seq out = (cur, []) \<and>
      followup_resume cur seq out = (cur, []))"
  by (simp add: runSearch_begin_captures runSearch_resume_def followup_resume_def
      isSearchSeqStale_def)

lemma activeSearchSeq_reset: "activeSearchSeq (resetSearchState st) = None"
  by (simp add: resetSearchState_def)

lemma activeSearchSeq_applyArgs:
  "activeSearchSeq (applyOrchestratedSearchArgsToState st a) = None"
  by (simp add: applyOrchestratedSearchArgsToState_def Let_def activeSearchSeq_reset
      split: option.splits numstr.splits)

lemma followup_begin_one:
  assumes "followup_begin st p c = Some (seq, a, st', k)"
  shows "seq = 1 \<and> activeSearchSeq st' = Some 1 \<and> lastSearchArgs st' = Some a"
  using assms
  by (auto simp: followup_begin_def Let_def split_beta beginSearchSeq_def
      activeSearchSeq_applyArgs nullish_def split: option.splits)

lemma followup_begin_defined:
  assumes "lastSearchArgs st = Some l"
  shows "\<exists>seq a st' k. followup_begin st p c = Some (seq, a, st', k)"
  using assms by (simp add: followup_begin_def Let_def split_beta)

lemma lastResults_sync [simp]:
  "lastResults (syncSearchContextFromState st a) = lastResults st"
  "lastRequestId (syncSearchContextFromState st a) = lastRequestId st"
  "lastSearchArgs (syncSearchContextFromState st a) = lastSearchArgs st"
  by (simp_all add: syncSearchContextFromState_def Let_def)

lemma sendCards_results:
  "lastResults (fst (sendCards st out)) = out_results out"
  "lastRequestId (fst (sendCards st out)) = Some (out_requestid out)"
  by (simp_all add: sendCards_def Let_def split: option.splits)

text \<open>
  C3. The refinement branch of the text handler does not hold an incremented
  number: \<open>applyOrchestratedSearchArgsToState\<close> goes through \<open>resetSearchState\<close>,
  which sets the counter back to undefined, before \<open>beginSearchSeq\<close> runs, so every
  refinement captures the number 1. Of two refinements started one after the
  other, both hold 1; when the result of the first arrives after the second has
  started, its number equals the counter, the result is not taken for stale, and
  it is sent and written to the state (\<open>lastResults\<close>, \<open>lastRequestId\<close>) as if it were
  current.
\<close>

theorem C3_refinement_restarts_counter:
  assumes "followup_begin st p c = Some (seq, a, st', k)"
    and "followup_begin st' p2 c2 = Some (seq2, a2, st2, k2)"
  shows "seq = 1 \<and> seq2 = 1 \<and> \<not> isSearchSeqStale st2 seq \<and>
         followup_resume st2 seq out = sendCards st2 out \<and>
         lastResults (fst (followup_resume st2 seq out)) = out_results out \<and>
         lastRequestId (fst (followup_resume st2 seq out)) = Some (out_requestid out)"
proof -
  from followup_begin_one [OF assms(1)] have s1: "seq = 1" by simp
  from followup_begin_one [OF assms(2)] have s2: "seq2 = 1" and c: "activeSearchSeq st2 = Some 1"
    by simp_all
  have fresh: "\<not> isSearchSeqStale st2 seq"
    unfolding s1 by (simp add: isSearchSeqStale_def c nullish_def)
  hence r: "followup_resume st2 seq out = sendCards st2 out"
    by (simp add: followup_resume_def)
  show ?thesis using s1 s2 fresh r by (simp add: sendCards_results)
qed

text \<open>
  After a first search, the user asks for ten nights and then, before the answer
  has come, for all inclusive: both refinements hold the number 1, and the
  answer to the first is shown.
\<close>

theorem C3_refinement_restarts_counter_witness:
  "\<exists>seq a st' k seq2 a2 st2 k2.
     followup_begin searched tenNights False = Some (seq, a, st', k) \<and>
     followup_begin st' allInclusive False = Some (seq2, a2, st2, k2) \<and>
     seq = 1 \<and> seq2 = 1 \<and>
     followup_resume st2 seq oneCard = sendCards st2 oneCard \<and>
     lastResults (fst (followup_resume st2 seq oneCard)) = [cardTour]"
proof -
  have "lastSearchArgs searched \<noteq> None"
    by (simp add: searched_def runSearch_begin_def Let_def split_beta)
  then obtain l where "lastSearchArgs searched = Some l" by blast
  from followup_begin_defined [OF this, of tenNights False]
  obtain seq a st' k where
    b1: "followup_begin searched tenNights False = Some (seq, a, st', k)" by blast
  from followup_begin_one [OF b1] have "lastSearchArgs st' = Some a" by simp
  from followup_begin_defined [OF this, of allInclusive False]
  obtain seq2 a2 st2 k2 where
    b2: "followup_begin st' allInclusive False = Some (seq2, a2, st2, k2)" by blast
  note t = C3_refinement_restarts_counter [OF b1 b2, of oneCard]
  from t have t1: "seq = 1" and t2: "seq2 = 1"
    and t3: "followup_resume st2 seq oneCard = sendCards st2 oneCard"
    and t4: "lastResults (fst (followup_resume st2 seq oneCard)) = out_results oneCard"
    by blast+
  have t5: "lastResults (fst (followup_resume st2 seq oneCard)) = [cardTour]"
    unfolding t4 by (simp add: oneCard_def)
  from b1 b2 t1 t2 t3 t5 show ?thesis by blast
qed

section \<open>Selecting the same result twice (C7)\<close>

lemma find_hotel_id: "find (\<lambda>t. t_hotel_id t = h) xs = Some sel \<Longrightarrow> t_hotel_id sel = h"
  by (induction xs) (auto split: if_splits)

lemma findTourForWantAction_id:
  assumes "findTourForWantAction st h hint = Some sel"
  shows "t_hotel_id sel = h"
proof (cases "find (\<lambda>t. t_hotel_id t = h) (lastResults st)")
  case None
  then have "find (\<lambda>t. t_hotel_id t = h) (collectFavoriteTours st) = Some sel"
    using assms by (simp add: findTourForWantAction_def)
  then show ?thesis by (rule find_hotel_id)
next
  case (Some a)
  then have "a = sel" using assms by (simp add: findTourForWantAction_def)
  then show ?thesis using Some find_hotel_id by blast
qed

lemma action_want_accepted:
  assumes fresh: "\<not> (\<exists>t0. pw (mkWantKey u r h hint) = Some t0 \<and> t0 \<noteq> 0 \<and> t1 - t0 < 45000)"
    and found: "findTourForWantAction st h hint = Some sel"
    and notOpen: "\<not> (isSamePendingHotel st h \<and> phonePromptShownForHotelId st = Some h)"
  shows "action_want (st, pw) u r h hint t1 =
     ((st\<lparr>pendingHotel := Some sel, step := await_phone, phonePromptShownForHotelId := Some h\<rparr>,
       pw(mkWantKey u r h hint \<mapsto> t1)),
      [RCheckingAvailability, RRecap sel, RGreatChoice, RPhoneHint])"
proof -
  have c: "(case pw (mkWantKey u r h hint) of None \<Rightarrow> False
            | Some t0 \<Rightarrow> t0 \<noteq> 0 \<and> t1 - t0 < 45000) = False"
    using fresh by (cases "pw (mkWantKey u r h hint)") auto
  have n: "(isSamePendingHotel st h \<and> phonePromptShownForHotelId st = Some h) = False"
    using notOpen by blast
  show ?thesis
    unfolding action_want_def Let_def fst_conv snd_conv c found n
    by (simp only: if_False option.case)
qed

lemma action_want_duplicate:
  assumes "pw (mkWantKey u r h hint) = Some t1" "t1 \<noteq> 0" "t2 - t1 < 45000"
  shows "action_want (st, pw) u r h hint t2 = ((st, pw), [RAlreadyChecking])"
proof -
  have c: "(case pw (mkWantKey u r h hint) of None \<Rightarrow> False
            | Some t0 \<Rightarrow> t0 \<noteq> 0 \<and> t2 - t0 < 45000) = True"
    using assms by simp
  show ?thesis
    unfolding action_want_def Let_def fst_conv snd_conv c
    by (simp only: if_True)
qed

lemma startsBooking_simps:
  "\<not> startsBooking [RAlreadyChecking]"
  "\<not> startsBooking [RTourNotFound]"
  "\<not> startsBooking [RPhoneHint]"
  "startsBooking [RCheckingAvailability, RRecap sel, RGreatChoice, RPhoneHint]"
  by (simp_all add: startsBooking_def)

lemma action_want_not_found:
  assumes "\<not> (\<exists>t0. pw (mkWantKey u r h hint) = Some t0 \<and> t0 \<noteq> 0 \<and> t1 - t0 < 45000)"
    and "findTourForWantAction st h hint = None"
  shows "snd (action_want (st, pw) u r h hint t1) = [RTourNotFound]"
proof -
  have c: "(case pw (mkWantKey u r h hint) of None \<Rightarrow> False
            | Some t0 \<Rightarrow> t0 \<noteq> 0 \<and> t1 - t0 < 45000) = False"
    using assms(1) by (cases "pw (mkWantKey u r h hint)") auto
  show ?thesis
    unfolding action_want_def Let_def fst_conv snd_conv c assms(2)
    by (simp only: if_False option.case snd_conv)
qed

lemma action_want_open:
  assumes "\<not> (\<exists>t0. pw (mkWantKey u r h hint) = Some t0 \<and> t0 \<noteq> 0 \<and> t1 - t0 < 45000)"
    and "findTourForWantAction st h hint = Some sel"
    and "isSamePendingHotel st h \<and> phonePromptShownForHotelId st = Some h"
  shows "snd (action_want (st, pw) u r h hint t1) = [RPhoneHint]"
proof -
  have c: "(case pw (mkWantKey u r h hint) of None \<Rightarrow> False
            | Some t0 \<Rightarrow> t0 \<noteq> 0 \<and> t1 - t0 < 45000) = False"
    using assms(1) by (cases "pw (mkWantKey u r h hint)") auto
  have n: "(isSamePendingHotel st h \<and> phonePromptShownForHotelId st = Some h) = True"
    using assms(3) by blast
  show ?thesis
    unfolding action_want_def Let_def fst_conv snd_conv c assms(2) n
    by (simp only: if_False if_True option.case snd_conv)
qed

lemma action_want_dup_replies:
  assumes "\<exists>t0. pw (mkWantKey u r h hint) = Some t0 \<and> t0 \<noteq> 0 \<and> t1 - t0 < 45000"
  shows "snd (action_want (st, pw) u r h hint t1) = [RAlreadyChecking]"
proof -
  from assms obtain t0 where "pw (mkWantKey u r h hint) = Some t0" "t0 \<noteq> 0" "t1 - t0 < 45000"
    by blast
  then show ?thesis using action_want_duplicate [of pw u r h hint t0 t1 st] by simp
qed

lemma collectFavoriteTours_pinned:
  "collectFavoriteTours
     (st\<lparr>pendingHotel := x, step := y, phonePromptShownForHotelId := z\<rparr>) =
   collectFavoriteTours st"
  by (simp add: collectFavoriteTours_def Let_def)

lemma findTourForWantAction_pinned:
  "findTourForWantAction
     (st\<lparr>pendingHotel := x, step := y, phonePromptShownForHotelId := z\<rparr>) h hint =
   findTourForWantAction st h hint"
  unfolding findTourForWantAction_def collectFavoriteTours_pinned by simp

text \<open>
  Whatever the state, two selections with the same key less than 45 seconds
  apart never both start a booking flow.
\<close>

lemma never_two_booking_starts:
  assumes near: "t2 - t1 < 45000"
    and a1: "action_want (st, pw) u r h hint t1 = ((st1, pw1), rs1)"
    and a2: "action_want (st1, pw1) u r h hint t2 = ((st2, pw2), rs2)"
  shows "\<not> (startsBooking rs1 \<and> startsBooking rs2)"
proof
  assume both: "startsBooking rs1 \<and> startsBooking rs2"
  let ?k = "mkWantKey u r h hint"
  have r1: "rs1 = snd (action_want (st, pw) u r h hint t1)" using a1 by simp
  have r2: "rs2 = snd (action_want (st1, pw1) u r h hint t2)" using a2 by simp
  have fresh: "\<not> (\<exists>t0. pw ?k = Some t0 \<and> t0 \<noteq> 0 \<and> t1 - t0 < 45000)"
    using both r1 action_want_dup_replies [of pw u r h hint t1 st] startsBooking_simps(1)
    by metis
  obtain sel where found: "findTourForWantAction st h hint = Some sel"
    using both r1 fresh action_want_not_found [of pw u r h hint t1 st] startsBooking_simps(2)
    by (cases "findTourForWantAction st h hint") auto
  have notOpen: "\<not> (isSamePendingHotel st h \<and> phonePromptShownForHotelId st = Some h)"
    using both r1 fresh found action_want_open [of pw u r h hint t1 st sel]
      startsBooking_simps(3) by metis
  have first: "action_want (st, pw) u r h hint t1 =
     ((st\<lparr>pendingHotel := Some sel, step := await_phone, phonePromptShownForHotelId := Some h\<rparr>,
       pw(?k \<mapsto> t1)),
      [RCheckingAvailability, RRecap sel, RGreatChoice, RPhoneHint])"
    using fresh found notOpen by (rule action_want_accepted)
  then have st1: "st1 = st\<lparr>pendingHotel := Some sel, step := await_phone,
        phonePromptShownForHotelId := Some h\<rparr>"
    and pw1: "pw1 = pw(?k \<mapsto> t1)"
    using a1 by simp_all
  have id: "t_hotel_id sel = h" using found by (rule findTourForWantAction_id)
  have "\<not> startsBooking rs2"
  proof (cases "t1 = 0")
    case False
    have "\<exists>t0. pw1 ?k = Some t0 \<and> t0 \<noteq> 0 \<and> t2 - t0 < 45000"
      using False near by (simp add: pw1)
    then show ?thesis
      using r2 action_want_dup_replies [of pw1 u r h hint t2 st1] startsBooking_simps(1)
      by simp
  next
    case True
    have fresh2: "\<not> (\<exists>t0. pw1 ?k = Some t0 \<and> t0 \<noteq> 0 \<and> t2 - t0 < 45000)"
      using True by (simp add: pw1)
    have found2: "findTourForWantAction st1 h hint = Some sel"
      unfolding st1 findTourForWantAction_pinned by (rule found)
    have open2: "isSamePendingHotel st1 h \<and> phonePromptShownForHotelId st1 = Some h"
      using id by (simp add: st1 isSamePendingHotel_def)
    show ?thesis
      using r2 fresh2 found2 open2 action_want_open [of pw1 u r h hint t2 st1 sel]
        startsBooking_simps(3) by simp
  qed
  with both show False by simp
qed




section \<open>Resolving a budget clarification (C2)\<close>

text \<open>
  The ceiling the clarification branch writes into the draft when the extractor
  finds a budget in the answer: the \<open>max\<close> of that budget, times 1.2 and
  rounded when the answer has a target word. For an approx budget the \<open>max\<close>
  is already the upper end of the band, \<open>round100 (1.1 v)\<close>.
\<close>

lemma Math_round_120000: "Math_round (100000 * (6 / 5)) = 120000"
  by code_simp

lemma clarification_max_answer:
  "map_option budget_max
     (aiDraft (fst (pendingBudgetClarification_branch askedAbout100000 (ru ''do 100000'')))) =
   Some (Some (Fin 100000))"
  by code_simp

lemma clarification_target_without_number:
  "map_option budget_max
     (aiDraft (fst (pendingBudgetClarification_branch askedAbout100000 (ru ''okolo'')))) =
   Some (Some (Fin 120000))"
  by code_simp

lemma budget_input_target_answer:
  "budgetMax (fst (budget_input_branch (initialState\<lparr>step := budget_input\<rparr>)
     (ru ''okolo 100000''))) = Some (Fin 120000)"
  by code_simp

text \<open>
  C2 at the answer the bot itself suggests, "okolo 100000" to the question
  whether 100000 is a ceiling or a target: the answer is target-style and
  carries 100000, the claim gives \<open>round (100000 * 1.2) = 120000\<close>, and the
  branch writes 132000, which is \<open>round (1.2 * round100 (1.1 * 100000))\<close>; it
  records 110000 as the target.
\<close>

theorem C2_target_answer_compounds:
  "extractBudget (ru ''okolo 100000'') = Some (BApprox 100000 90000 110000) \<and>
   explicitTargetWords (toLowerCase (ru ''okolo 100000'')) \<and>
   map_option budget_max
     (aiDraft (fst (pendingBudgetClarification_branch askedAbout100000 (ru ''okolo 100000'')))) =
   Some (Some (Fin 132000)) \<and>
   map_option sc_budgetTarget
     (searchContext (fst (pendingBudgetClarification_branch askedAbout100000 (ru ''okolo 100000'')))) =
   Some (Some (Fin 110000))"
  by code_simp


section \<open>The synthetic search backend: filters, page and determinism\<close>

subsection \<open>The generator\<close>

lemma rng_range: "0 \<le> snd (rng s) \<and> snd (rng s) \<le> 1"
proof -
  define x where "x = take_bit 32 (fst (rng s))"
  have "0 \<le> x" unfolding x_def by simp
  moreover have "x < 4294967296"
    unfolding x_def using take_bit_int_less_exp [of 32 "fst (rng s)"] by simp
  ultimately have "0 \<le> (of_int x :: rat)" "(of_int x :: rat) \<le> 4294967295" by simp_all
  moreover have "snd (rng s) = of_int x / 4294967295"
    unfolding x_def rng_def Let_def by simp
  ultimately show ?thesis by simp
qed

lemma rng_fst_randomInt: "fst (randomInt s mn mx) = fst (rng s)"
  by (simp add: randomInt_def split_beta)

lemma randomInt_range:
  assumes "mn \<le> mx + 1"
  shows "mn \<le> snd (randomInt s mn mx) \<and> snd (randomInt s mn mx) \<le> mx + 1"
proof -
  let ?r = "snd (rng s)"
  have r: "0 \<le> ?r" "?r \<le> 1" using rng_range by simp_all
  have w: "0 \<le> mx - mn + 1" using assms by simp
  have "0 \<le> ?r * (mx - mn + 1)" using r w by simp
  hence lo: "0 \<le> Math_floor (?r * (mx - mn + 1))" by (simp add: Math_floor_def)
  have "?r * (mx - mn + 1) \<le> 1 * (mx - mn + 1)" using r w by (intro mult_right_mono) simp_all
  moreover have "Math_floor (?r * (mx - mn + 1)) \<le> ?r * (mx - mn + 1)" by (simp add: Math_floor_def)
  ultimately have hi: "Math_floor (?r * (mx - mn + 1)) \<le> mx - mn + 1" by simp
  have "snd (randomInt s mn mx) = Math_floor (?r * (mx - mn + 1)) + mn"
    by (simp add: randomInt_def split_beta)
  thus ?thesis using lo hi by simp
qed

lemma tourAt_nights4: "r_nights (snd (tourAt mp 4 st)) = clamp 8 (mp_nights_min mp) (mp_nights_max mp)"
  by (simp add: tourAt_def Let_def split_beta)

lemma tourAt_meal4: "r_meal (snd (tourAt mp 4 st)) = asc ''AI''"
  by (simp add: tourAt_def Let_def split_beta MEAL_CODES_def)

lemma tourAt_meal: "r_meal (snd (tourAt mp i st)) \<in> set MEAL_CODES"
proof (cases "i < length MEAL_CODES")
  case True
  hence "r_meal (snd (tourAt mp i st)) = MEAL_CODES ! i"
    by (simp add: tourAt_def Let_def split_beta)
  thus ?thesis using True by simp
next
  case False
  thus ?thesis by (simp add: tourAt_def Let_def split_beta MEAL_CODES_def)
qed

lemma toUpperCase_meal: "m \<in> set MEAL_CODES \<Longrightarrow> toUpperCase m = m"
  by (auto simp: MEAL_CODES_def toUpperCase_def upper_cu_def asc_def)

lemma tourAt_date:
  "mp_fromDate mp div msPerDay \<le> r_date_from (snd (tourAt mp i st)) \<and>
   r_date_from (snd (tourAt mp i st)) \<le> mp_fromDate mp div msPerDay + max 22 (mp_rangeDays mp + 1)"
proof -
  define k where "k = (if 0 < mp_rangeDays mp
      then snd (randomInt (fst (rng (fst (rng st)))) 0 (of_int (mp_rangeDays mp)))
      else snd (randomInt (fst (rng (fst (rng st)))) 0 21))"
  have d: "r_date_from (snd (tourAt mp i st)) = toIsoDate (addDays (mp_fromDate mp) \<lfloor>k\<rfloor>)"
    unfolding k_def by (simp add: tourAt_def Let_def split_beta rng_fst_randomInt)
  have "0 \<le> k \<and> k \<le> of_int (max 22 (mp_rangeDays mp + 1))"
  proof (cases "0 < mp_rangeDays mp")
    case True
    have "(0::rat) \<le> of_int (mp_rangeDays mp) + 1" using True by simp
    from randomInt_range [OF this, of "fst (rng (fst (rng st)))"] True
    show ?thesis unfolding k_def by (simp add: max_def)
  next
    case False
    have "(0::rat) \<le> 21 + 1" by simp
    from randomInt_range [OF this, of "fst (rng (fst (rng st)))"] False
    show ?thesis unfolding k_def by (simp add: max_def)
  qed
  hence "0 \<le> \<lfloor>k\<rfloor>" "\<lfloor>k\<rfloor> \<le> max 22 (mp_rangeDays mp + 1)"
    by (simp_all add: floor_le_iff le_floor_iff)
  moreover have "toIsoDate (addDays (mp_fromDate mp) \<lfloor>k\<rfloor>) = mp_fromDate mp div msPerDay + \<lfloor>k\<rfloor>"
    by (simp add: toIsoDate_def addDays_def msPerDay_def)
  ultimately show ?thesis using d by simp
qed

subsection \<open>The market\<close>

lemma tourLoop_length: "length (tourLoop mp i st n) = n"
  by (induction n arbitrary: i st) (simp_all add: split_beta Let_def)

lemma tourLoop_all:
  assumes "\<And>i st. P (snd (tourAt mp i st))"
  shows "\<forall>t\<in>set (tourLoop mp i st n). P t"
  using assms by (induction n arbitrary: i st) (simp_all add: split_beta Let_def)

lemma tourLoop_take: "m \<le> n \<Longrightarrow> take m (tourLoop mp i st n) = tourLoop mp i st m"
proof (induction n arbitrary: i st m)
  case 0
  thus ?case by simp
next
  case (Suc n)
  show ?case
  proof (cases m)
    case 0
    thus ?thesis by simp
  next
    case (Suc k)
    with Suc.prems have "k \<le> n" by simp
    from Suc.IH [OF this] show ?thesis unfolding Suc by (simp add: split_beta Let_def)
  qed
qed

lemma tourLoop_fifth:
  assumes "5 \<le> n"
  shows "tourLoop mp 0 st 5 ! 4 \<in> set (tourLoop mp 0 st n)"
proof -
  have "tourLoop mp 0 st 5 ! 4 = take 5 (tourLoop mp 0 st n) ! 4"
    using tourLoop_take [OF assms] by simp
  also have "\<dots> = tourLoop mp 0 st n ! 4" by simp
  finally show ?thesis using assms by (simp add: tourLoop_length)
qed

lemma tourLoop_has_fifth:
  "i \<le> 4 \<Longrightarrow> 4 < i + n \<Longrightarrow>
   \<exists>t\<in>set (tourLoop mp i st n).
      r_nights t = clamp 8 (mp_nights_min mp) (mp_nights_max mp) \<and> r_meal t = asc ''AI''"
proof (induction n arbitrary: i st)
  case 0
  thus ?case by simp
next
  case (Suc n)
  show ?case
  proof (cases "i = 4")
    case True
    thus ?thesis by (simp add: split_beta Let_def tourAt_nights4 tourAt_meal4)
  next
    case False
    with Suc.prems have "Suc i \<le> 4" "4 < Suc i + n" by simp_all
    from Suc.IH [OF this] show ?thesis by (simp add: split_beta Let_def)
  qed
qed

lemma randomInt_market: "60 \<le> nat \<lfloor>snd (randomInt st 60 100)\<rfloor>"
proof -
  have "(60::rat) \<le> 100 + 1" by simp
  from randomInt_range [OF this, of st] have "60 \<le> snd (randomInt st 60 100)" by simp
  hence "(60::int) \<le> \<lfloor>snd (randomInt st 60 100)\<rfloor>" by (simp add: le_floor_iff)
  thus ?thesis by linarith
qed

subsection \<open>Images\<close>

lemma bare_fields:
  "r_price (bare t) = r_price t" "r_nights (bare t) = r_nights t"
  "r_rating (bare t) = r_rating t" "r_meal (bare t) = r_meal t"
  "r_date_from (bare t) = r_date_from t" "r_hotel_id (bare t) = r_hotel_id t"
  by (simp_all add: bare_def)

lemma bare_image: "bare (t\<lparr> r_image_url := u \<rparr>) = bare t"
  by (simp add: bare_def)

lemma bare_raw: "bare (t\<lparr> r_raw_seed := s, r_raw_debug := d \<rparr>) = bare t"
  by (simp add: bare_def)

lemma assignLoop_bare:
  "map bare (assignLoop rt seed off pool pageSize start k used page) = map bare page"
  by (induction page arbitrary: k used) (simp_all add: Let_def bare_image)

lemma assignImagesForPage_bare:
  "map bare (assignImagesForPage rt seed slug off pool page) = map bare page"
  by (simp add: assignImagesForPage_def Let_def assignLoop_bare bare_image comp_def)
subsection \<open>The page\<close>

lemma keepTour_iff:
  "keepTour nr bmin bmax rmin mf g \<longleftrightarrow>
     fst nr \<le> r_nights g \<and> r_nights g \<le> snd nr \<and>
     \<not> (bmin > 0 \<and> r_price g < bmin) \<and> \<not> (bmax > 0 \<and> r_price g > bmax) \<and>
     \<not> ratingRejected rmin g \<and> \<not> mealRejected mf g"
  by (auto simp: keepTour_def)

lemma nights_range:
  "1 \<le> fst (resolveEffectiveNightsRange input) \<and>
   fst (resolveEffectiveNightsRange input) \<le> snd (resolveEffectiveNightsRange input) \<and>
   snd (resolveEffectiveNightsRange input) \<le> 30"
proof -
  have c: "\<And>n. 1 \<le> clamp n 1 30 \<and> clamp n 1 30 \<le> 30" by (simp add: clamp_def)
  have f: "\<And>x::rat. 1 \<le> x \<Longrightarrow> x \<le> 30 \<Longrightarrow> 1 \<le> Math_floor x \<and> Math_floor x \<le> 30"
    by (simp add: Math_floor_def le_floor_iff floor_le_iff)
  have m: "\<And>x y::rat. x \<le> y \<Longrightarrow> Math_floor x \<le> Math_floor y"
    by (simp add: Math_floor_def floor_mono)
  show ?thesis
    unfolding resolveEffectiveNightsRange_def Let_def
    using c f m by (auto simp: not_less less_imp_le)
qed

lemma normalizeLimit_range: "0 \<le> normalizeLimit v \<and> normalizeLimit v \<le> 20"
  by (auto simp: normalizeLimit_def Math_floor_def split: option.splits)

lemma normalizeLimit_requested:
  "toFiniteNumber v = Some l \<Longrightarrow> 0 < l \<Longrightarrow> normalizeLimit v = min 20 (Math_floor l)"
  by (simp add: normalizeLimit_def)

lemma normalizeMealFilter_numeric:
  assumes "normalizeMealFilter (JNum n) = Some f"
  shows "f \<in> set MEAL_CODES"
proof (cases n)
  case (Fin q)
  from assms have q: "1 \<le> q" "q \<le> 5" and f: "f = MEAL_CODES ! nat (\<lfloor>q\<rfloor> - 1)"
    unfolding Fin by (auto split: if_splits)
  from q have "\<lfloor>q\<rfloor> \<le> 5" by (simp add: floor_le_iff)
  hence "nat (\<lfloor>q\<rfloor> - 1) < 5" by linarith
  moreover have "length MEAL_CODES = 5" by (simp add: MEAL_CODES_def)
  ultimately have "nat (\<lfloor>q\<rfloor> - 1) < length MEAL_CODES" by simp
  thus ?thesis unfolding f by (rule nth_mem)
qed (use assms in simp_all)

lemma normalizeMealFilter_nonempty: "normalizeMealFilter v = Some f \<Longrightarrow> f \<noteq> []"
proof (cases v)
  case (JStr s)
  assume "normalizeMealFilter v = Some f"
  thus ?thesis unfolding JStr by (auto simp: Let_def split: if_splits)
next
  case (JNum n)
  assume "normalizeMealFilter v = Some f"
  hence "f \<in> set MEAL_CODES" unfolding JNum by (rule normalizeMealFilter_numeric)
  thus ?thesis by (auto simp: MEAL_CODES_def asc_def)
qed simp_all

lemma pageOf_kept:
  "set (pageOf input generated) \<subseteq>
     {g \<in> set generated.
        keepTour (resolveEffectiveNightsRange input)
          (nullish (toFiniteNumber (in_budget_min input)) 0)
          (nullish (toFiniteNumber (in_budget_max input)) 0)
          (toFiniteNumber (in_rating input))
          (normalizeMealFilter (in_meal input)) g}"
proof -
  define keep where "keep = keepTour (resolveEffectiveNightsRange input)
                (nullish (toFiniteNumber (in_budget_min input)) 0)
                (nullish (toFiniteNumber (in_budget_max input)) 0)
                (toFiniteNumber (in_rating input))
                (normalizeMealFilter (in_meal input))"
  define sorted where "sorted =
     (if normalizeSort (in_sort input) = price_desc
      then sort_key (\<lambda>t. - r_price t) (filter keep generated)
      else sort_key r_price (filter keep generated))"
  have p: "pageOf input generated = take (nat \<lfloor>normalizeLimit (in_limit input)\<rfloor>)
     (drop (nat \<lfloor>normalizeOffset (in_offset input)\<rfloor>) sorted)"
    unfolding pageOf_def Let_def sorted_def keep_def by simp
  have "set sorted = set (filter keep generated)" unfolding sorted_def by simp
  moreover have "set (pageOf input generated) \<subseteq> set sorted"
    unfolding p by (meson set_take_subset set_drop_subset subset_trans)
  ultimately show ?thesis unfolding keep_def by auto
qed

lemma pageOf_length:
  "length (pageOf input generated) \<le> nat \<lfloor>normalizeLimit (in_limit input)\<rfloor>"
  by (simp add: pageOf_def Let_def)

text \<open>The first page is not empty when the filter keeps a tour of the market.\<close>

lemma pageOf_nonempty:
  assumes "x \<in> set generated"
    and "keepTour (resolveEffectiveNightsRange input)
          (nullish (toFiniteNumber (in_budget_min input)) 0)
          (nullish (toFiniteNumber (in_budget_max input)) 0)
          (toFiniteNumber (in_rating input))
          (normalizeMealFilter (in_meal input)) x"
    and "1 \<le> normalizeLimit (in_limit input)"
    and "normalizeOffset (in_offset input) = 0"
  shows "pageOf input generated \<noteq> []"
proof -
  define keep where "keep = keepTour (resolveEffectiveNightsRange input)
                (nullish (toFiniteNumber (in_budget_min input)) 0)
                (nullish (toFiniteNumber (in_budget_max input)) 0)
                (toFiniteNumber (in_rating input))
                (normalizeMealFilter (in_meal input))"
  define sorted where "sorted =
     (if normalizeSort (in_sort input) = price_desc
      then sort_key (\<lambda>t. - r_price t) (filter keep generated)
      else sort_key r_price (filter keep generated))"
  have p: "pageOf input generated = take (nat \<lfloor>normalizeLimit (in_limit input)\<rfloor>) sorted"
    unfolding pageOf_def Let_def sorted_def keep_def assms(4) by simp
  have "x \<in> set (filter keep generated)" using assms(1,2) unfolding keep_def by simp
  hence "filter keep generated \<noteq> []" by (metis empty_iff empty_set)
  moreover have "length sorted = length (filter keep generated)" unfolding sorted_def by simp
  ultimately have s: "sorted \<noteq> []" by (metis length_0_conv)
  from assms(3) have "1 \<le> \<lfloor>normalizeLimit (in_limit input)\<rfloor>" by (simp add: le_floor_iff)
  hence "0 < nat \<lfloor>normalizeLimit (in_limit input)\<rfloor>" by linarith
  thus ?thesis unfolding p using s by (cases sorted) (simp_all add: take_Cons')
qed

lemma pageOutput_bare:
  "map bare (mo_results (pageOutput rt input seed generated dest pool dbg)) =
   map bare (pageOf input generated)"
proof -
  have "map bare (mo_results (pageOutput rt input seed generated dest pool dbg)) =
        map bare (assignImagesForPage rt seed (d_slug dest) (normalizeOffset (in_offset input))
                    pool (pageOf input generated))"
    by (simp add: pageOutput_def Let_def bare_raw comp_def)
  thus ?thesis by (simp add: assignImagesForPage_bare)
qed

lemma buildTours_some:
  assumes "resolveDestination input = Some dest"
  shows "buildTours w rt input seed =
           Some (tourLoop (marketParams w rt input dest seed) 0
                   (fst (randomInt (makeRng rt (seed @ asc '':market'')) 60 100))
                   (nat \<lfloor>snd (randomInt (makeRng rt (seed @ asc '':market'')) 60 100)\<rfloor>))"
  by (simp add: buildTours_def split_beta assms)

lemma buildTours_none:
  assumes "resolveDestination input = None"
  shows "buildTours w rt input seed = None"
  by (simp add: buildTours_def split_beta assms)

lemma mockSearchTours_some:
  assumes "resolveDestination input = Some dest"
  shows "mockSearchTours w rt cache input =
           Some (pageOutput rt input (makeSeedFromInput rt input)
                   (tourLoop (marketParams w rt input dest (makeSeedFromInput rt input)) 0
                      (fst (randomInt (makeRng rt (makeSeedFromInput rt input @ asc '':market'')) 60 100))
                      (nat \<lfloor>snd (randomInt (makeRng rt (makeSeedFromInput rt input @ asc '':market''))
                                   60 100)\<rfloor>))
                   dest (fst (getImagePool w cache (d_slug dest))) (MOCK_DEBUG w),
                 snd (getImagePool w cache (d_slug dest)))"
  by (simp add: mockSearchTours_def Let_def buildTours_some [OF assms] assms split_beta)

lemma mockSearchTours_none:
  assumes "resolveDestination input = None"
  shows "mockSearchTours w rt cache input = None"
  by (simp add: mockSearchTours_def Let_def buildTours_none [OF assms])

text \<open>
  What a successful call returns: its results are, image and \<open>raw\<close> apart, the
  page of the market.
\<close>

lemma mockSearchTours_page:
  assumes "mockSearchTours w rt cache input = Some (out, cache')"
  shows "\<exists>generated.
           buildTours w rt input (makeSeedFromInput rt input) = Some generated \<and>
           map bare (mo_results out) = map bare (pageOf input generated)"
proof (cases "resolveDestination input")
  case None
  from mockSearchTours_none [OF this] assms show ?thesis by simp
next
  case (Some dest)
  from mockSearchTours_some [OF Some, of w rt cache] assms buildTours_some [OF Some, of w rt]
  show ?thesis by (auto simp: pageOutput_bare)
qed

lemma buildTours_meal:
  assumes "buildTours w rt input seed = Some generated" and "g \<in> set generated"
  shows "r_meal g \<in> set MEAL_CODES"
proof -
  from assms(1) obtain mp st n where "generated = tourLoop mp 0 st n"
    unfolding buildTours_def Let_def by (auto simp: split_beta split: option.splits)
  with assms(2) tourLoop_all [of "\<lambda>t. r_meal t \<in> set MEAL_CODES" mp 0 st n] tourAt_meal
  show ?thesis by blast
qed

text \<open>
  C10. Every tour that the synthetic backend returns satisfies the filters of the
  request: its nights lie in the effective range of nights (which lies in 1 to 30,
  lower bound first); its price is at most \<open>budget_max\<close> when that is positive and at
  least \<open>budget_min\<close> when that is positive; when a positive rating is asked for, the
  tour has a rating and it is at least that; when the request has a meal filter,
  the meal of the tour is the normalised filter; and a page has at most \<open>limit\<close>
  tours, where \<open>limit\<close> is at most 20 (and the whole part of the requested limit when
  that is a positive number below 20).
\<close>

theorem C10_results_satisfy_filters:
  assumes "mockSearchTours w rt cache input = Some (out, cache')"
    and "t \<in> set (mo_results out)"
  shows "(fst (resolveEffectiveNightsRange input) \<le> r_nights t \<and>
          r_nights t \<le> snd (resolveEffectiveNightsRange input) \<and>
          1 \<le> fst (resolveEffectiveNightsRange input) \<and>
          fst (resolveEffectiveNightsRange input) \<le> snd (resolveEffectiveNightsRange input) \<and>
          snd (resolveEffectiveNightsRange input) \<le> 30) \<and>
         (\<forall>b. toFiniteNumber (in_budget_max input) = Some b \<and> 0 < b \<longrightarrow> r_price t \<le> b) \<and>
         (\<forall>b. toFiniteNumber (in_budget_min input) = Some b \<and> 0 < b \<longrightarrow> b \<le> r_price t) \<and>
         (\<forall>q. toFiniteNumber (in_rating input) = Some q \<and> 0 < q \<longrightarrow>
              (\<exists>v. r_rating t = Some v \<and> q \<le> v)) \<and>
         (\<forall>f. normalizeMealFilter (in_meal input) = Some f \<longrightarrow> r_meal t = f) \<and>
         (length (mo_results out) \<le> nat \<lfloor>normalizeLimit (in_limit input)\<rfloor> \<and>
          normalizeLimit (in_limit input) \<le> 20 \<and>
          (\<forall>l. toFiniteNumber (in_limit input) = Some l \<and> 0 < l \<longrightarrow>
               normalizeLimit (in_limit input) = min 20 (Math_floor l)))"
proof -
  from mockSearchTours_page [OF assms(1)] obtain generated where
    g: "buildTours w rt input (makeSeedFromInput rt input) = Some generated" and
    b: "map bare (mo_results out) = map bare (pageOf input generated)"
    by blast
  define kept where "kept = pageOf input generated"
  note b = b [folded kept_def]
  have k: "set kept \<subseteq> {g \<in> set generated.
              keepTour (resolveEffectiveNightsRange input)
                (nullish (toFiniteNumber (in_budget_min input)) 0)
                (nullish (toFiniteNumber (in_budget_max input)) 0)
                (toFiniteNumber (in_rating input))
                (normalizeMealFilter (in_meal input)) g}"
    unfolding kept_def by (rule pageOf_kept)
  have l: "length kept \<le> nat \<lfloor>normalizeLimit (in_limit input)\<rfloor>"
    unfolding kept_def by (rule pageOf_length)
  from assms(2) have "bare t \<in> set (map bare (mo_results out))" by simp
  then obtain x where x: "x \<in> set kept" and tx: "bare t = bare x" unfolding b by auto
  from k x have xg: "x \<in> set generated" and
    keep: "keepTour (resolveEffectiveNightsRange input)
                (nullish (toFiniteNumber (in_budget_min input)) 0)
                (nullish (toFiniteNumber (in_budget_max input)) 0)
                (toFiniteNumber (in_rating input))
                (normalizeMealFilter (in_meal input)) x"
    by auto
  have fields: "r_nights t = r_nights x" "r_price t = r_price x" "r_rating t = r_rating x"
    "r_meal t = r_meal x"
    using bare_fields(1-4) [of t] bare_fields(1-4) [of x] tx by simp_all
  note kp = keep [unfolded keepTour_iff]
  have nights: "fst (resolveEffectiveNightsRange input) \<le> r_nights t \<and>
          r_nights t \<le> snd (resolveEffectiveNightsRange input) \<and>
          1 \<le> fst (resolveEffectiveNightsRange input) \<and>
          fst (resolveEffectiveNightsRange input) \<le> snd (resolveEffectiveNightsRange input) \<and>
          snd (resolveEffectiveNightsRange input) \<le> 30"
    using kp nights_range [of input] unfolding fields by simp
  have bmax: "\<forall>b. toFiniteNumber (in_budget_max input) = Some b \<and> 0 < b \<longrightarrow> r_price t \<le> b"
    using kp unfolding fields by (auto simp: nullish_def)
  have bmin: "\<forall>b. toFiniteNumber (in_budget_min input) = Some b \<and> 0 < b \<longrightarrow> b \<le> r_price t"
    using kp unfolding fields by (auto simp: nullish_def)
  have rating: "\<forall>q. toFiniteNumber (in_rating input) = Some q \<and> 0 < q \<longrightarrow>
              (\<exists>v. r_rating t = Some v \<and> q \<le> v)"
    using kp unfolding fields by (auto simp: ratingRejected_def split: option.splits)
  have meal: "\<forall>f. normalizeMealFilter (in_meal input) = Some f \<longrightarrow> r_meal t = f"
  proof (intro allI impI)
    fix f assume f: "normalizeMealFilter (in_meal input) = Some f"
    from kp have "\<not> mealRejected (Some f) x" unfolding f by simp
    hence "toUpperCase (r_meal x) = f"
      using normalizeMealFilter_nonempty [OF f] by (simp add: mealRejected_def)
    moreover have "toUpperCase (r_meal x) = r_meal x"
      using buildTours_meal [OF g xg] by (rule toUpperCase_meal)
    ultimately show "r_meal t = f" unfolding fields by simp
  qed
  have "length (mo_results out) = length kept"
    using arg_cong [OF b, of length] by simp
  hence page: "length (mo_results out) \<le> nat \<lfloor>normalizeLimit (in_limit input)\<rfloor> \<and>
          normalizeLimit (in_limit input) \<le> 20 \<and>
          (\<forall>l. toFiniteNumber (in_limit input) = Some l \<and> 0 < l \<longrightarrow>
               normalizeLimit (in_limit input) = min 20 (Math_floor l))"
    using l normalizeLimit_range [of "in_limit input"] normalizeLimit_requested [of "in_limit input"]
    by auto
  from nights bmax bmin rating meal page show ?thesis by blast
qed
subsection \<open>A request with every filter set\<close>

lemma egyptRequest_read:
  "makeSeedFromInput demoRuntime egyptRequest = asc ''demo''"
  "resolveDestination egyptRequest = Some (DESTINATIONS ! 1)"
  "resolveEffectiveNightsRange egyptRequest = (7, 9)"
  "toFiniteNumber (in_budget_max egyptRequest) = Some 400000"
  "toFiniteNumber (in_budget_min egyptRequest) = Some 100000"
  "toFiniteNumber (in_rating egyptRequest) = Some (7 / 2)"
  "normalizeMealFilter (in_meal egyptRequest) = Some (asc ''AI'')"
  "normalizeLimit (in_limit egyptRequest) = 3"
  "normalizeOffset (in_offset egyptRequest) = 0"
  by code_simp+

text \<open>
  The fifth tour of the market of this request (104400 for 8 nights, all
  inclusive, rated 3.9) passes the filter.
\<close>

lemma egyptRequest_fifth:
  "keepTour (7, 9) 100000 400000 (Some (7 / 2)) (Some (asc ''AI''))
     (tourLoop (marketParams worldNov2 demoRuntime egyptRequest (DESTINATIONS ! 1) (asc ''demo'')) 0
        (fst (randomInt (makeRng demoRuntime (asc ''demo'' @ asc '':market'')) 60 100)) 5 ! 4)"
  by code_simp

theorem C10_results_satisfy_filters_witness:
  "\<exists>out cache'.
     mockSearchTours worldNov2 demoRuntime noCache egyptRequest = Some (out, cache') \<and>
     mo_results out \<noteq> [] \<and>
     7 \<le> r_nights (hd (mo_results out)) \<and> r_nights (hd (mo_results out)) \<le> 9 \<and>
     100000 \<le> r_price (hd (mo_results out)) \<and> r_price (hd (mo_results out)) \<le> 400000 \<and>
     (\<exists>v. r_rating (hd (mo_results out)) = Some v \<and> 7 / 2 \<le> v) \<and>
     r_meal (hd (mo_results out)) = asc ''AI'' \<and>
     length (mo_results out) \<le> 3"
proof -
  define st where "st = fst (randomInt (makeRng demoRuntime (asc ''demo'' @ asc '':market'')) 60 100)"
  define n where "n = nat \<lfloor>snd (randomInt (makeRng demoRuntime (asc ''demo'' @ asc '':market'')) 60 100)\<rfloor>"
  define mp where "mp = marketParams worldNov2 demoRuntime egyptRequest (DESTINATIONS ! 1) (asc ''demo'')"
  define out where "out = pageOutput demoRuntime egyptRequest (asc ''demo'') (tourLoop mp 0 st n)
     (DESTINATIONS ! 1) (fst (getImagePool worldNov2 noCache (d_slug (DESTINATIONS ! 1))))
     (MOCK_DEBUG worldNov2)"
  have run: "mockSearchTours worldNov2 demoRuntime noCache egyptRequest =
               Some (out, snd (getImagePool worldNov2 noCache (d_slug (DESTINATIONS ! 1))))"
    using mockSearchTours_some [OF egyptRequest_read(2), of worldNov2 demoRuntime noCache]
    unfolding egyptRequest_read(1) out_def mp_def st_def n_def .
  have "60 \<le> n" unfolding n_def by (rule randomInt_market)
  hence "5 \<le> n" by simp
  hence x: "tourLoop mp 0 st 5 ! 4 \<in> set (tourLoop mp 0 st n)" by (rule tourLoop_fifth)
  have k: "keepTour (resolveEffectiveNightsRange egyptRequest)
          (nullish (toFiniteNumber (in_budget_min egyptRequest)) 0)
          (nullish (toFiniteNumber (in_budget_max egyptRequest)) 0)
          (toFiniteNumber (in_rating egyptRequest))
          (normalizeMealFilter (in_meal egyptRequest)) (tourLoop mp 0 st 5 ! 4)"
    unfolding egyptRequest_read nullish_def option.case mp_def st_def
    by (rule egyptRequest_fifth)
  have "pageOf egyptRequest (tourLoop mp 0 st n) \<noteq> []"
    using pageOf_nonempty [OF x k] by (simp add: egyptRequest_read)
  moreover have "map bare (mo_results out) = map bare (pageOf egyptRequest (tourLoop mp 0 st n))"
    unfolding out_def by (rule pageOutput_bare)
  ultimately have ne: "mo_results out \<noteq> []" by (metis map_is_Nil_conv)
  hence h: "hd (mo_results out) \<in> set (mo_results out)" by simp
  note c = C10_results_satisfy_filters [OF run h, unfolded egyptRequest_read fst_conv snd_conv]
  from c have c1: "7 \<le> r_nights (hd (mo_results out))" "r_nights (hd (mo_results out)) \<le> 9"
    by blast+
  from c have c2: "r_price (hd (mo_results out)) \<le> 400000" by simp
  from c have c3: "100000 \<le> r_price (hd (mo_results out))" by simp
  from c have r: "\<forall>q. Some (7 / 2 :: rat) = Some q \<and> 0 < q \<longrightarrow>
      (\<exists>v. r_rating (hd (mo_results out)) = Some v \<and> q \<le> v)" by blast
  have c4: "\<exists>v. r_rating (hd (mo_results out)) = Some v \<and> 7 / 2 \<le> v"
    using r [rule_format, of "7 / 2"] by simp
  from c have c5: "r_meal (hd (mo_results out)) = asc ''AI''" by simp
  from c have c6: "length (mo_results out) \<le> 3" by simp
  from run ne c1 c2 c3 c4 c5 c6 show ?thesis by blast
qed

section \<open>The synthetic search backend and the clock (C9)\<close>

subsection \<open>Requests with fixed dates\<close>

lemma parseDateSafe_fixed:
  assumes "normalizeDate v = Some s" and "rt_Date rt (s @ asc ''T00:00:00Z'') \<noteq> None"
  shows "parseDateSafe rt v fb = parseDateSafe rt v fb'"
  using assms by (auto simp: parseDateSafe_def)

lemma marketParams_fixed:
  assumes "fixedDates rt input"
  shows "marketParams w2 rt input dest seed = marketParams w1 rt input dest seed"
proof (cases "normalizePeriod (in_period input)")
  case None
  with assms obtain s where s: "normalizeDate (in_date_from input) = Some s"
    "rt_Date rt (s @ asc ''T00:00:00Z'') \<noteq> None"
    by (auto simp: fixedDates_def split: option.splits)
  have "parseDateSafe rt (in_date_from input) (now_build w2) =
        parseDateSafe rt (in_date_from input) (now_build w1)"
    using s by (rule parseDateSafe_fixed)
  thus ?thesis by (simp add: marketParams_def Let_def None resolvePeriodDates_def)
next
  case (Some p)
  with assms have "p = summer \<or> p = autumn"
    by (cases p) (simp_all add: fixedDates_def)
  thus ?thesis by (auto simp: marketParams_def Let_def Some resolvePeriodDates_def)
qed

lemma getImagePool_cached:
  "snd (getImagePool w cache slug) slug = Some (fst (getImagePool w cache slug))"
  by (simp add: getImagePool_def Let_def split: option.splits)

lemma getImagePool_hit:
  assumes "cache slug = Some files"
  shows "fst (getImagePool w cache slug) = files"
  using assms by (simp add: getImagePool_def)

text \<open>
  C9. Two calls with the same request return the same output (request id,
  ordered results with their images and \<open>raw\<close>, latency), or both throw, under
  three conditions: the dates of the request do not come from the clock (the
  period is the summer or the autumn, or there is no period and \<open>date_from\<close> is a
  date the runtime accepts); \<open>MOCK_DEBUG\<close> is set alike at both calls; and the second call runs
  with a cache of image pools that holds what the first call left in it (the
  cache of a process only grows). The clock and the content of the image
  directories at the second call are then arbitrary.
\<close>

theorem C9_same_request_same_output:
  assumes "fixedDates rt input"
    and "MOCK_DEBUG w2 = MOCK_DEBUG w1"
    and "\<And>out1 cache1. mockSearchTours w1 rt cache input = Some (out1, cache1) \<Longrightarrow>
           map_le cache1 cache2"
  shows "map_option fst (mockSearchTours w2 rt cache2 input) =
         map_option fst (mockSearchTours w1 rt cache input)"
proof (cases "resolveDestination input")
  case None
  thus ?thesis by (simp add: mockSearchTours_none)
next
  case (Some dest)
  note run1 = mockSearchTours_some [OF Some, of w1 rt cache]
  note run2 = mockSearchTours_some [OF Some, of w2 rt cache2]
  from assms(3) [OF run1] have le: "map_le (snd (getImagePool w1 cache (d_slug dest))) cache2" .
  have "d_slug dest \<in> dom (snd (getImagePool w1 cache (d_slug dest)))"
    using getImagePool_cached [of w1 cache "d_slug dest"] by blast
  with le have "cache2 (d_slug dest) = snd (getImagePool w1 cache (d_slug dest)) (d_slug dest)"
    by (simp add: map_le_def)
  hence "cache2 (d_slug dest) = Some (fst (getImagePool w1 cache (d_slug dest)))"
    by (simp add: getImagePool_cached)
  hence pool: "fst (getImagePool w2 cache2 (d_slug dest)) = fst (getImagePool w1 cache (d_slug dest))"
    by (rule getImagePool_hit)
  show ?thesis
    unfolding run1 run2 by (simp add: pool assms(2) marketParams_fixed [OF assms(1), of w2 dest _ w1])
qed

lemma egyptRequest_fixed: "fixedDates demoRuntime egyptRequest"
  by code_simp

text \<open>
  The request for Egypt from 1 June 2026, asked on 2 November and again 40 days
  later, when the image directory is gone: the second call returns what the
  first returned.
\<close>

theorem C9_same_request_same_output_witness:
  "fixedDates demoRuntime egyptRequest \<and> MOCK_DEBUG worldDec12 = MOCK_DEBUG worldNov2 \<and>
   mockSearchTours worldNov2 demoRuntime noCache egyptRequest \<noteq> None \<and>
   map_option fst
     (mockSearchTours worldDec12 demoRuntime
        (snd (the (mockSearchTours worldNov2 demoRuntime noCache egyptRequest))) egyptRequest) =
   map_option fst (mockSearchTours worldNov2 demoRuntime noCache egyptRequest)"
proof -
  have d: "MOCK_DEBUG worldDec12 = MOCK_DEBUG worldNov2"
    by (simp add: worldDec12_def worldNov2_def)
  have n: "mockSearchTours worldNov2 demoRuntime noCache egyptRequest \<noteq> None"
    by (simp add: mockSearchTours_some [OF egyptRequest_read(2)])
  have "map_option fst
     (mockSearchTours worldDec12 demoRuntime
        (snd (the (mockSearchTours worldNov2 demoRuntime noCache egyptRequest))) egyptRequest) =
   map_option fst (mockSearchTours worldNov2 demoRuntime noCache egyptRequest)"
    by (rule C9_same_request_same_output [OF egyptRequest_fixed d]) simp
  with egyptRequest_fixed d n show ?thesis by blast
qed

subsection \<open>Requests whose dates come from the clock\<close>

lemma tourLoop_dates:
  "\<forall>t\<in>set (tourLoop mp i st n).
     mp_fromDate mp div msPerDay \<le> r_date_from t \<and>
     r_date_from t \<le> mp_fromDate mp div msPerDay + max 22 (mp_rangeDays mp + 1)"
  by (rule tourLoop_all) (rule tourAt_date)

lemma marketParams_nights:
  "mp_nights_min (marketParams w rt input dest seed) = fst (resolveEffectiveNightsRange input)"
  "mp_nights_max (marketParams w rt input dest seed) = snd (resolveEffectiveNightsRange input)"
  by (simp_all add: marketParams_def Let_def split_beta)

lemma nextMonthRequest_read:
  "resolveDestination nextMonthRequest = Some (DESTINATIONS ! 0)"
  "resolveEffectiveNightsRange nextMonthRequest = (6, 10)"
  "toFiniteNumber (in_budget_max nextMonthRequest) = None"
  "toFiniteNumber (in_budget_min nextMonthRequest) = None"
  "toFiniteNumber (in_rating nextMonthRequest) = None"
  "normalizeMealFilter (in_meal nextMonthRequest) = None"
  "normalizeLimit (in_limit nextMonthRequest) = 10"
  "normalizeOffset (in_offset nextMonthRequest) = 0"
  "normalizePeriod (in_period nextMonthRequest) = Some next_month"
  "\<not> fixedDates demoRuntime nextMonthRequest"
  by code_simp+

lemma nextMonth_dates:
  "mp_fromDate (marketParams worldNov2 rt nextMonthRequest dest seed) div msPerDay = 20759"
  "mp_rangeDays (marketParams worldNov2 rt nextMonthRequest dest seed) = 30"
  "mp_fromDate (marketParams worldDec12 rt nextMonthRequest dest seed) div msPerDay = 20799"
  "mp_rangeDays (marketParams worldDec12 rt nextMonthRequest dest seed) = 30"
  by (simp_all add: marketParams_def Let_def split_beta nextMonthRequest_read
      resolvePeriodDates_def worldNov2_def worldDec12_def days_from_civil_def msPerDay_def
      addDays_def)

text \<open>
  The results of a call for the next month carry dates within 31 days from the
  day of the call, and the first page is not empty.
\<close>

lemma nextMonth_results:
  assumes "w = worldNov2 \<and> day = 20759 \<or> w = worldDec12 \<and> day = 20799"
  shows "\<exists>out cache'.
           mockSearchTours w rt cache nextMonthRequest = Some (out, cache') \<and>
           mo_results out \<noteq> [] \<and>
           (\<forall>t\<in>set (mo_results out). day \<le> r_date_from t \<and> r_date_from t \<le> day + 31)"
proof -
  define seed where "seed = makeSeedFromInput rt nextMonthRequest"
  define st where "st = fst (randomInt (makeRng rt (seed @ asc '':market'')) 60 100)"
  define n where "n = nat \<lfloor>snd (randomInt (makeRng rt (seed @ asc '':market'')) 60 100)\<rfloor>"
  define mp where "mp = marketParams w rt nextMonthRequest (DESTINATIONS ! 0) seed"
  define generated where "generated = tourLoop mp 0 st n"
  define out where "out = pageOutput rt nextMonthRequest seed generated (DESTINATIONS ! 0)
     (fst (getImagePool w cache (d_slug (DESTINATIONS ! 0)))) (MOCK_DEBUG w)"
  have run: "mockSearchTours w rt cache nextMonthRequest =
               Some (out, snd (getImagePool w cache (d_slug (DESTINATIONS ! 0))))"
    using mockSearchTours_some [OF nextMonthRequest_read(1), of w rt cache]
    unfolding out_def generated_def mp_def st_def n_def seed_def .
  have b: "map bare (mo_results out) = map bare (pageOf nextMonthRequest generated)"
    unfolding out_def by (rule pageOutput_bare)
  have dates: "mp_fromDate mp div msPerDay = day" "mp_rangeDays mp = 30"
    using assms unfolding mp_def by (auto simp: nextMonth_dates)
  have "60 \<le> n" unfolding n_def by (rule randomInt_market)
  hence "4 < 0 + n" by simp
  from tourLoop_has_fifth [OF _ this, of mp st]
  obtain x where x: "x \<in> set generated"
    and xn: "r_nights x = clamp 8 (mp_nights_min mp) (mp_nights_max mp)"
    unfolding generated_def by auto
  have "r_nights x = 8"
    unfolding xn mp_def marketParams_nights nextMonthRequest_read by (simp add: clamp_def)
  hence k: "keepTour (resolveEffectiveNightsRange nextMonthRequest)
          (nullish (toFiniteNumber (in_budget_min nextMonthRequest)) 0)
          (nullish (toFiniteNumber (in_budget_max nextMonthRequest)) 0)
          (toFiniteNumber (in_rating nextMonthRequest))
          (normalizeMealFilter (in_meal nextMonthRequest)) x"
    by (simp add: keepTour_iff nextMonthRequest_read nullish_def ratingRejected_def
        mealRejected_def)
  have "pageOf nextMonthRequest generated \<noteq> []"
    using pageOf_nonempty [OF x k] by (simp add: nextMonthRequest_read)
  with b have ne: "mo_results out \<noteq> []" by (metis map_is_Nil_conv)
  have "\<forall>t\<in>set (mo_results out). day \<le> r_date_from t \<and> r_date_from t \<le> day + 31"
  proof
    fix t assume "t \<in> set (mo_results out)"
    hence "bare t \<in> set (map bare (mo_results out))" by simp
    then obtain g where g: "g \<in> set (pageOf nextMonthRequest generated)" and tg: "bare t = bare g"
      unfolding b by auto
    from g pageOf_kept [of nextMonthRequest generated] have "g \<in> set generated" by auto
    with tourLoop_dates [of mp 0 st n]
    have "day \<le> r_date_from g \<and> r_date_from g \<le> day + 31"
      unfolding generated_def dates by simp
    moreover have "r_date_from t = r_date_from g"
      using bare_fields(5) [of t] bare_fields(5) [of g] tg by simp
    ultimately show "day \<le> r_date_from t \<and> r_date_from t \<le> day + 31" by simp
  qed
  with run ne show ?thesis by blast
qed

lemma clock_moves_results:
  "\<exists>out1 cache1 out2 cache2.
     mockSearchTours worldNov2 rt cache nextMonthRequest = Some (out1, cache1) \<and>
     mockSearchTours worldDec12 rt cache1 nextMonthRequest = Some (out2, cache2) \<and>
     mo_results out1 \<noteq> mo_results out2"
proof -
  from nextMonth_results [of worldNov2 20759 rt cache]
  obtain out1 cache1 where r1: "mockSearchTours worldNov2 rt cache nextMonthRequest = Some (out1, cache1)"
    and ne: "mo_results out1 \<noteq> []"
    and d1: "\<forall>t\<in>set (mo_results out1). 20759 \<le> r_date_from t \<and> r_date_from t \<le> 20759 + 31"
    by auto
  from nextMonth_results [of worldDec12 20799 rt cache1]
  obtain out2 cache2 where r2: "mockSearchTours worldDec12 rt cache1 nextMonthRequest = Some (out2, cache2)"
    and d2: "\<forall>t\<in>set (mo_results out2). 20799 \<le> r_date_from t \<and> r_date_from t \<le> 20799 + 31"
    by auto
  have "mo_results out1 \<noteq> mo_results out2"
  proof
    assume e: "mo_results out1 = mo_results out2"
    from ne have h: "hd (mo_results out1) \<in> set (mo_results out1)" by simp
    from d1 h have "r_date_from (hd (mo_results out1)) \<le> 20759 + 31" by blast
    moreover from d2 h e have "20799 \<le> r_date_from (hd (mo_results out1))" by simp
    ultimately show False by simp
  qed
  with r1 r2 show ?thesis by blast
qed

text \<open>
  The same request for the next month, with the same explicit seed, on 2
  November 2026 and 40 days later in the same process: both calls return tours,
  and the result lists differ, because the dates of the tours are counted from
  the day of the call. This holds with any hash functions in the place of those
  of the stand-in runtime.
\<close>

theorem C9_next_month_counterexample:
  "\<not> fixedDates demoRuntime nextMonthRequest \<and>
   (\<exists>out1 cache1 out2 cache2.
      mockSearchTours worldNov2 demoRuntime noCache nextMonthRequest = Some (out1, cache1) \<and>
      mockSearchTours worldDec12 demoRuntime cache1 nextMonthRequest = Some (out2, cache2) \<and>
      mo_results out1 \<noteq> mo_results out2)"
  using nextMonthRequest_read(10) clock_moves_results [of demoRuntime noCache] by blast

end
